theory Spec2Isabelle
  imports Main
begin

section \<open>Values, classes and errors\<close>

text \<open>
  The eleven kinds of database object. The declared classes (\<open>Server\<close>, \<open>Database\<close>, ...)
  and the reflected classes (\<open>ReflectedServer\<close>, \<open>ReflectedDatabase\<close>, ...) are paired by
  their \<open>object_type\<close>; one tag stands for both classes of a pair. The convenience
  subclasses of \<open>Column\<close> (\<open>IntegerColumn\<close>, \<open>VarcharColumn\<close>, ...) only fix constructor
  arguments and carry the tag \<open>Column\<close>.
\<close>

datatype cls = Server | Database | Schema | Table | Column | PrimaryKey | Index
  | ForeignKey | Partition | Login | User

fun object_type :: "cls \<Rightarrow> string" where
  "object_type Server = ''servers''"
| "object_type Database = ''databases''"
| "object_type Schema = ''schemas''"
| "object_type Table = ''tables''"
| "object_type Column = ''columns''"
| "object_type PrimaryKey = ''primary_keys''"
| "object_type Index = ''indexes''"
| "object_type ForeignKey = ''foreign_keys''"
| "object_type Partition = ''partitions''"
| "object_type Login = ''logins''"
| "object_type User = ''users''"

text \<open>\<open>attributes.valid_attributes\<close>: the registry, looked up by \<open>object_type\<close>.\<close>

fun valid_attributes :: "cls \<Rightarrow> string list" where
  "valid_attributes Login = [''type_desc'', ''server_roles'', ''password'']"
| "valid_attributes Database = [''recovery_model_desc'', ''data_size'', ''log_size'', ''owner'',
     ''data_file_path'', ''log_file_path'']"
| "valid_attributes Column = [''data_type'', ''char_max_len'', ''datetime_precision'',
     ''numeric_precision'', ''numeric_scale'', ''nullable'', ''identity'']"
| "valid_attributes ForeignKey = [''foreign_schema'', ''foreign_table'', ''foreign_column'', ''column'']"
| "valid_attributes PrimaryKey = [''columns'', ''clustered'', ''compression'']"
| "valid_attributes Index = [''columns'', ''clustered'', ''compression'', ''included_columns'', ''unique'']"
| "valid_attributes User = [''login_name'', ''db_roles'']"
| "valid_attributes Partition = [''column'']"
| "valid_attributes Table = []"
| "valid_attributes Schema = []"
| "valid_attributes Server = []"

text \<open>
  Python values that attributes, row fields and statement parameters hold: \<open>None\<close>,
  booleans, integers, strings, tuples of strings (index columns), sets of strings
  (roles, included columns) and dates. A set is given by the list of its members in the
  order in which iterating it yields them (an order Python leaves open); a date or
  datetime is given by the number of its day.
\<close>

datatype pyval = PNone | PBool bool | PInt int | PStr string | PTuple "string list"
  | PSet "string list" | PDate int

text \<open>Python's \<open>==\<close> on these values: \<open>True == 1\<close> and \<open>False == 0\<close> hold, values of
  different kinds are otherwise unequal.\<close>

fun py_eq :: "pyval \<Rightarrow> pyval \<Rightarrow> bool" where
  "py_eq (PBool b) (PInt i) = (i = (if b then 1 else 0))"
| "py_eq (PInt i) (PBool b) = (i = (if b then 1 else 0))"
| "py_eq (PSet a) (PSet b) = (set a = set b)"
| "py_eq v w = (v = w)"

text \<open>Python's truth value of a value (\<open>bool(v)\<close>, \<open>if v\<close>, \<open>not v\<close>).\<close>

fun truthy :: "pyval \<Rightarrow> bool" where
  "truthy PNone = False"
| "truthy (PBool b) = b"
| "truthy (PInt i) = (i \<noteq> 0)"
| "truthy (PStr s) = (s \<noteq> [])"
| "truthy (PTuple xs) = (xs \<noteq> [])"
| "truthy (PSet S) = (S \<noteq> [])"
| "truthy (PDate d) = True"

text \<open>
  A string of the model is a sequence of characters with code points below 256 (Latin-1).
  \<open>str.lower()\<close> on these: the letters \<open>A\<close> to \<open>Z\<close> and the upper-case letters of the upper
  half (\<open>0xC0\<close> to \<open>0xDE\<close> without the multiplication sign \<open>0xD7\<close>) are mapped to the
  character 32 code points above; every other character is kept.
\<close>

definition upper_case_letters :: string where
  "upper_case_letters = ''ABCDEFGHIJKLMNOPQRSTUVWXYZ'' @
    [CHR 0xC0, CHR 0xC1, CHR 0xC2, CHR 0xC3, CHR 0xC4, CHR 0xC5, CHR 0xC6, CHR 0xC7,
     CHR 0xC8, CHR 0xC9, CHR 0xCA, CHR 0xCB, CHR 0xCC, CHR 0xCD, CHR 0xCE, CHR 0xCF,
     CHR 0xD0, CHR 0xD1, CHR 0xD2, CHR 0xD3, CHR 0xD4, CHR 0xD5, CHR 0xD6, CHR 0xD8,
     CHR 0xD9, CHR 0xDA, CHR 0xDB, CHR 0xDC, CHR 0xDD, CHR 0xDE]"

definition lower_case_letters :: string where
  "lower_case_letters = ''abcdefghijklmnopqrstuvwxyz'' @
    [CHR 0xE0, CHR 0xE1, CHR 0xE2, CHR 0xE3, CHR 0xE4, CHR 0xE5, CHR 0xE6, CHR 0xE7,
     CHR 0xE8, CHR 0xE9, CHR 0xEA, CHR 0xEB, CHR 0xEC, CHR 0xED, CHR 0xEE, CHR 0xEF,
     CHR 0xF0, CHR 0xF1, CHR 0xF2, CHR 0xF3, CHR 0xF4, CHR 0xF5, CHR 0xF6, CHR 0xF8,
     CHR 0xF9, CHR 0xFA, CHR 0xFB, CHR 0xFC, CHR 0xFD, CHR 0xFE]"

definition lower_char :: "char \<Rightarrow> char" where
  "lower_char c = (case map_of (zip upper_case_letters lower_case_letters) c of
     Some l \<Rightarrow> l | None \<Rightarrow> c)"

definition lower :: "string \<Rightarrow> string" where
  "lower s = map lower_char s"

text \<open>The exceptions of \<open>sssm.exceptions\<close> and the built-in ones the code raises or meets.
  \<open>DriverError\<close> is whatever the database driver raises from \<open>execute\<close> or \<open>commit\<close>.\<close>

datatype exn = DBError | DBObjectDoesntExistError | DBNotAlteredAttributeError
  | InvalidDBEntityChildError | AttributeError | KeyError | ValueError | TypeError
  | IndexError | AssertionError | NotImplementedError | EOFError | RecursionError
  | PyException | DriverError

section \<open>The declared tree (declared.py)\<close>

text \<open>\<open>ignore_extra_children\<close> as stored: \<open>None\<close>, a boolean, or the set made of a list or
  tuple of child type names.\<close>

datatype ignore_extra = Ignore_None | Ignore_Bool bool | Ignore_Set "string list"

text \<open>
  A declared entity. \<open>d_children\<close> is the dictionary \<open>self.children\<close>, keyed by the child's
  \<open>object_type\<close> (here by the class tag, \<open>object_type\<close> being injective); \<open>d_attrs\<close> holds the
  instance attributes set from the registry.
\<close>

datatype declared = Declared
  (d_type: cls)
  (d_name: string)
  (d_old_name: "string option")
  (d_ignore: ignore_extra)
  (d_children: "(cls \<times> declared list) list")
  (d_attrs: "(string \<times> pyval) list")

text \<open>\<open>child_types\<close> of the declared classes.\<close>

fun declared_child_types :: "cls \<Rightarrow> cls list" where
  "declared_child_types Table = [Column, PrimaryKey, Index, Partition]"
| "declared_child_types Schema = [Table]"
| "declared_child_types Database = [Schema, User]"
| "declared_child_types Server = [Login, Database]"
| "declared_child_types _ = []"

text \<open>A keyword argument of a constructor: a declared object, a list of them, or a value.\<close>

datatype kwarg = KObj declared | KObjs "declared list" | KVal pyval

text \<open>\<open>kwargs.pop(key, None)\<close> and \<open>kwargs.pop(key)\<close>: the value and the remaining dictionary.\<close>

definition kwargs_pop :: "string \<Rightarrow> (string \<times> kwarg) list \<Rightarrow> kwarg option \<times> (string \<times> kwarg) list" where
  "kwargs_pop k kw = (map_of kw k, filter (\<lambda>p. fst p \<noteq> k) kw)"

text \<open>
  \<open>add_child\<close>: the child's class must be one of \<open>child_types\<close>; it is appended to the list
  under its own \<open>object_type\<close>, which is created when missing.
\<close>

fun children_append :: "cls \<Rightarrow> declared \<Rightarrow> (cls \<times> declared list) list \<Rightarrow> (cls \<times> declared list) list" where
  "children_append k c [] = [(k, [c])]"
| "children_append k c ((k', cs) # rest) =
     (if k' = k then (k', cs @ [c]) # rest else (k', cs) # children_append k c rest)"

definition add_child :: "declared \<Rightarrow> declared \<Rightarrow> exn + declared" where
  "add_child self declared_child =
     (if d_type declared_child \<notin> set (declared_child_types (d_type self))
      then Inl InvalidDBEntityChildError
      else Inr (Declared (d_type self) (d_name self) (d_old_name self) (d_ignore self)
             (children_append (d_type declared_child) declared_child (d_children self))
             (d_attrs self)))"

fun add_children :: "declared \<Rightarrow> declared list \<Rightarrow> exn + declared" where
  "add_children self [] = Inr self"
| "add_children self (c # cs) =
     (case add_child self c of Inl e \<Rightarrow> Inl e | Inr self' \<Rightarrow> add_children self' cs)"

text \<open>
  The first loop of \<open>__init__\<close>: for every child type its keyword is popped; \<open>None\<close> is
  skipped, a single object is wrapped into a list, every element is added with
  \<open>add_child\<close> (which rejects anything that is not a declared object of an allowed class).
\<close>

fun init_children :: "cls list \<Rightarrow> declared \<Rightarrow> (string \<times> kwarg) list \<Rightarrow> exn + (declared \<times> (string \<times> kwarg) list)" where
  "init_children [] self kw = Inr (self, kw)"
| "init_children (t # ts) self kw =
     (case kwargs_pop (object_type t) kw of
        (None, kw') \<Rightarrow> init_children ts self kw'
      | (Some (KVal PNone), kw') \<Rightarrow> init_children ts self kw'
      | (Some (KVal (PTuple [])), kw') \<Rightarrow> init_children ts self kw'
      | (Some (KVal _), kw') \<Rightarrow> Inl InvalidDBEntityChildError
      | (Some (KObj c), kw') \<Rightarrow>
          (case add_children self [c] of Inl e \<Rightarrow> Inl e | Inr self' \<Rightarrow> init_children ts self' kw')
      | (Some (KObjs cs), kw') \<Rightarrow>
          (case add_children self cs of Inl e \<Rightarrow> Inl e | Inr self' \<Rightarrow> init_children ts self' kw'))"

text \<open>
  The second loop: every registry attribute is popped from the keywords (\<open>KeyError\<close> when
  missing) and set on the object. Attribute values are plain values; a declared object
  passed under an attribute name is not modelled and is rejected with \<open>TypeError\<close>.
\<close>

fun init_attrs :: "string list \<Rightarrow> (string \<times> kwarg) list \<Rightarrow> exn + ((string \<times> pyval) list \<times> (string \<times> kwarg) list)" where
  "init_attrs [] kw = Inr ([], kw)"
| "init_attrs (a # as) kw =
     (case kwargs_pop a kw of
        (None, kw') \<Rightarrow> Inl KeyError
      | (Some (KVal v), kw') \<Rightarrow>
          (case init_attrs as kw' of Inl e \<Rightarrow> Inl e | Inr (vs, kw'') \<Rightarrow> Inr ((a, v) # vs, kw''))
      | (Some _, kw') \<Rightarrow> Inl TypeError)"

text \<open>The argument \<open>ignore_extra_children\<close> of the constructor and what is stored for it.\<close>

datatype ignore_arg = IA_None | IA_Bool bool | IA_List "string list"

fun store_ignore :: "ignore_arg \<Rightarrow> ignore_extra" where
  "store_ignore IA_None = Ignore_None"
| "store_ignore (IA_Bool b) = Ignore_Bool b"
| "store_ignore (IA_List xs) = Ignore_Set xs"

text \<open>\<open>DeclaredEntity.__init__(self, name, old_name, ignore_extra_children, **kwargs)\<close> for
  an object of class \<open>t\<close>.\<close>

definition DeclaredEntity_init ::
  "cls \<Rightarrow> string option \<Rightarrow> string option \<Rightarrow> ignore_arg \<Rightarrow> (string \<times> kwarg) list \<Rightarrow> exn + declared" where
  "DeclaredEntity_init t name old_name ignore_extra_children kwargs =
     (case name of
        None \<Rightarrow> Inl DBError
      | Some n \<Rightarrow>
         (case init_children (declared_child_types t)
                 (Declared t (take 128 n) old_name (store_ignore ignore_extra_children) [] []) kwargs of
            Inl e \<Rightarrow> Inl e
          | Inr (self, kw) \<Rightarrow>
             (case init_attrs (valid_attributes t) kw of
                Inl e \<Rightarrow> Inl e
              | Inr (vs, kw') \<Rightarrow>
                 if kw' \<noteq> [] then Inl ValueError
                 else Inr (Declared t (d_name self) (d_old_name self) (d_ignore self)
                        (d_children self) vs))))"

subsection \<open>The constructors of the declared classes\<close>

text \<open>
  A constructor is modelled as a function of the values that a call binds to its
  parameters: a parameter with a default takes the default when the call does not give
  it. Where a constructor passes \<open>**kwargs\<close> on to the constructor of its base class, the
  keywords that are parameters there (\<open>name\<close>, \<open>compression\<close>, \<open>old_name\<close>,
  \<open>ignore_extra_children\<close>) are parameters of the model as well, and the last argument is
  the list of the keywords that are no parameter of any constructor on the way. A name
  is a string or \<open>None\<close>.
\<close>

text \<open>\<open>Column\<close> and its subclasses.\<close>

definition Column_init ::
  "string option \<Rightarrow> pyval \<Rightarrow> pyval \<Rightarrow> pyval \<Rightarrow> pyval \<Rightarrow> pyval \<Rightarrow> pyval \<Rightarrow> pyval \<Rightarrow> string option
     \<Rightarrow> exn + declared" where
  "Column_init name data_type identity nullable char_max_len datetime_precision numeric_precision
       numeric_scale old_name =
     DeclaredEntity_init Column name old_name IA_None
       [(''data_type'', KVal data_type), (''identity'', KVal identity), (''nullable'', KVal nullable),
        (''char_max_len'', KVal char_max_len), (''datetime_precision'', KVal datetime_precision),
        (''numeric_precision'', KVal numeric_precision), (''numeric_scale'', KVal numeric_scale)]"

definition IntegerColumn_init ::
  "string option \<Rightarrow> pyval \<Rightarrow> pyval \<Rightarrow> pyval \<Rightarrow> pyval \<Rightarrow> pyval \<Rightarrow> pyval \<Rightarrow> string option
     \<Rightarrow> exn + declared" where
  "IntegerColumn_init name identity nullable char_max_len datetime_precision numeric_precision
       numeric_scale old_name =
     Column_init name (PStr ''int'') identity nullable char_max_len datetime_precision
       numeric_precision numeric_scale old_name"

definition FloatColumn_init ::
  "string option \<Rightarrow> pyval \<Rightarrow> pyval \<Rightarrow> pyval \<Rightarrow> pyval \<Rightarrow> pyval \<Rightarrow> pyval \<Rightarrow> string option
     \<Rightarrow> exn + declared" where
  "FloatColumn_init name small identity nullable char_max_len datetime_precision numeric_scale
       old_name =
     Column_init name (PStr ''float'') identity nullable char_max_len datetime_precision
       (PInt (if truthy small then 24 else 53)) numeric_scale old_name"

definition VarcharColumn_init ::
  "string option \<Rightarrow> pyval \<Rightarrow> pyval \<Rightarrow> pyval \<Rightarrow> pyval \<Rightarrow> pyval \<Rightarrow> pyval \<Rightarrow> string option
     \<Rightarrow> exn + declared" where
  "VarcharColumn_init name char_max_len identity nullable datetime_precision numeric_precision
       numeric_scale old_name =
     Column_init name (PStr ''varchar'') identity nullable char_max_len datetime_precision
       numeric_precision numeric_scale old_name"

definition DateColumn_init ::
  "string option \<Rightarrow> pyval \<Rightarrow> pyval \<Rightarrow> pyval \<Rightarrow> pyval \<Rightarrow> pyval \<Rightarrow> pyval \<Rightarrow> string option
     \<Rightarrow> exn + declared" where
  "DateColumn_init name identity nullable char_max_len datetime_precision numeric_precision
       numeric_scale old_name =
     Column_init name (PStr ''date'') identity nullable char_max_len datetime_precision
       numeric_precision numeric_scale old_name"

definition DateTimeColumn_init ::
  "string option \<Rightarrow> pyval \<Rightarrow> pyval \<Rightarrow> pyval \<Rightarrow> pyval \<Rightarrow> pyval \<Rightarrow> pyval \<Rightarrow> string option
     \<Rightarrow> exn + declared" where
  "DateTimeColumn_init name datetime_precision identity nullable char_max_len numeric_precision
       numeric_scale old_name =
     Column_init name (PStr ''datetime2'') identity nullable char_max_len datetime_precision
       numeric_precision numeric_scale old_name"

definition IdentityColumn_init ::
  "string option \<Rightarrow> pyval \<Rightarrow> pyval \<Rightarrow> pyval \<Rightarrow> pyval \<Rightarrow> string option \<Rightarrow> exn + declared" where
  "IdentityColumn_init name char_max_len datetime_precision numeric_precision numeric_scale
       old_name =
     IntegerColumn_init name (PBool True) (PBool False) char_max_len datetime_precision
       numeric_precision numeric_scale old_name"

text \<open>
  \<open>a >= b\<close> on values: numbers (a boolean counts as 0 or 1) by their value, strings and
  tuples of strings lexicographically (characters by code point), sets by inclusion,
  dates by their day; \<open>TypeError\<close> for \<open>None\<close> and for values of different kinds.
\<close>

fun seq_ge :: "('a \<Rightarrow> 'a \<Rightarrow> bool) \<Rightarrow> 'a list \<Rightarrow> 'a list \<Rightarrow> bool" where
  "seq_ge gt xs [] = True"
| "seq_ge gt [] (y # ys) = False"
| "seq_ge gt (x # xs) (y # ys) = (if x = y then seq_ge gt xs ys else gt x y)"

definition char_gt :: "char \<Rightarrow> char \<Rightarrow> bool" where
  "char_gt c d = ((of_char d :: nat) < of_char c)"

definition str_gt :: "string \<Rightarrow> string \<Rightarrow> bool" where
  "str_gt s t = (seq_ge char_gt s t \<and> s \<noteq> t)"

fun py_ge :: "pyval \<Rightarrow> pyval \<Rightarrow> exn + bool" where
  "py_ge (PInt i) (PInt j) = Inr (j \<le> i)"
| "py_ge (PInt i) (PBool b) = Inr ((if b then 1 else 0) \<le> i)"
| "py_ge (PBool a) (PInt j) = Inr (j \<le> (if a then 1 else 0))"
| "py_ge (PBool a) (PBool b) = Inr (b \<longrightarrow> a)"
| "py_ge (PStr s) (PStr t) = Inr (seq_ge char_gt s t)"
| "py_ge (PTuple xs) (PTuple ys) = Inr (seq_ge str_gt xs ys)"
| "py_ge (PSet xs) (PSet ys) = Inr (set ys \<subseteq> set xs)"
| "py_ge (PDate a) (PDate b) = Inr (b \<le> a)"
| "py_ge v w = Inl TypeError"

definition NumericColumn_init ::
  "string option \<Rightarrow> pyval \<Rightarrow> pyval \<Rightarrow> pyval \<Rightarrow> pyval \<Rightarrow> pyval \<Rightarrow> pyval \<Rightarrow> string option
     \<Rightarrow> exn + declared" where
  "NumericColumn_init name numeric_precision numeric_scale identity nullable char_max_len
       datetime_precision old_name =
     (case py_ge numeric_scale numeric_precision of
        Inl e \<Rightarrow> Inl e
      | Inr too_large \<Rightarrow>
          if too_large then Inl ValueError
          else Column_init name (PStr ''numeric'') identity nullable char_max_len datetime_precision
                 numeric_precision numeric_scale old_name)"

text \<open>\<open>ForeignKey\<close> and \<open>Partition\<close>: the constructor supplies the empty name.\<close>

definition ForeignKey_init :: "pyval \<Rightarrow> pyval \<Rightarrow> pyval \<Rightarrow> pyval \<Rightarrow> exn + declared" where
  "ForeignKey_init column foreign_table foreign_column foreign_schema =
     DeclaredEntity_init ForeignKey (Some []) None IA_None
       [(''column'', KVal column), (''foreign_schema'', KVal foreign_schema),
        (''foreign_table'', KVal foreign_table), (''foreign_column'', KVal foreign_column)]"

definition Partition_init :: "pyval \<Rightarrow> exn + declared" where
  "Partition_init column =
     (case column of
        PStr s \<Rightarrow> DeclaredEntity_init Partition (Some []) None IA_None [(''column'', KVal (PStr (lower s)))]
      | _ \<Rightarrow> Inl AttributeError)"

text \<open>
  \<open>AbstractIndex.__init__\<close>, the constructor of primary keys and indexes. A single column
  name stands for the list of it; the column names are lower-cased. A name that is
  \<open>None\<close> or empty is replaced: by the prefix of the class and the columns, joined with
  \<open>_\<close>, followed by \<open>__\<close> and the included columns when the keywords hold any.
\<close>

definition str_join :: "string \<Rightarrow> string list \<Rightarrow> string" where
  "str_join sep xs = (case xs of [] \<Rightarrow> [] | x # rest \<Rightarrow> x @ concat (map (\<lambda>y. sep @ y) rest))"

text \<open>The items of iterating a value (a string yields its characters); \<open>TypeError\<close> for a
  value that cannot be iterated.\<close>

definition items :: "pyval \<Rightarrow> exn + string list" where
  "items v =
     (case v of
        PTuple xs \<Rightarrow> Inr xs
      | PSet xs \<Rightarrow> Inr xs
      | PStr s \<Rightarrow> Inr (map (\<lambda>c. [c]) s)
      | _ \<Rightarrow> Inl TypeError)"

fun name_prefix :: "cls \<Rightarrow> string" where
  "name_prefix PrimaryKey = ''PK''"
| "name_prefix Index = ''IX''"
| "name_prefix _ = []"

text \<open>\<open>columns = [columns]\<close> for a string, then the items of \<open>columns\<close>.\<close>

definition column_items :: "pyval \<Rightarrow> exn + string list" where
  "column_items columns = (case columns of PStr s \<Rightarrow> Inr [s] | _ \<Rightarrow> items columns)"

text \<open>The truth value of a keyword argument (an object is true, a list is true when it
  is not empty), and \<open>'_'.join\<close> of one: only a value with string items can be joined.\<close>

definition kwarg_truthy :: "kwarg \<Rightarrow> bool" where
  "kwarg_truthy k = (case k of KObj d \<Rightarrow> True | KObjs ds \<Rightarrow> ds \<noteq> [] | KVal v \<Rightarrow> truthy v)"

definition kwarg_join :: "string \<Rightarrow> kwarg \<Rightarrow> exn + string" where
  "kwarg_join sep k =
     (case k of
        KVal v \<Rightarrow> (case items v of Inl e \<Rightarrow> Inl e | Inr xs \<Rightarrow> Inr (str_join sep xs))
      | _ \<Rightarrow> Inl TypeError)"

definition generated_name :: "cls \<Rightarrow> string list \<Rightarrow> (string \<times> kwarg) list \<Rightarrow> exn + string" where
  "generated_name t columns kwargs =
     (case map_of kwargs ''included_columns'' of
        None \<Rightarrow> Inr (str_join ''_'' (name_prefix t # columns))
      | Some included_columns \<Rightarrow>
          if kwarg_truthy included_columns then
            (case kwarg_join ''_'' included_columns of
               Inl e \<Rightarrow> Inl e
             | Inr joined \<Rightarrow> Inr (str_join ''_'' (name_prefix t # columns) @ ''__'' @ joined))
          else Inr (str_join ''_'' (name_prefix t # columns)))"

definition AbstractIndex_init ::
  "cls \<Rightarrow> pyval \<Rightarrow> string option \<Rightarrow> pyval \<Rightarrow> string option \<Rightarrow> ignore_arg \<Rightarrow> (string \<times> kwarg) list
     \<Rightarrow> exn + declared" where
  "AbstractIndex_init t columns name compression old_name ignore_extra_children kwargs =
     (case column_items columns of
        Inl e \<Rightarrow> Inl e
      | Inr column_names \<Rightarrow>
          (case (if name = None \<or> name = Some []
                 then generated_name t (map lower column_names) kwargs
                 else Inr (case name of Some n \<Rightarrow> n | None \<Rightarrow> [])) of
             Inl e \<Rightarrow> Inl e
           | Inr name' \<Rightarrow>
               DeclaredEntity_init t (Some name') old_name ignore_extra_children
                 ((''columns'', KVal (PTuple (map lower column_names)))
                  # (''compression'', KVal compression) # kwargs)))"

definition PrimaryKey_init ::
  "pyval \<Rightarrow> pyval \<Rightarrow> string option \<Rightarrow> pyval \<Rightarrow> string option \<Rightarrow> ignore_arg \<Rightarrow> (string \<times> kwarg) list
     \<Rightarrow> exn + declared" where
  "PrimaryKey_init columns clustered name compression old_name ignore_extra_children kwargs =
     AbstractIndex_init PrimaryKey columns name compression old_name ignore_extra_children
       ((''clustered'', KVal clustered) # kwargs)"

text \<open>\<open>Index.__init__\<close>: the included columns, when there are any, become the set of their
  lower-cased names.\<close>

definition Index_init ::
  "pyval \<Rightarrow> pyval \<Rightarrow> pyval \<Rightarrow> pyval \<Rightarrow> string option \<Rightarrow> pyval \<Rightarrow> string option \<Rightarrow> ignore_arg
     \<Rightarrow> (string \<times> kwarg) list \<Rightarrow> exn + declared" where
  "Index_init columns clustered unique included_columns name compression old_name
       ignore_extra_children kwargs =
     (case (if truthy included_columns
            then (case items included_columns of
                    Inl e \<Rightarrow> Inl e
                  | Inr column_names \<Rightarrow> Inr (PSet (remdups (map lower column_names))))
            else Inr PNone) of
        Inl e \<Rightarrow> Inl e
      | Inr included \<Rightarrow>
          AbstractIndex_init Index columns name compression old_name ignore_extra_children
            ((''clustered'', KVal clustered) # (''included_columns'', KVal included)
             # (''unique'', KVal unique) # kwargs))"

text \<open>
  \<open>Table\<close>: \<open>primary_key\<close> and \<open>partition\<close> (here \<open>part\<close>) are a declared object or \<open>None\<close>; a call that
  gives \<open>primary_keys\<close> or \<open>partitions\<close> among the children as well is a \<open>TypeError\<close>.
\<close>

definition Table_init ::
  "string option \<Rightarrow> declared option \<Rightarrow> declared option \<Rightarrow> string option \<Rightarrow> ignore_arg
     \<Rightarrow> (string \<times> kwarg) list \<Rightarrow> exn + declared" where
  "Table_init name primary_key part old_name ignore_extra_children children =
     (if ''primary_keys'' \<in> fst ` set children \<or> ''partitions'' \<in> fst ` set children
      then Inl TypeError
      else DeclaredEntity_init Table name old_name ignore_extra_children
             ((''primary_keys'', case primary_key of None \<Rightarrow> KVal PNone | Some pk \<Rightarrow> KObjs [pk])
              # (''partitions'', case part of None \<Rightarrow> KVal PNone | Some p \<Rightarrow> KObjs [p])
              # children))"

text \<open>\<open>User\<close> and \<open>Login\<close>: \<open>set(roles or set())\<close>.\<close>

definition roles_set :: "pyval \<Rightarrow> exn + pyval" where
  "roles_set roles =
     (if truthy roles
      then (case items roles of Inl e \<Rightarrow> Inl e | Inr xs \<Rightarrow> Inr (PSet (remdups xs)))
      else Inr (PSet []))"

definition User_init :: "string option \<Rightarrow> pyval \<Rightarrow> pyval \<Rightarrow> exn + declared" where
  "User_init name login_name db_roles =
     (case roles_set db_roles of
        Inl e \<Rightarrow> Inl e
      | Inr roles \<Rightarrow>
          DeclaredEntity_init User name None IA_None
            [(''login_name'', KVal login_name), (''db_roles'', KVal roles)])"

definition Login_init :: "string option \<Rightarrow> pyval \<Rightarrow> pyval \<Rightarrow> pyval \<Rightarrow> exn + declared" where
  "Login_init name password type_desc server_roles =
     (case roles_set server_roles of
        Inl e \<Rightarrow> Inl e
      | Inr roles \<Rightarrow>
          DeclaredEntity_init Login name None IA_None
            [(''password'', KVal password), (''type_desc'', KVal type_desc),
             (''server_roles'', KVal roles)])"

text \<open>\<open>Server\<close>: the constructor supplies the empty name.\<close>

definition Server_init :: "string option \<Rightarrow> ignore_arg \<Rightarrow> (string \<times> kwarg) list \<Rightarrow> exn + declared" where
  "Server_init old_name ignore_extra_children kwargs =
     DeclaredEntity_init Server (Some []) old_name ignore_extra_children kwargs"

text \<open>
  \<open>Database\<close>. The quotient \<open>data_size/10\<close> is a float, a kind of value that the model
  does not have, and \<open>os.path.join\<close> is a function of the platform: the model takes both
  as parameters (\<open>tenth\<close>, \<open>path_join\<close>). \<open>'{}.mdf'.format(name)\<close> formats the name \<open>None\<close>
  as \<open>None\<close>.
\<close>

definition format_name :: "string option \<Rightarrow> string" where
  "format_name name = (case name of None \<Rightarrow> ''None'' | Some n \<Rightarrow> n)"

definition file_path :: "(string \<Rightarrow> string \<Rightarrow> string) \<Rightarrow> pyval \<Rightarrow> pyval \<Rightarrow> exn + pyval" where
  "file_path path_join dir file_name =
     (case dir of
        PStr d \<Rightarrow>
          (case file_name of
             PStr f \<Rightarrow> Inr (PStr (map (\<lambda>c. if c = CHR ''/'' then CHR 0x5C else c) (path_join d f)))
           | _ \<Rightarrow> Inl TypeError)
      | _ \<Rightarrow> Inl TypeError)"

definition Database_init ::
  "(pyval \<Rightarrow> exn + pyval) \<Rightarrow> (string \<Rightarrow> string \<Rightarrow> string) \<Rightarrow> string option \<Rightarrow> pyval \<Rightarrow> pyval \<Rightarrow> pyval
     \<Rightarrow> pyval \<Rightarrow> pyval \<Rightarrow> pyval \<Rightarrow> pyval \<Rightarrow> pyval \<Rightarrow> kwarg \<Rightarrow> string option \<Rightarrow> ignore_arg
     \<Rightarrow> (string \<times> kwarg) list \<Rightarrow> exn + declared" where
  "Database_init tenth path_join name owner data_file_dir log_file_dir data_size log_size
       recovery_model_desc data_file_name log_file_name tables old_name ignore_extra_children
       kwargs =
     (case recovery_model_desc of
        PStr level \<Rightarrow>
          if lower level \<notin> {''full'', ''simple'', ''bulk_logged''} then Inl ValueError
          else
            (case (if data_file_dir \<noteq> PNone then
                     if \<not> truthy data_size then Inl ValueError
                     else
                       (case (if truthy log_size then Inr log_size else tenth data_size) of
                          Inl e \<Rightarrow> Inl e
                        | Inr log_size' \<Rightarrow>
                            (case file_path path_join data_file_dir
                                    (if truthy data_file_name then data_file_name
                                     else PStr (format_name name @ ''.mdf'')) of
                               Inl e \<Rightarrow> Inl e
                             | Inr data_file_path \<Rightarrow>
                                 (case file_path path_join log_file_dir
                                         (if truthy log_file_name then log_file_name
                                          else PStr (format_name name @ ''_log.ldf'')) of
                                    Inl e \<Rightarrow> Inl e
                                  | Inr log_file_path \<Rightarrow>
                                      Inr (log_size', data_file_path, log_file_path))))
                   else Inr (log_size, PNone, PNone)) of
               Inl e \<Rightarrow> Inl e
             | Inr (log_size', data_file_path, log_file_path) \<Rightarrow>
                 (case (if kwarg_truthy tables then
                          if ''schemas'' \<in> fst ` set kwargs then Inl ValueError
                          else
                            (case DeclaredEntity_init Schema (Some ''dbo'') None IA_None
                                    [(''tables'', tables)] of
                               Inl e \<Rightarrow> Inl e
                             | Inr schema \<Rightarrow> Inr (kwargs @ [(''schemas'', KObjs [schema])]))
                        else Inr kwargs) of
                    Inl e \<Rightarrow> Inl e
                  | Inr kwargs' \<Rightarrow>
                      if ''data_file_path'' \<in> fst ` set kwargs' \<or> ''log_file_path'' \<in> fst ` set kwargs'
                      then Inl TypeError
                      else DeclaredEntity_init Database name old_name ignore_extra_children
                             ((''owner'', KVal owner) # (''data_file_path'', KVal data_file_path)
                              # (''log_file_path'', KVal log_file_path)
                              # (''data_size'', KVal data_size) # (''log_size'', KVal log_size')
                              # (''recovery_model_desc'', KVal recovery_model_desc) # kwargs')))
      | _ \<Rightarrow> Inl AttributeError)"


text \<open>
  The rule for stored names. A constructor that is given the name \<open>None\<close> fails; one that is
  given a name stores, when it returns, the first 128 characters of that name.
\<close>

definition stores_name :: "string option \<Rightarrow> exn + declared \<Rightarrow> bool" where
  "stores_name name result =
     (case name of
        None \<Rightarrow> isl result
      | Some n \<Rightarrow> (case result of Inl e \<Rightarrow> True | Inr d \<Rightarrow> d_name d = take 128 n))"


text \<open>\<open>ignore_extra_children_type\<close>.\<close>

fun ignore_extra_children_type :: "declared \<Rightarrow> string \<Rightarrow> bool" where
  "ignore_extra_children_type self child_type =
     (case d_ignore self of
        Ignore_Set S \<Rightarrow> child_type \<in> set S
      | Ignore_Bool b \<Rightarrow> b
      | Ignore_None \<Rightarrow> False)"

text \<open>\<open>get_children\<close>: \<open>self.children.get(child_type, None)\<close>.\<close>

definition get_children :: "declared \<Rightarrow> cls \<Rightarrow> declared list option" where
  "get_children self child_type = map_of (d_children self) child_type"

text \<open>\<open>get_child\<close>: the first child of that type with that name;
  \<open>InvalidDBEntityChildError\<close> when the loop ends without one, \<open>TypeError\<close> when there is
  no list to iterate (\<open>get_children\<close> gave \<open>None\<close>).\<close>

definition get_child :: "declared \<Rightarrow> cls \<Rightarrow> string \<Rightarrow> exn + declared" where
  "get_child self child_type child_name =
     (case get_children self child_type of
        None \<Rightarrow> Inl TypeError
      | Some cs \<Rightarrow>
         (case find (\<lambda>c. d_name c = child_name) cs of
            Some c \<Rightarrow> Inr c
          | None \<Rightarrow> Inl InvalidDBEntityChildError))"

text \<open>
  \<open>get_child_by_name\<close> iterates \<open>self.child_objects\<close>. No declared class defines an
  attribute of that name (the class attribute is \<open>child_types\<close>), and \<open>DeclaredEntity\<close> has
  no \<open>__getattr__\<close>: evaluating the loop header raises \<open>AttributeError\<close>.
\<close>

definition declared_child_objects :: "declared \<Rightarrow> exn + cls list" where
  "declared_child_objects self = Inl AttributeError"

fun try_child_classes :: "declared \<Rightarrow> cls list \<Rightarrow> string \<Rightarrow> exn + declared" where
  "try_child_classes self [] name = Inl DBObjectDoesntExistError"
| "try_child_classes self (child_class # rest) name =
     (case get_child self child_class name of
        Inr c \<Rightarrow> Inr c
      | Inl DBObjectDoesntExistError \<Rightarrow> try_child_classes self rest name
      | Inl e \<Rightarrow> Inl e)"

definition get_child_by_name :: "declared \<Rightarrow> string \<Rightarrow> exn + declared" where
  "get_child_by_name self name =
     (case declared_child_objects self of
        Inl e \<Rightarrow> Inl e
      | Inr classes \<Rightarrow> try_child_classes self classes name)"

text \<open>\<open>get_object_by_id(*object_names)\<close>; \<open>object_names[0]\<close> of an empty chain raises
  \<open>IndexError\<close>.\<close>

fun get_object_by_id :: "declared \<Rightarrow> string list \<Rightarrow> exn + declared" where
  "get_object_by_id self [] = Inl IndexError"
| "get_object_by_id self (n # ns) =
     (case get_child_by_name self n of
        Inl e \<Rightarrow> Inl e
      | Inr child_obj \<Rightarrow> if length (n # ns) > 1 then get_object_by_id child_obj ns else Inr child_obj)"

section \<open>The live server: driver, console and log\<close>

text \<open>
  A statement is the name of its template in \<open>sql.py\<close> together with the keyword
  arguments of \<open>format\<close>; the text of the templates is the dialect and is not interpreted.
  An argument is a value, or a string that the code builds with \<open>format\<close> or \<open>join\<close>, kept
  as the template or separator and its parts (\<open>JoinVal\<close> joins the items of one iterable
  value). A row is the list of its named fields.
\<close>

datatype sqlarg = Val pyval | Format string "sqlarg list" | Join string "sqlarg list"
  | JoinVal string pyval

abbreviation Str :: "string \<Rightarrow> sqlarg" where
  "Str s \<equiv> Val (PStr s)"

datatype sql = Sql string "(string \<times> sqlarg) list"

type_synonym row = "(string \<times> pyval) list"

text \<open>A reflected node is identified in prompts and log messages by its path: class and
  name of every node from the root down to it.\<close>

type_synonym rpath = "(cls \<times> string) list"

datatype level = Debug | Info | Error

datatype prompt = Ask_set_attribute rpath string pyval | Ask_rename rpath string
  | Ask_delete rpath | Ask_move_db_file | Ask_file_moved

datatype logarg = LR rpath | LD cls string | LS string | LV pyval | LNames "string list"

text \<open>
  The effects of the program: \<open>cur.execute(sql, **kwargs)\<close>, \<open>commit()\<close>, setting
  \<open>conn.autocommit\<close>, \<open>input(prompt)\<close>, a call of the logger (level, message template,
  formatted arguments), and an assignment to the \<open>name\<close> of a declared object (its class,
  its name before and the name assigned).
\<close>

datatype event = Exec sql "(string \<times> pyval) list" | Commit | Autocommit bool
  | Input prompt | Log level string "logarg list" | Assign_name cls string string

text \<open>
  The world: the state of the server behind the connection with the driver's behaviour
  on it (\<open>None\<close> from \<open>w_execute\<close> and \<open>False\<close> from \<open>w_commit\<close> stand for an exception of the
  driver), the lines waiting on standard input, the trace of events so far, the
  interpreter's recursion limit and the day that \<open>date.today()\<close> returns.
\<close>

record 'db world =
  w_db :: 'db
  w_execute :: "sql \<Rightarrow> (string \<times> pyval) list \<Rightarrow> 'db \<Rightarrow> row list option \<times> 'db"
  w_commit :: "'db \<Rightarrow> bool \<times> 'db"
  w_autocommit :: "bool \<Rightarrow> 'db \<Rightarrow> 'db"
  w_stdin :: "string list"
  w_trace :: "event list"
  w_recursion_limit :: nat
  w_today :: int

text \<open>A computation runs on a world and ends with a value or a raised exception; what it
  did before raising stays done.\<close>

type_synonym ('a, 'db) M = "'db world \<Rightarrow> (exn + 'a) \<times> 'db world"

definition ret :: "'a \<Rightarrow> ('a, 'db) M" where
  "ret x = (\<lambda>w. (Inr x, w))"

definition raise :: "exn \<Rightarrow> ('a, 'db) M" where
  "raise e = (\<lambda>w. (Inl e, w))"

definition bind :: "('a, 'db) M \<Rightarrow> ('a \<Rightarrow> ('b, 'db) M) \<Rightarrow> ('b, 'db) M" where
  "bind m f = (\<lambda>w. case m w of (Inl e, w') \<Rightarrow> (Inl e, w') | (Inr x, w') \<Rightarrow> f x w')"

text \<open>\<open>try: m except e: h\<close> for an exception class without subclasses.\<close>

definition catch :: "('a, 'db) M \<Rightarrow> exn \<Rightarrow> ('a, 'db) M \<Rightarrow> ('a, 'db) M" where
  "catch m e h = (\<lambda>w. case m w of
       (Inl e', w') \<Rightarrow> if e' = e then h w' else (Inl e', w')
     | (Inr x, w') \<Rightarrow> (Inr x, w'))"

text \<open>\<open>try: m finally: h\<close>.\<close>

definition finally_do :: "('a, 'db) M \<Rightarrow> (unit, 'db) M \<Rightarrow> ('a, 'db) M" where
  "finally_do m h = (\<lambda>w. case m w of
       (Inl e, w') \<Rightarrow> (case h w' of (Inl e', w'') \<Rightarrow> (Inl e', w'') | (Inr _, w'') \<Rightarrow> (Inl e, w''))
     | (Inr x, w') \<Rightarrow> (case h w' of (Inl e', w'') \<Rightarrow> (Inl e', w'') | (Inr _, w'') \<Rightarrow> (Inr x, w'')))"

definition emit :: "event \<Rightarrow> (unit, 'db) M" where
  "emit e = (\<lambda>w. (Inr (), w\<lparr>w_trace := w_trace w @ [e]\<rparr>))"

definition log :: "level \<Rightarrow> string \<Rightarrow> logarg list \<Rightarrow> (unit, 'db) M" where
  "log l msg args = emit (Log l msg args)"

definition cur_execute :: "sql \<Rightarrow> (string \<times> pyval) list \<Rightarrow> (row list, 'db) M" where
  "cur_execute s kw = (\<lambda>w.
     case w_execute w s kw (w_db w) of
       (None, db') \<Rightarrow> (Inl DriverError, w\<lparr>w_db := db', w_trace := w_trace w @ [Exec s kw]\<rparr>)
     | (Some rows, db') \<Rightarrow> (Inr rows, w\<lparr>w_db := db', w_trace := w_trace w @ [Exec s kw]\<rparr>))"

definition cur_commit :: "(unit, 'db) M" where
  "cur_commit = (\<lambda>w.
     case w_commit w (w_db w) of
       (False, db') \<Rightarrow> (Inl DriverError, w\<lparr>w_db := db', w_trace := w_trace w @ [Commit]\<rparr>)
     | (True, db') \<Rightarrow> (Inr (), w\<lparr>w_db := db', w_trace := w_trace w @ [Commit]\<rparr>))"

definition set_autocommit :: "bool \<Rightarrow> (unit, 'db) M" where
  "set_autocommit b = (\<lambda>w.
     (Inr (), w\<lparr>w_db := w_autocommit w b (w_db w), w_trace := w_trace w @ [Autocommit b]\<rparr>))"

text \<open>\<open>input(prompt)\<close>: the next line of standard input, \<open>EOFError\<close> when there is none.\<close>

definition input :: "prompt \<Rightarrow> (string, 'db) M" where
  "input p = (\<lambda>w.
     case w_stdin w of
       [] \<Rightarrow> (Inl EOFError, w\<lparr>w_trace := w_trace w @ [Input p]\<rparr>)
     | a # rest \<Rightarrow> (Inr a, w\<lparr>w_stdin := rest, w_trace := w_trace w @ [Input p]\<rparr>))"

text \<open>\<open>with util.AutoCommit(conn): body\<close>.\<close>

definition with_AutoCommit :: "('a, 'db) M \<Rightarrow> ('a, 'db) M" where
  "with_AutoCommit body =
     bind cur_commit (\<lambda>_. bind (set_autocommit True) (\<lambda>_.
       finally_do body (set_autocommit False)))"

text \<open>Loops over a list: a comprehension that collects results, and a filter whose test
  may query the server and returns the object it tested.\<close>

fun mapM :: "('a \<Rightarrow> ('b, 'db) M) \<Rightarrow> 'a list \<Rightarrow> ('b list, 'db) M" where
  "mapM f [] = ret []"
| "mapM f (x # xs) = bind (f x) (\<lambda>y. bind (mapM f xs) (\<lambda>ys. ret (y # ys)))"

fun filterM :: "('a \<Rightarrow> (bool \<times> 'a, 'db) M) \<Rightarrow> 'a list \<Rightarrow> ('a list, 'db) M" where
  "filterM f [] = ret []"
| "filterM f (x # xs) =
     bind (f x) (\<lambda>(b, x'). bind (filterM f xs) (\<lambda>ys. ret (if b then x' # ys else ys)))"

text \<open>\<open>ReflectedEntity.ex\<close>.\<close>

definition ex :: "sql \<Rightarrow> (string \<times> pyval) list \<Rightarrow> bool \<Rightarrow> (row list, 'db) M" where
  "ex sql_str kwargs commit =
     bind (cur_execute sql_str kwargs) (\<lambda>cur.
       if commit then bind cur_commit (\<lambda>_. ret cur) else ret cur)"

text \<open>\<open>fetchone()\<close>, the truth value of what it returns (a row is a sequence of its
  fields), and the field \<open>result.name\<close> of a row.\<close>

definition fetchone :: "row list \<Rightarrow> row option" where
  "fetchone rows = (case rows of [] \<Rightarrow> None | r # _ \<Rightarrow> Some r)"

definition row_truthy :: "row option \<Rightarrow> bool" where
  "row_truthy r = (case r of None \<Rightarrow> False | Some flds \<Rightarrow> flds \<noteq> [])"

definition row_get :: "row \<Rightarrow> string \<Rightarrow> (pyval, 'db) M" where
  "row_get r field = (case map_of r field of None \<Rightarrow> raise AttributeError | Some v \<Rightarrow> ret v)"

definition fetchone_get :: "row list \<Rightarrow> string \<Rightarrow> (pyval, 'db) M" where
  "fetchone_get rows field =
     (case fetchone rows of None \<Rightarrow> raise AttributeError | Some r \<Rightarrow> row_get r field)"

text \<open>\<open>v.lower()\<close> of a value: only strings have the method.\<close>

definition py_lower :: "pyval \<Rightarrow> (pyval, 'db) M" where
  "py_lower v = (case v of PStr s \<Rightarrow> ret (PStr (lower s)) | _ \<Rightarrow> raise AttributeError)"

text \<open>The members of a set or the items of a tuple built from row fields are strings in
  the model; any other value is rejected with \<open>TypeError\<close>.\<close>

definition as_string :: "pyval \<Rightarrow> (string, 'db) M" where
  "as_string v = (case v of PStr s \<Rightarrow> ret s | _ \<Rightarrow> raise TypeError)"

section \<open>Reflected entities (reflected.py)\<close>

text \<open>
  A reflected entity: its class, \<open>name\<close>, \<open>parent\<close>, the dictionary \<open>_attributes\<close> of
  attribute values read so far and \<open>_detail_result\<close>. All entities share the one cursor
  of the world.
\<close>

datatype reflected = Reflected
  (r_type: cls)
  (r_name: string)
  (r_parent: "reflected option")
  (r_attributes: "(string \<times> pyval) list")
  (r_detail_result: "row option")

fun rpath :: "reflected \<Rightarrow> rpath" where
  "rpath (Reflected c n None a d) = [(c, n)]"
| "rpath (Reflected c n (Some p) a d) = rpath p @ [(c, n)]"

definition set_detail_result :: "row option \<Rightarrow> reflected \<Rightarrow> reflected" where
  "set_detail_result d r = Reflected (r_type r) (r_name r) (r_parent r) (r_attributes r) d"

definition set_attributes :: "(string \<times> pyval) list \<Rightarrow> reflected \<Rightarrow> reflected" where
  "set_attributes a r = Reflected (r_type r) (r_name r) (r_parent r) a (r_detail_result r)"

definition set_name :: "string \<Rightarrow> reflected \<Rightarrow> reflected" where
  "set_name n r = Reflected (r_type r) n (r_parent r) (r_attributes r) (r_detail_result r)"

fun reflected_child_types :: "cls \<Rightarrow> cls list" where
  "reflected_child_types Table = [PrimaryKey, Index, Column, Partition]"
| "reflected_child_types Schema = [Table]"
| "reflected_child_types Database = [Schema, User]"
| "reflected_child_types Server = [Login, Database]"
| "reflected_child_types _ = []"

fun system_names :: "cls \<Rightarrow> string list" where
  "system_names Schema = [''sys'', ''guest'', ''INFORMATION_SCHEMA'']"
| "system_names User = [''dbo'', ''guest'', ''sys'', ''INFORMATION_SCHEMA'']"
| "system_names Database = [''master'', ''tempdb'', ''model'', ''msdb'', ''ReportServer'',
     ''ReportServerTempDB'']"
| "system_names Login = [''##MS_PolicyTsqlExecutionLogin##'', ''GCT'',
     ''##MS_PolicyEventProcessingLogin##'', ''sa'']"
| "system_names _ = []"

fun can_create :: "cls \<Rightarrow> bool" where
  "can_create Login = False"
| "can_create _ = True"

text \<open>\<open>can_delete\<close>: the database refuses.\<close>

definition can_delete :: "reflected \<Rightarrow> bool" where
  "can_delete self = (r_type self \<noteq> Database)"

text \<open>\<open>self.parent\<close> of an entity that must have one (\<open>None.name\<close> raises
  \<open>AttributeError\<close>).\<close>

definition parent_of :: "reflected \<Rightarrow> (reflected, 'db) M" where
  "parent_of r = (case r_parent r of None \<Rightarrow> raise AttributeError | Some p \<Rightarrow> ret p)"

text \<open>The arguments \<open>schema=parent.parent.name, table=parent.name\<close> for a table \<open>parent\<close>.\<close>

definition schema_table :: "reflected \<Rightarrow> ((string \<times> sqlarg) list, 'db) M" where
  "schema_table tbl = bind (parent_of tbl) (\<lambda>sch.
     ret [(''schema'', Str (r_name sch)), (''table'', Str (r_name tbl))])"

text \<open>\<open>[result.<field> for result in rows]\<close>.\<close>

definition fields_of :: "string \<Rightarrow> row list \<Rightarrow> (pyval list, 'db) M" where
  "fields_of field rows = mapM (\<lambda>result. row_get result field) rows"

text \<open>\<open>_list_names_ex\<close> of every class.\<close>

fun list_names_ex :: "cls \<Rightarrow> reflected \<Rightarrow> (pyval list, 'db) M" where
  "list_names_ex PrimaryKey parent =
     bind (schema_table parent) (\<lambda>a. bind (ex (Sql ''TABLE_PK_NAME'' a) [] False) (\<lambda>rows.
       if row_truthy (fetchone rows) then fields_of ''name'' (take 1 rows) else ret []))"
| "list_names_ex Index parent =
     bind (schema_table parent) (\<lambda>a. bind (ex (Sql ''TABLE_INDEX_NAMES'' a) [] False)
       (fields_of ''name''))"
| "list_names_ex ForeignKey parent =
     bind (schema_table parent) (\<lambda>a. bind (ex (Sql ''TABLE_FOREIGN_KEYS'' a) [] False)
       (fields_of ''name''))"
| "list_names_ex Column parent =
     bind (schema_table parent) (\<lambda>a. bind (ex (Sql ''table_column_details'' a) [] False)
       (mapM (\<lambda>result. bind (row_get result ''name'') py_lower)))"
| "list_names_ex Partition parent =
     bind (schema_table parent) (\<lambda>a. bind (ex (Sql ''table_partition_names'' a) [] False)
       (fields_of ''ps_name''))"
| "list_names_ex Table parent =
     bind (ex (Sql ''list_tables_in_schema'' [(''schema'', Str (r_name parent))]) [] False)
       (fields_of ''name'')"
| "list_names_ex Schema parent =
     bind (ex (Sql ''LIST_SCHEMAS'' [(''db_name'', Str (r_name parent))]) [] False)
       (fields_of ''name'')"
| "list_names_ex User parent = bind (ex (Sql ''LIST_USERS'' []) [] False) (fields_of ''name'')"
| "list_names_ex Database parent =
     bind (ex (Sql ''LIST_DATABASES'' []) [] False) (fields_of ''name'')"
| "list_names_ex Login parent = bind (ex (Sql ''LIST_LOGINS'' []) [] False) (fields_of ''name'')"
| "list_names_ex Server parent = raise NotImplementedError"

text \<open>\<open>_name_exists_ex\<close> of every class: \<open>bool(... .fetchone())\<close>.\<close>

definition exists_query :: "sql \<Rightarrow> (bool, 'db) M" where
  "exists_query s = bind (ex s [] False) (\<lambda>rows. ret (row_truthy (fetchone rows)))"

fun name_exists_ex :: "cls \<Rightarrow> reflected \<Rightarrow> string \<Rightarrow> (bool, 'db) M" where
  "name_exists_ex PrimaryKey parent name =
     bind (schema_table parent) (\<lambda>a. exists_query (Sql ''PK_EXISTS'' ((''index_name'', Str name) # a)))"
| "name_exists_ex Index parent name =
     bind (schema_table parent) (\<lambda>a. exists_query (Sql ''INDEX_EXISTS'' ((''index_name'', Str name) # a)))"
| "name_exists_ex Column parent name =
     bind (schema_table parent) (\<lambda>a. exists_query (Sql ''COLUMN_EXISTS'' (a @ [(''column_name'', Str name)])))"
| "name_exists_ex Partition parent name =
     bind (schema_table parent) (\<lambda>a.
       exists_query (Sql ''partition_name_exists_on_table'' (a @ [(''ps_name'', Str name)])))"
| "name_exists_ex Table parent name =
     bind (parent_of parent) (\<lambda>db. exists_query (Sql ''TABLE_EXISTS''
       [(''db_name'', Str (r_name db)), (''schema'', Str (r_name parent)), (''table'', Str name)]))"
| "name_exists_ex Schema parent name = exists_query (Sql ''SCHEMA_EXISTS'' [(''schema'', Str name)])"
| "name_exists_ex User parent name = exists_query (Sql ''USER_EXISTS'' [(''user_name'', Str name)])"
| "name_exists_ex Database parent name = exists_query (Sql ''DB_EXISTS'' [(''db_name'', Str name)])"
| "name_exists_ex Login parent name = exists_query (Sql ''LOGIN_EXISTS'' [(''login_name'', Str name)])"
| "name_exists_ex ForeignKey parent name = raise NotImplementedError"
| "name_exists_ex Server parent name = raise NotImplementedError"

text \<open>\<open>_get_details_ex\<close> of every class: \<open>... .fetchone()\<close>.\<close>

definition detail_query :: "sql \<Rightarrow> (row option, 'db) M" where
  "detail_query s = bind (ex s [] False) (\<lambda>rows. ret (fetchone rows))"

definition table_child_detail :: "string \<Rightarrow> string \<Rightarrow> reflected \<Rightarrow> (row option, 'db) M" where
  "table_child_detail template name_key self =
     bind (parent_of self) (\<lambda>tbl. bind (schema_table tbl) (\<lambda>a.
       detail_query (Sql template (a @ [(name_key, Str (r_name self))]))))"

definition get_details_ex :: "reflected \<Rightarrow> (row option, 'db) M" where
  "get_details_ex self =
     (case r_type self of
        PrimaryKey \<Rightarrow> table_child_detail ''named_index_details'' ''index_name'' self
      | Index \<Rightarrow> table_child_detail ''named_index_details'' ''index_name'' self
      | ForeignKey \<Rightarrow> table_child_detail ''FK_DETAILS'' ''fk_name'' self
      | Column \<Rightarrow> table_child_detail ''column_detail'' ''column_name'' self
      | Partition \<Rightarrow> table_child_detail ''table_partition_details_for_scheme'' ''ps_name'' self
      | Table \<Rightarrow> bind (parent_of self) (\<lambda>sch. detail_query (Sql ''table_details''
           [(''schema'', Str (r_name sch)), (''table'', Str (r_name self))]))
      | User \<Rightarrow> detail_query (Sql ''USER_DETAIL'' [(''user_name'', Str (r_name self))])
      | Database \<Rightarrow> detail_query (Sql ''DATABASE_DETAIL'' [(''db_name'', Str (r_name self))])
      | Login \<Rightarrow> detail_query (Sql ''LOGIN_DETAIL'' [(''name'', Str (r_name self))])
      | Schema \<Rightarrow> raise NotImplementedError
      | Server \<Rightarrow> raise NotImplementedError)"


text \<open>
  \<open>ReflectedEntity.__init__\<close> as called by \<open>cls(parent, name)\<close>: \<open>DBError\<close> when the name is
  \<open>None\<close>; \<open>extra_init\<close> of a database executes \<open>USE [name]\<close>. Names are strings in the
  model; a name field holding another kind of value is rejected with \<open>TypeError\<close>.
\<close>

definition extra_init :: "cls \<Rightarrow> string \<Rightarrow> (unit, 'db) M" where
  "extra_init c name =
     (if c = Database then bind (cur_execute (Sql ''USE'' [(''name'', Str name)]) []) (\<lambda>_. ret ())
      else ret ())"

definition new_reflected :: "cls \<Rightarrow> reflected \<Rightarrow> pyval \<Rightarrow> (reflected, 'db) M" where
  "new_reflected c parent name =
     (case name of
        PNone \<Rightarrow> raise DBError
      | PStr n \<Rightarrow> bind (extra_init c n) (\<lambda>_. ret (Reflected c n (Some parent) [] None))
      | _ \<Rightarrow> raise TypeError)"

text \<open>\<open>ReflectedServer.from_cursor\<close>.\<close>

definition from_cursor :: "(reflected, 'db) M" where
  "from_cursor =
     bind (cur_execute (Sql ''SELECT @@SERVERNAME'' []) []) (\<lambda>rows.
       case fetchone rows of
         None \<Rightarrow> raise TypeError
       | Some [] \<Rightarrow> raise IndexError
       | Some ((_, server_name) # _) \<Rightarrow>
           (case server_name of
              PNone \<Rightarrow> raise DBError
            | PStr n \<Rightarrow> ret (Reflected Server n None [] None)
            | _ \<Rightarrow> raise TypeError))"

text \<open>\<open>all_for_parent\<close>.\<close>

definition all_for_parent :: "cls \<Rightarrow> reflected \<Rightarrow> (reflected list, 'db) M" where
  "all_for_parent c parent =
     bind (list_names_ex c parent) (\<lambda>names.
       mapM (new_reflected c parent)
         (filter (\<lambda>name. name \<notin> PStr ` set (system_names c)) names))"

text \<open>\<open>by_name\<close>.\<close>

definition by_name :: "cls \<Rightarrow> reflected \<Rightarrow> string \<Rightarrow> (reflected, 'db) M" where
  "by_name c parent name =
     (if name \<noteq> [] then
        bind (name_exists_ex c parent name) (\<lambda>found.
          if found then new_reflected c parent (PStr name) else raise DBObjectDoesntExistError)
      else raise DBObjectDoesntExistError)"

text \<open>\<open>get_child_class_from_name\<close>, \<open>get_children\<close> and \<open>get_child\<close> of a reflected entity.\<close>

definition get_child_class_from_name :: "reflected \<Rightarrow> string \<Rightarrow> (cls, 'db) M" where
  "get_child_class_from_name self child_type =
     (case find (\<lambda>child_class. object_type child_class = child_type)
             (reflected_child_types (r_type self)) of
        Some child_class \<Rightarrow> ret child_class
      | None \<Rightarrow> raise InvalidDBEntityChildError)"

definition reflected_get_children :: "reflected \<Rightarrow> string \<Rightarrow> (reflected list, 'db) M" where
  "reflected_get_children self child_type =
     bind (get_child_class_from_name self child_type) (\<lambda>child_class.
       all_for_parent child_class self)"

definition reflected_get_child :: "reflected \<Rightarrow> string \<Rightarrow> string \<Rightarrow> (reflected, 'db) M" where
  "reflected_get_child self child_type name =
     bind (get_child_class_from_name self child_type) (\<lambda>child_class.
       by_name child_class self name)"

subsection \<open>Reading attributes\<close>

text \<open>\<open>util\<close>: the categories of column types.\<close>

definition INT_TYPES :: "string list" where
  "INT_TYPES = [''bigint'', ''int'', ''smallint'', ''tinyint'']"
definition NUMERIC_TYPES :: "string list" where
  "NUMERIC_TYPES = [''decimal'', ''numeric'']"
definition MONEY_TYPES :: "string list" where
  "MONEY_TYPES = [''money'', ''smallmoney'']"
definition APPROX_NUMBER_TYPES :: "string list" where
  "APPROX_NUMBER_TYPES = [''float'', ''real'']"
definition DATETIME_NO_PRECISION_TYPES :: "string list" where
  "DATETIME_NO_PRECISION_TYPES = [''date'', ''datetime'', ''smalldatetime'']"
definition DATETIME_PRECISION_TYPES :: "string list" where
  "DATETIME_PRECISION_TYPES = [''time'', ''datetime2'', ''datetimeoffset'']"
definition CHAR_TYPES :: "string list" where
  "CHAR_TYPES = [''char'', ''varchar'', ''nchar'', ''nvarchar'', ''binary'', ''varbinary'']"

text \<open>\<open>v in S\<close> for a set \<open>S\<close> of strings.\<close>

definition in_strs :: "pyval \<Rightarrow> string list \<Rightarrow> bool" where
  "in_strs v S = (case v of PStr s \<Rightarrow> s \<in> set S | _ \<Rightarrow> False)"

text \<open>The column names of an index, lower-cased, from one of the column queries.\<close>

definition index_column_names :: "string \<Rightarrow> reflected \<Rightarrow> (string list, 'db) M" where
  "index_column_names template self =
     bind (parent_of self) (\<lambda>tbl. bind (schema_table tbl) (\<lambda>a.
       bind (ex (Sql template (a @ [(''index_name'', Str (r_name self))])) [] False)
         (mapM (\<lambda>result. bind (row_get result ''column_name'') (\<lambda>v.
            bind (py_lower v) as_string)))))"

definition get_attr_columns :: "reflected \<Rightarrow> row \<Rightarrow> (pyval, 'db) M" where
  "get_attr_columns self detail =
     bind (index_column_names ''index_nonpartition_columns'' self) (\<lambda>non_partition_columns.
       if non_partition_columns \<noteq> [] then ret (PTuple non_partition_columns)
       else bind (index_column_names ''index_all_columns'' self) (\<lambda>index_column_names.
         if index_column_names = [] then raise PyException
         else ret (PTuple index_column_names)))"

definition get_attr_clustered :: "reflected \<Rightarrow> row \<Rightarrow> (pyval, 'db) M" where
  "get_attr_clustered self detail_result =
     bind (row_get detail_result ''type_desc'') (\<lambda>v. ret (PBool (py_eq v (PStr ''CLUSTERED''))))"

definition get_attr_included_columns :: "reflected \<Rightarrow> row \<Rightarrow> (pyval, 'db) M" where
  "get_attr_included_columns self detail =
     bind (index_column_names ''index_included_columns'' self) (\<lambda>included_columns.
       ret (if included_columns \<noteq> [] then PSet (remdups included_columns) else PNone))"

definition get_attr_bool :: "string \<Rightarrow> reflected \<Rightarrow> row \<Rightarrow> (pyval, 'db) M" where
  "get_attr_bool field self detail = bind (row_get detail field) (\<lambda>v. ret (PBool (truthy v)))"

text \<open>The column attributes that are only read for the type categories they apply to.\<close>

definition get_attr_for_types :: "string list \<Rightarrow> string \<Rightarrow> reflected \<Rightarrow> row \<Rightarrow> (pyval, 'db) M" where
  "get_attr_for_types types field self detail =
     bind (row_get detail ''data_type'') (\<lambda>data_type.
       if in_strs data_type types then row_get detail field else ret PNone)"

definition get_attr_column :: "reflected \<Rightarrow> row \<Rightarrow> (pyval, 'db) M" where
  "get_attr_column self detail = bind (row_get detail ''column_name'') py_lower"

definition get_attr_db_roles :: "reflected \<Rightarrow> row \<Rightarrow> (pyval, 'db) M" where
  "get_attr_db_roles self detail =
     bind (ex (Sql ''get_user_roles'' [(''user_name'', Str (r_name self))]) [] False) (\<lambda>rows.
       bind (mapM (\<lambda>result. bind (row_get result ''role_name'') as_string) rows) (\<lambda>roles.
         ret (PSet (remdups roles))))"

text \<open>\<open>int(v) if v else 0\<close> for a size read from the server.\<close>

definition int_or_zero :: "pyval \<Rightarrow> (pyval, 'db) M" where
  "int_or_zero v =
     (if \<not> truthy v then ret (PInt 0)
      else case v of
        PInt i \<Rightarrow> ret (PInt i)
      | PBool b \<Rightarrow> ret (PInt 1)
      | PStr s \<Rightarrow> raise ValueError
      | _ \<Rightarrow> raise TypeError)"

definition get_attr_size :: "string \<Rightarrow> reflected \<Rightarrow> row \<Rightarrow> (pyval, 'db) M" where
  "get_attr_size field self detail =
     bind (ex (Sql ''db_sizes'' [(''db_name'', Str (r_name self))]) [] False) (\<lambda>rows.
       bind (fetchone_get rows field) int_or_zero)"

definition get_attr_file_path :: "string \<Rightarrow> reflected \<Rightarrow> row \<Rightarrow> (pyval, 'db) M" where
  "get_attr_file_path file_type self detail =
     bind (ex (Sql ''db_file_info'' [(''db_name'', Str (r_name self)), (''file_type'', Str file_type)])
             [] False) (\<lambda>rows. fetchone_get rows ''physical_name'')"

definition ALL_SERVER_ROLES :: "string list" where
  "ALL_SERVER_ROLES = [''sysadmin'', ''securityadmin'', ''serveradmin'', ''setupadmin'',
     ''processadmin'', ''diskadmin'', ''dbcreator'', ''bulkadmin'']"

definition get_attr_server_roles :: "reflected \<Rightarrow> row \<Rightarrow> (pyval, 'db) M" where
  "get_attr_server_roles self detail_result =
     bind (mapM (\<lambda>role. bind (row_get detail_result role) (\<lambda>v. ret (role, v))) ALL_SERVER_ROLES)
       (\<lambda>flags. ret (PSet (map fst (filter (\<lambda>(role, v). py_eq v (PInt 1)) flags))))"

definition get_attr_password :: "reflected \<Rightarrow> row \<Rightarrow> (pyval, 'db) M" where
  "get_attr_password self detail = ret (PStr ''dummypassword'')"

text \<open>\<open>getattr(self, 'get_attr_<name>', None)\<close>: the reader a class defines or inherits.\<close>

definition get_attr_method :: "cls \<Rightarrow> string \<Rightarrow> (reflected \<Rightarrow> row \<Rightarrow> (pyval, 'db) M) option" where
  "get_attr_method c a =
     (if c \<in> {PrimaryKey, Index} \<and> a = ''columns'' then Some get_attr_columns
      else if c \<in> {PrimaryKey, Index} \<and> a = ''clustered'' then Some get_attr_clustered
      else if c = Index \<and> a = ''included_columns'' then Some get_attr_included_columns
      else if c = Column \<and> a = ''nullable'' then Some (get_attr_bool ''nullable'')
      else if c = Column \<and> a = ''identity'' then Some (get_attr_bool ''identity'')
      else if c = Column \<and> a = ''numeric_precision''
        then Some (get_attr_for_types (NUMERIC_TYPES @ APPROX_NUMBER_TYPES) ''numeric_precision'')
      else if c = Column \<and> a = ''numeric_scale''
        then Some (get_attr_for_types NUMERIC_TYPES ''numeric_scale'')
      else if c = Column \<and> a = ''datetime_precision''
        then Some (get_attr_for_types DATETIME_PRECISION_TYPES ''datetime_precision'')
      else if c = Column \<and> a = ''char_max_len''
        then Some (get_attr_for_types CHAR_TYPES ''char_max_len'')
      else if c = Partition \<and> a = ''column'' then Some get_attr_column
      else if c = User \<and> a = ''db_roles'' then Some get_attr_db_roles
      else if c = Database \<and> a = ''data_size'' then Some (get_attr_size ''row_size_mb'')
      else if c = Database \<and> a = ''log_size'' then Some (get_attr_size ''log_size_mb'')
      else if c = Database \<and> a = ''data_file_path'' then Some (get_attr_file_path ''ROWS'')
      else if c = Database \<and> a = ''log_file_path'' then Some (get_attr_file_path ''LOG'')
      else if c = Login \<and> a = ''server_roles'' then Some get_attr_server_roles
      else if c = Login \<and> a = ''password'' then Some get_attr_password
      else None)"

text \<open>\<open>read_attribute\<close>.\<close>

definition read_attribute :: "reflected \<Rightarrow> row \<Rightarrow> string \<Rightarrow> (pyval, 'db) M" where
  "read_attribute self detail_result attribute_name =
     (case get_attr_method (r_type self) attribute_name of
        Some method \<Rightarrow> method self detail_result
      | None \<Rightarrow> row_get detail_result attribute_name)"

text \<open>
  \<open>__getattr__\<close>, \<open>get_details\<close> and \<open>__str__\<close>. The message of the \<open>DBError\<close> that
  \<open>get_details\<close> raises is formatted from \<open>self\<close>; \<open>__str__\<close> of a primary key or an index
  reads \<open>self.columns\<close> (an index also \<open>self.included_columns\<close>), which enters
  \<open>__getattr__\<close> and \<open>get_details\<close> again. The first argument bounds the depth of this
  nesting; \<open>RecursionError\<close> is raised when it is used up.
\<close>

fun getattr_n :: "nat \<Rightarrow> reflected \<Rightarrow> string \<Rightarrow> (pyval \<times> reflected, 'db) M"
  and get_details_n :: "nat \<Rightarrow> reflected \<Rightarrow> (row, 'db) M"
  and str_n :: "nat \<Rightarrow> reflected \<Rightarrow> (reflected, 'db) M" where
  "getattr_n 0 self item = raise RecursionError"
| "getattr_n (Suc n) self item =
     (if item \<notin> set (valid_attributes (r_type self)) then raise AttributeError
      else bind (case r_detail_result self of
                   None \<Rightarrow> get_details_n n self
                 | Some detail \<Rightarrow> ret detail) (\<lambda>detail.
        case map_of (r_attributes self) item of
          Some v \<Rightarrow> ret (v, set_detail_result (Some detail) self)
        | None \<Rightarrow>
            bind (read_attribute (set_detail_result (Some detail) self) detail item) (\<lambda>v.
              ret (v, set_attributes ((item, v) # r_attributes self)
                        (set_detail_result (Some detail) self)))))"
| "get_details_n n self =
     bind (get_details_ex self) (\<lambda>details.
       case details of
         None \<Rightarrow> bind (str_n n self) (\<lambda>_. raise DBError)
       | Some detail \<Rightarrow>
           if detail = [] then bind (str_n n self) (\<lambda>_. raise DBError) else ret detail)"
| "str_n n self =
     (if r_type self = PrimaryKey then
        bind (getattr_n n self ''columns'') (\<lambda>(_, self'). ret self')
      else if r_type self = Index then
        bind (getattr_n n self ''columns'') (\<lambda>(_, self').
          bind (getattr_n n self' ''included_columns'') (\<lambda>(_, self''). ret self''))
      else ret self)"

definition getattr :: "reflected \<Rightarrow> string \<Rightarrow> (pyval \<times> reflected, 'db) M" where
  "getattr self item = (\<lambda>w. getattr_n (w_recursion_limit w) self item w)"

definition get_details :: "reflected \<Rightarrow> (row, 'db) M" where
  "get_details self = (\<lambda>w. get_details_n (w_recursion_limit w) self w)"

text \<open>\<open>str(self)\<close> of a reflected entity: the entity with what the formatting has read.\<close>

definition reflected_str :: "reflected \<Rightarrow> (reflected, 'db) M" where
  "reflected_str self = (\<lambda>w. str_n (w_recursion_limit w) self w)"

text \<open>\<open>reset_attribute\<close> and \<open>reset_all_attributes\<close>.\<close>

definition reset_attribute :: "reflected \<Rightarrow> string \<Rightarrow> reflected" where
  "reset_attribute self attribute_name =
     set_attributes (filter (\<lambda>p. fst p \<noteq> attribute_name) (r_attributes self))
       (set_detail_result None self)"

definition reset_all_attributes :: "reflected \<Rightarrow> reflected" where
  "reset_all_attributes self = set_attributes [] (set_detail_result None self)"

text \<open>\<open>display_details\<close> of a reflected entity reads every attribute of the registry, then
  formats \<open>self\<close>.\<close>

fun getattrs :: "reflected \<Rightarrow> string list \<Rightarrow> (reflected, 'db) M" where
  "getattrs self [] = ret self"
| "getattrs self (a # as) = bind (getattr self a) (\<lambda>(_, self'). getattrs self' as)"

definition reflected_display_details :: "reflected \<Rightarrow> (reflected, 'db) M" where
  "reflected_display_details self =
     bind (getattrs self (valid_attributes (r_type self))) reflected_str"

subsection \<open>Reading a declared entity\<close>

text \<open>\<open>getattr(declared_obj, attr_name)\<close>: an instance attribute set by the constructor.\<close>

definition declared_getattr :: "declared \<Rightarrow> string \<Rightarrow> (pyval, 'db) M" where
  "declared_getattr d a = (case map_of (d_attrs d) a of None \<Rightarrow> raise AttributeError | Some v \<Rightarrow> ret v)"

text \<open>\<open>str(declared_obj)\<close>: the classes that override \<open>__str__\<close> read attributes.\<close>

definition declared_str :: "declared \<Rightarrow> (unit, 'db) M" where
  "declared_str d =
     (if d_type d = PrimaryKey then bind (declared_getattr d ''columns'') (\<lambda>_. ret ())
      else if d_type d = Index then
        bind (declared_getattr d ''columns'') (\<lambda>_.
          bind (declared_getattr d ''included_columns'') (\<lambda>_. ret ()))
      else if d_type d = Partition then bind (declared_getattr d ''column'') (\<lambda>_. ret ())
      else if d_type d = ForeignKey then
        bind (declared_getattr d ''column'') (\<lambda>_.
          bind (declared_getattr d ''foreign_schema'') (\<lambda>_.
            bind (declared_getattr d ''foreign_table'') (\<lambda>_.
              bind (declared_getattr d ''foreign_column'') (\<lambda>_. ret ()))))
      else if d_type d = User \<and> d_name d = [] then
        bind (declared_getattr d ''login_name'') (\<lambda>_. ret ())
      else ret ())"

definition declared_display_details :: "declared \<Rightarrow> (unit, 'db) M" where
  "declared_display_details d =
     bind (mapM (declared_getattr d) (valid_attributes (d_type d))) (\<lambda>_. declared_str d)"

subsection \<open>Equality of a reflected and a declared entity\<close>

text \<open>
  \<open>equate_declared\<close>. The base rule gives the value of
  \<open>a == b or (old_name and a == c)\<close>, which is \<open>True\<close>, \<open>False\<close>, \<open>None\<close> or the empty
  \<open>old_name\<close>. The result comes with the entity, whose cache the comparison may have
  filled.
\<close>

definition equate_declared_base :: "reflected \<Rightarrow> declared \<Rightarrow> pyval" where
  "equate_declared_base self declared_obj =
     (if lower (r_name self) = lower (d_name declared_obj) then PBool True
      else case d_old_name declared_obj of
        None \<Rightarrow> PNone
      | Some old \<Rightarrow> if old = [] then PStr [] else PBool (lower (r_name self) = lower old))"

definition equate_declared_pk :: "reflected \<Rightarrow> declared \<Rightarrow> (pyval \<times> reflected, 'db) M" where
  "equate_declared_pk self declared_obj =
     bind (reflected_str self) (\<lambda>self1. bind (declared_str declared_obj) (\<lambda>_.
       bind (log Debug ''Comparing {} to {}''
               [LR (rpath self1), LD (d_type declared_obj) (d_name declared_obj)]) (\<lambda>_.
         bind (getattr self1 ''columns'') (\<lambda>(columns, self2).
           bind (declared_getattr declared_obj ''columns'') (\<lambda>declared_columns.
             ret (PBool (py_eq columns declared_columns), self2))))))"

definition equate_declared :: "reflected \<Rightarrow> declared \<Rightarrow> (pyval \<times> reflected, 'db) M" where
  "equate_declared self declared_obj =
     (case r_type self of
        PrimaryKey \<Rightarrow> equate_declared_pk self declared_obj
      | Index \<Rightarrow>
          bind (equate_declared_pk self declared_obj) (\<lambda>(same_columns, self1).
            if \<not> truthy same_columns then ret (same_columns, self1)
            else bind (getattr self1 ''included_columns'') (\<lambda>(included, self2).
              bind (declared_getattr declared_obj ''included_columns'') (\<lambda>declared_included.
                ret (PBool (py_eq included declared_included), self2))))
      | Partition \<Rightarrow>
          bind (getattr self ''column'') (\<lambda>(column, self1).
            bind (declared_getattr declared_obj ''column'') (\<lambda>declared_column.
              ret (PBool (py_eq column declared_column), self1)))
      | User \<Rightarrow>
          bind (getattr self ''login_name'') (\<lambda>(login_name, self1).
            bind (declared_getattr declared_obj ''login_name'') (\<lambda>declared_login.
              ret (PBool (py_eq login_name declared_login), self1)))
      | _ \<Rightarrow> ret (equate_declared_base self declared_obj, self))"

text \<open>\<open>ReflectedEntity.__eq__(self, other)\<close> for a declared \<open>other\<close>:
  \<open>self.object_type and (self.object_type == other.object_type) and
  self.equate_declared(other)\<close>.\<close>

definition reflected_eq :: "reflected \<Rightarrow> declared \<Rightarrow> (pyval \<times> reflected, 'db) M" where
  "reflected_eq self other =
     (if object_type (r_type self) = [] then ret (PStr [], self)
      else if object_type (r_type self) \<noteq> object_type (d_type other) then ret (PBool False, self)
      else equate_declared self other)"

text \<open>\<open>DeclaredEntity.__eq__(self, other)\<close> for a reflected \<open>other\<close>: \<open>return other == self\<close>,
  which Python evaluates with \<open>ReflectedEntity.__eq__\<close>.\<close>

definition declared_eq :: "declared \<Rightarrow> reflected \<Rightarrow> (pyval \<times> reflected, 'db) M" where
  "declared_eq self other = reflected_eq other self"


subsection \<open>Rendering columns (util.py and \<open>Column\<close>)\<close>

text \<open>\<open>v in S\<close> where \<open>S\<close> is a set: the value must be hashable.\<close>

definition in_set :: "pyval \<Rightarrow> string list \<Rightarrow> (bool, 'db) M" where
  "in_set v S = (case v of PSet _ \<Rightarrow> raise TypeError | _ \<Rightarrow> ret (in_strs v S))"

text \<open>\<open>util.data_type_representation\<close>.\<close>

definition data_type_representation ::
  "pyval \<Rightarrow> pyval \<Rightarrow> pyval \<Rightarrow> pyval \<Rightarrow> pyval \<Rightarrow> (sqlarg, 'db) M" where
  "data_type_representation data_type char_max_len datetime_precision numeric_precision numeric_scale =
     bind (in_set data_type (INT_TYPES @ MONEY_TYPES @ DATETIME_NO_PRECISION_TYPES)) (\<lambda>plain.
       if plain then ret (Val data_type)
       else if in_strs data_type (NUMERIC_TYPES @ APPROX_NUMBER_TYPES) then
         (if numeric_precision = PNone then raise ValueError
          else if in_strs data_type NUMERIC_TYPES \<and> numeric_scale \<noteq> PNone
            then ret (Format ''{}({},{})'' [Val data_type, Val numeric_precision, Val numeric_scale])
          else ret (Format ''{}({})'' [Val data_type, Val numeric_precision]))
       else if in_strs data_type DATETIME_PRECISION_TYPES then
         ret (Format ''{}({})'' [Val data_type, Val datetime_precision])
       else if in_strs data_type CHAR_TYPES then
         (if char_max_len = PNone then raise ValueError
          else ret (Format ''{}({})'' [Val data_type, Val char_max_len]))
       else raise ValueError)"

text \<open>\<open>util.column_sql_representation\<close>.\<close>

definition column_sql_representation ::
  "string \<Rightarrow> pyval \<Rightarrow> pyval \<Rightarrow> pyval \<Rightarrow> pyval \<Rightarrow> pyval \<Rightarrow> pyval \<Rightarrow> pyval \<Rightarrow> (sqlarg, 'db) M" where
  "column_sql_representation name data_type identity nullable char_max_len datetime_precision
       numeric_precision numeric_scale =
     bind (data_type_representation data_type char_max_len datetime_precision numeric_precision
             numeric_scale) (\<lambda>type_rep.
       ret (Join '' '' ([Str name, type_rep]
              @ (if truthy identity then [Str ''IDENTITY(1,1)''] else [])
              @ (if truthy nullable then [Str ''NULL''] else [Str ''NOT NULL'']))))"

text \<open>\<open>Column.sql_representation\<close> of a declared column; other declared classes have no
  such method.\<close>

definition declared_sql_representation :: "declared \<Rightarrow> (sqlarg, 'db) M" where
  "declared_sql_representation d =
     (if d_type d \<noteq> Column then raise AttributeError
      else
        bind (declared_getattr d ''data_type'') (\<lambda>data_type.
        bind (declared_getattr d ''identity'') (\<lambda>identity.
        bind (declared_getattr d ''nullable'') (\<lambda>nullable.
        bind (declared_getattr d ''char_max_len'') (\<lambda>char_max_len.
        bind (declared_getattr d ''datetime_precision'') (\<lambda>datetime_precision.
        bind (declared_getattr d ''numeric_precision'') (\<lambda>numeric_precision.
        bind (declared_getattr d ''numeric_scale'') (\<lambda>numeric_scale.
          column_sql_representation (d_name d) data_type identity nullable char_max_len
            datetime_precision numeric_precision numeric_scale))))))))"

text \<open>\<open>ReflectedColumn.data_type_representation\<close>.\<close>

definition reflected_data_type_representation :: "reflected \<Rightarrow> (sqlarg \<times> reflected, 'db) M" where
  "reflected_data_type_representation self =
     bind (getattr self ''data_type'') (\<lambda>(data_type, s1).
     bind (getattr s1 ''char_max_len'') (\<lambda>(char_max_len, s2).
     bind (getattr s2 ''datetime_precision'') (\<lambda>(datetime_precision, s3).
     bind (getattr s3 ''numeric_precision'') (\<lambda>(numeric_precision, s4).
     bind (getattr s4 ''numeric_scale'') (\<lambda>(numeric_scale, s5).
       bind (data_type_representation data_type char_max_len datetime_precision
               numeric_precision numeric_scale) (\<lambda>rep. ret (rep, s5)))))))"

text \<open>\<open>sep.join(v)\<close> of an iterable value; \<open>None\<close>, numbers and dates cannot be iterated.\<close>

definition join_val :: "string \<Rightarrow> pyval \<Rightarrow> (sqlarg, 'db) M" where
  "join_val sep v =
     (case v of
        PTuple _ \<Rightarrow> ret (JoinVal sep v)
      | PSet _ \<Rightarrow> ret (JoinVal sep v)
      | PStr _ \<Rightarrow> ret (JoinVal sep v)
      | _ \<Rightarrow> raise TypeError)"

text \<open>The items that iterating a value yields.\<close>

definition iterate :: "pyval \<Rightarrow> (string list, 'db) M" where
  "iterate v =
     (case v of
        PTuple xs \<Rightarrow> ret xs
      | PSet xs \<Rightarrow> ret xs
      | PStr s \<Rightarrow> ret (map (\<lambda>c. [c]) s)
      | _ \<Rightarrow> raise TypeError)"

subsection \<open>Creating, renaming and deleting\<close>

text \<open>\<open>create_helper\<close> takes its attributes from a declared or from a reflected object.\<close>

datatype from_obj = FromDeclared declared | FromReflected reflected

definition from_getattr :: "from_obj \<Rightarrow> string \<Rightarrow> (pyval \<times> from_obj, 'db) M" where
  "from_getattr fo a =
     (case fo of
        FromDeclared d \<Rightarrow> bind (declared_getattr d a) (\<lambda>v. ret (v, fo))
      | FromReflected r \<Rightarrow> bind (getattr r a) (\<lambda>(v, r'). ret (v, FromReflected r')))"

definition from_name :: "from_obj \<Rightarrow> string" where
  "from_name fo = (case fo of FromDeclared d \<Rightarrow> d_name d | FromReflected r \<Rightarrow> r_name r)"

text \<open>\<open>name or from_obj.name\<close>.\<close>

definition name_or :: "string option \<Rightarrow> from_obj \<Rightarrow> string" where
  "name_or name fo = (case name of Some n \<Rightarrow> if n \<noteq> [] then n else from_name fo | None \<Rightarrow> from_name fo)"

text \<open>\<open>ReflectedPrimaryKey.create_helper\<close>.\<close>

definition create_helper_pk :: "reflected \<Rightarrow> from_obj \<Rightarrow> string option \<Rightarrow> (unit, 'db) M" where
  "create_helper_pk parent fo name =
     bind (schema_table parent) (\<lambda>a.
     bind (from_getattr fo ''columns'') (\<lambda>(columns, fo1).
     bind (join_val '', '' columns) (\<lambda>columns_str.
     bind (from_getattr fo1 ''clustered'') (\<lambda>(clustered, fo2).
     bind (from_getattr fo2 ''compression'') (\<lambda>(compression, fo3).
     bind (ex (Sql ''CREATE_PK'' (a @
             [(''pk_name'', Str (name_or name fo)),
              (''columns'', columns_str),
              (''clustering'', Str (if truthy clustered then ''CLUSTERED'' else ''NONCLUSTERED'')),
              (''compression'', Val compression)])) [] False)
       (\<lambda>_. ret ()))))))"

text \<open>\<open>ReflectedIndex.create_helper\<close>.\<close>

definition create_helper_index ::
  "reflected \<Rightarrow> from_obj \<Rightarrow> string option \<Rightarrow> bool \<Rightarrow> sqlarg option \<Rightarrow> (unit, 'db) M" where
  "create_helper_index parent fo name drop_existing create_on =
     bind (from_getattr fo ''included_columns'') (\<lambda>(included_columns, fo1).
     bind (if truthy included_columns
           then bind (join_val '', '' included_columns) (\<lambda>j. ret (Format ''INCLUDE ({})'' [j]))
           else ret (Str [])) (\<lambda>include_str.
     bind (case create_on of
             Some c \<Rightarrow> ret c
           | None \<Rightarrow>
               bind (reflected_get_children parent ''partitions'') (\<lambda>table_partitions.
                 case table_partitions of
                   [] \<Rightarrow> ret (Str ''[PRIMARY]'')
                 | part # _ \<Rightarrow>
                     bind (getattr part ''column'') (\<lambda>(column, _).
                       ret (Format ''{}({})'' [Str (r_name part), Val column])))) (\<lambda>create_on'.
     bind (schema_table parent) (\<lambda>a.
     bind (from_getattr fo1 ''columns'') (\<lambda>(columns, fo2).
     bind (join_val '', '' columns) (\<lambda>columns_str.
     bind (from_getattr fo2 ''unique'') (\<lambda>(unique, fo3).
     bind (from_getattr fo3 ''clustered'') (\<lambda>(clustered, fo4).
     bind (from_getattr fo4 ''compression'') (\<lambda>(compression, fo5).
     bind (ex (Sql ''CREATE_INDEX'' (a @
             [(''name'', Str (name_or name fo)),
              (''columns'', columns_str),
              (''unique'', Str (if truthy unique then ''UNIQUE'' else [])),
              (''clustering'', Str (if truthy clustered then ''CLUSTERED'' else ''NONCLUSTERED'')),
              (''drop_existing'', Str (if drop_existing then ''ON'' else ''OFF'')),
              (''include'', include_str),
              (''compression'', Val compression),
              (''create_on'', create_on')])) [] False)
       (\<lambda>_. ret ()))))))))))"

text \<open>\<open>create_helper\<close> as the class of the object dispatches it.\<close>

definition create_helper ::
  "cls \<Rightarrow> reflected \<Rightarrow> from_obj \<Rightarrow> string option \<Rightarrow> bool \<Rightarrow> sqlarg option \<Rightarrow> (unit, 'db) M" where
  "create_helper c parent fo name drop_existing create_on =
     (if c = Index then create_helper_index parent fo name drop_existing create_on
      else if c = PrimaryKey then create_helper_pk parent fo name
      else raise AttributeError)"

text \<open>\<open>recreate_new_attributes\<close> and \<open>recreate_new_filegroup\<close> of a primary key or index.\<close>

definition recreate_new_attributes :: "reflected \<Rightarrow> declared \<Rightarrow> (reflected, 'db) M" where
  "recreate_new_attributes self declared_obj =
     bind (parent_of self) (\<lambda>parent.
       bind (create_helper (r_type self) parent (FromDeclared declared_obj) (Some (r_name self))
               True None) (\<lambda>_. ret self))"

definition recreate_new_filegroup :: "reflected \<Rightarrow> sqlarg \<Rightarrow> (unit, 'db) M" where
  "recreate_new_filegroup self create_on =
     bind (reflected_str self) (\<lambda>self1.
     bind (log Info ''Recreating index: {} on Filegroup: {}'' [LR (rpath self1)]) (\<lambda>_.
     bind (parent_of self1) (\<lambda>parent.
       create_helper (r_type self1) parent (FromReflected self1) None True (Some create_on))))"

text \<open>The helpers of \<open>ReflectedTable\<close>.\<close>

definition contains :: "pyval \<Rightarrow> string \<Rightarrow> bool" where
  "contains v x =
     (case v of PTuple xs \<Rightarrow> x \<in> set xs | PSet xs \<Rightarrow> x \<in> set xs
      | PStr s \<Rightarrow> x \<in> set (map (\<lambda>c. [c]) s) | _ \<Rightarrow> False)"

definition includes_column :: "string \<Rightarrow> reflected \<Rightarrow> (bool \<times> reflected, 'db) M" where
  "includes_column column_name self =
     bind (getattr self ''columns'') (\<lambda>(columns, self'). ret (contains columns column_name, self'))"

definition get_indexes_for_column :: "reflected \<Rightarrow> string \<Rightarrow> (reflected list, 'db) M" where
  "get_indexes_for_column self column_name =
     bind (reflected_get_children self ''indexes'') (filterM (includes_column column_name))"

definition is_clustered :: "reflected \<Rightarrow> (bool \<times> reflected, 'db) M" where
  "is_clustered index = bind (getattr index ''clustered'') (\<lambda>(v, index'). ret (truthy v, index'))"

definition is_not_clustered :: "reflected \<Rightarrow> (bool \<times> reflected, 'db) M" where
  "is_not_clustered index = bind (getattr index ''clustered'') (\<lambda>(v, index'). ret (\<not> truthy v, index'))"

fun first_clustered :: "reflected list \<Rightarrow> (reflected option, 'db) M" where
  "first_clustered [] = ret None"
| "first_clustered (index # rest) =
     bind (is_clustered index) (\<lambda>(c, index'). if c then ret (Some index') else first_clustered rest)"

definition get_clustered_index :: "reflected \<Rightarrow> (reflected option, 'db) M" where
  "get_clustered_index self = bind (reflected_get_children self ''indexes'') first_clustered"

definition get_nonclustered_indexes :: "reflected \<Rightarrow> (reflected list, 'db) M" where
  "get_nonclustered_indexes self =
     bind (reflected_get_children self ''indexes'') (filterM is_not_clustered)"

definition recreate_indexes_on_filegroup :: "reflected \<Rightarrow> sqlarg \<Rightarrow> (unit, 'db) M" where
  "recreate_indexes_on_filegroup self filegroup =
     bind (get_clustered_index self) (\<lambda>clustered.
       case clustered of
         None \<Rightarrow> raise AttributeError
       | Some index \<Rightarrow>
           bind (recreate_new_filegroup index filegroup) (\<lambda>_.
           bind (get_nonclustered_indexes self) (\<lambda>others.
           bind (mapM (\<lambda>index. recreate_new_filegroup index filegroup) others) (\<lambda>_.
             cur_commit))))"

definition get_pk_fields :: "reflected \<Rightarrow> (pyval, 'db) M" where
  "get_pk_fields self =
     bind (reflected_get_children self ''primary_keys'') (\<lambda>pks.
       case pks of
         [] \<Rightarrow> ret PNone
       | pk # _ \<Rightarrow> bind (getattr pk ''columns'') (\<lambda>(columns, _). ret columns))"

text \<open>
  \<open>_delete_ex\<close> of the classes that do not delete other entities on the way. The column,
  whose \<open>_delete_ex\<close> calls \<open>delete\<close> on indexes, follows below.
\<close>

definition drop_constraint :: "reflected \<Rightarrow> (unit, 'db) M" where
  "drop_constraint self =
     bind (parent_of self) (\<lambda>tbl. bind (schema_table tbl) (\<lambda>a.
       bind (ex (Sql ''DROP_CONSTRAINT'' (a @ [(''constraint_name'', Str (r_name self))])) [] False)
         (\<lambda>_. ret ())))"

definition delete_ex_index :: "reflected \<Rightarrow> (unit, 'db) M" where
  "delete_ex_index self =
     bind (get_details_ex self) (\<lambda>details.
       case details of
         None \<Rightarrow> raise AttributeError
       | Some detail \<Rightarrow>
           bind (row_get detail ''is_unique_constraint'') (\<lambda>is_unique_constraint.
             if truthy is_unique_constraint then
               bind (log Info ''Dropping unique constraint of index...'' []) (\<lambda>_.
                 drop_constraint self)
             else
               bind (parent_of self) (\<lambda>tbl. bind (schema_table tbl) (\<lambda>a.
                 bind (ex (Sql ''DROP_INDEX'' ((''index_name'', Str (r_name self)) # a)) [] False)
                   (\<lambda>_. ret ())))))"

definition delete_ex_partition :: "reflected \<Rightarrow> (unit, 'db) M" where
  "delete_ex_partition self =
     bind (parent_of self) (\<lambda>tbl.
     bind (recreate_indexes_on_filegroup tbl (Str ''[PRIMARY]'')) (\<lambda>_.
     bind (ex (Sql ''DROP_PARTITION_SCHEME'' [(''ps_name'', Str (r_name self))]) [] False) (\<lambda>_.
     bind (parent_of tbl) (\<lambda>sch.
     bind (getattr self ''column'') (\<lambda>(column, _).
     bind (ex (Sql ''DROP_PARTITION_FUNCTION''
                 [(''pf_name'', Format ''pf_{}_{}_{}'' [Str (r_name sch), Str (r_name tbl), Val column])])
             [] False) (\<lambda>_.
       cur_commit))))))"

definition delete_ex_basic :: "reflected \<Rightarrow> (unit, 'db) M" where
  "delete_ex_basic self =
     (case r_type self of
        PrimaryKey \<Rightarrow> drop_constraint self
      | ForeignKey \<Rightarrow> drop_constraint self
      | Index \<Rightarrow> delete_ex_index self
      | Partition \<Rightarrow> delete_ex_partition self
      | Table \<Rightarrow> bind (parent_of self) (\<lambda>sch.
          bind (ex (Sql ''DROP_TABLE'' [(''schema'', Str (r_name sch)), (''table'', Str (r_name self))])
                  [] False) (\<lambda>_. ret ()))
      | Schema \<Rightarrow> raise DBError
      | User \<Rightarrow> bind (ex (Sql ''DROP_USER'' [(''user_name'', Str (r_name self))]) [] False) (\<lambda>_. ret ())
      | Login \<Rightarrow> bind (ex (Sql ''DELETE_LOGIN'' [(''login_name'', Str (r_name self))]) [] False) (\<lambda>_. ret ())
      | _ \<Rightarrow> raise NotImplementedError)"

text \<open>
  \<open>ReflectedEntity.delete\<close>, for a given \<open>_delete_ex\<close>. It returns \<open>False\<close> when the deletion
  is not allowed or not confirmed; after a deletion it ends without a \<open>return\<close> statement,
  so that its value is \<open>None\<close>.
\<close>

definition delete_with :: "(reflected \<Rightarrow> (unit, 'db) M) \<Rightarrow> reflected \<Rightarrow> (pyval, 'db) M" where
  "delete_with delete_ex self =
     (if can_delete self then
        bind (input (Ask_delete (rpath self))) (\<lambda>answer.
          if answer = ''y'' then
            bind (log Info ''Deleting {}: {}'' [LR (rpath self)]) (\<lambda>_.
            bind (delete_ex self) (\<lambda>_.
            bind cur_commit (\<lambda>_. ret PNone)))
          else ret (PBool False))
      else
        bind (reflected_str self) (\<lambda>_.
        bind (log Info ''Delete not allowed for: {}'' [LR (rpath self)]) (\<lambda>_.
          ret (PBool False))))"

text \<open>\<open>ReflectedColumn.drop_associated_indexes\<close>: the indexes are \<open>ReflectedIndex\<close> objects,
  whose \<open>delete\<close> runs the \<open>_delete_ex\<close> of an index.\<close>

fun drop_indexes :: "reflected list \<Rightarrow> (bool, 'db) M" where
  "drop_indexes [] = ret True"
| "drop_indexes (index # rest) =
     bind (delete_with delete_ex_basic index) (\<lambda>deleted.
       if \<not> truthy deleted then ret False else drop_indexes rest)"

definition drop_associated_indexes :: "reflected \<Rightarrow> (bool, 'db) M" where
  "drop_associated_indexes self =
     bind (parent_of self) (\<lambda>tbl.
     bind (get_indexes_for_column tbl (r_name self)) drop_indexes)"

definition delete_ex_column :: "reflected \<Rightarrow> (unit, 'db) M" where
  "delete_ex_column self =
     bind (drop_associated_indexes self) (\<lambda>dropped.
       if dropped then
         bind (parent_of self) (\<lambda>tbl. bind (schema_table tbl) (\<lambda>a.
           bind (ex (Sql ''DROP_COLUMN'' (a @ [(''column_name'', Str (r_name self))])) [] True)
             (\<lambda>_. ret ())))
       else log Info ''Column: {} will not be deleted'' [LS (r_name self)])"

definition delete_ex :: "reflected \<Rightarrow> (unit, 'db) M" where
  "delete_ex self = (if r_type self = Column then delete_ex_column self else delete_ex_basic self)"

definition delete :: "reflected \<Rightarrow> (pyval, 'db) M" where
  "delete self = delete_with delete_ex self"


text \<open>Assigning \<open>declared_object.name\<close>.\<close>

definition declared_set_name :: "string \<Rightarrow> declared \<Rightarrow> declared" where
  "declared_set_name n d =
     Declared (d_type d) n (d_old_name d) (d_ignore d) (d_children d) (d_attrs d)"

definition today :: "(int, 'db) M" where
  "today = (\<lambda>w. (Inr (w_today w), w))"

text \<open>\<open>rows.fetchone()[0]\<close>.\<close>

definition fetchone_first :: "row list \<Rightarrow> (pyval, 'db) M" where
  "fetchone_first rows =
     (case fetchone rows of
        None \<Rightarrow> raise TypeError
      | Some [] \<Rightarrow> raise IndexError
      | Some ((_, v) # _) \<Rightarrow> ret v)"

text \<open>\<open>v.date()\<close>: only a datetime has the method.\<close>

definition date_of :: "pyval \<Rightarrow> (int, 'db) M" where
  "date_of v = (case v of PDate d \<Rightarrow> ret d | _ \<Rightarrow> raise AttributeError)"

text \<open>\<open>parent.get_child('columns', v)\<close> for a value \<open>v\<close> read from a declared attribute: a
  value that is not true is refused by \<open>by_name\<close>; a true value that is not a string is
  not modelled and rejected with \<open>TypeError\<close>.\<close>

definition reflected_get_child_val :: "reflected \<Rightarrow> string \<Rightarrow> pyval \<Rightarrow> (reflected, 'db) M" where
  "reflected_get_child_val self child_type v =
     (case v of
        PStr s \<Rightarrow> reflected_get_child self child_type s
      | _ \<Rightarrow> bind (get_child_class_from_name self child_type) (\<lambda>_.
               if truthy v then raise TypeError else raise DBObjectDoesntExistError))"

text \<open>\<open>ReflectedPartition._create_ex\<close>. Its last statement assigns the name of the new
  partition scheme to \<open>declared_object.name\<close>; the declared object is returned with it.\<close>

definition create_ex_partition :: "reflected \<Rightarrow> declared \<Rightarrow> (declared, 'db) M" where
  "create_ex_partition parent declared_object =
     bind (declared_getattr declared_object ''column'') (\<lambda>column.
     bind (reflected_get_child_val parent ''columns'' column) (\<lambda>partition_column.
     bind (getattr partition_column ''data_type'') (\<lambda>(data_type, pc1).
     bind (in_set data_type [''datetime'', ''datetime2'']) (\<lambda>time_based.
       if \<not> time_based then raise ValueError
       else
         bind (parent_of parent) (\<lambda>sch.
         bind (ex (Sql ''min_column_value''
                     [(''schema'', Str (r_name sch)), (''table'', Str (r_name parent)),
                      (''column'', Str (r_name pc1))]) [] False) (\<lambda>min_rows.
         bind (fetchone_first min_rows) (\<lambda>existing_min_value.
         bind (if truthy existing_min_value then
                 bind (ex (Sql ''max_column_value''
                             [(''schema'', Str (r_name sch)), (''table'', Str (r_name parent)),
                              (''column'', Str (r_name pc1))]) [] False) (\<lambda>max_rows.
                 bind (fetchone_first max_rows) (\<lambda>existing_max_value.
                 bind (date_of existing_min_value) (\<lambda>min_date.
                 bind (date_of existing_max_value) (\<lambda>max_date.
                   ret (min_date - 5, max_date + 5)))))
               else bind today (\<lambda>t. ret (t - 5, t + 5))) (\<lambda>(boundary_start_date, boundary_end_date).
         let boundary_values_str = Join '', ''
               (map (\<lambda>i. Format ''%Y%m%d'' [Val (PDate (boundary_start_date + int i))])
                  [0 ..< nat (boundary_end_date - boundary_start_date)]);
             pf_name = ''pf_'' @ r_name sch @ ''_'' @ r_name parent @ ''_'' @ r_name pc1;
             ps_name = ''ps_'' @ r_name sch @ ''_'' @ r_name parent @ ''_'' @ r_name pc1
         in
         bind (reflected_data_type_representation pc1) (\<lambda>(column_type, pc2).
         bind (ex (Sql ''CREATE_PARTITION_FUNCTION''
                     [(''pf_name'', Str pf_name), (''column_type'', column_type),
                      (''boundary_values'', boundary_values_str)]) [] False) (\<lambda>_.
         bind (ex (Sql ''CREATE_PARTITION_SCHEME''
                     [(''ps_name'', Str ps_name), (''pf_name'', Str pf_name)]) [] False) (\<lambda>_.
         bind cur_commit (\<lambda>_.
         bind (recreate_indexes_on_filegroup parent
                 (Format ''{}({})'' [Str ps_name, Str (r_name pc2)])) (\<lambda>_.
         bind (emit (Assign_name (d_type declared_object) (d_name declared_object) ps_name)) (\<lambda>_.
           ret (declared_set_name ps_name declared_object)))))))))))))))"

definition create_ex_foreign_key :: "reflected \<Rightarrow> declared \<Rightarrow> (unit, 'db) M" where
  "create_ex_foreign_key parent declared_object =
     bind (parent_of parent) (\<lambda>sch.
     bind (declared_getattr declared_object ''foreign_schema'') (\<lambda>foreign_schema.
     bind (declared_getattr declared_object ''foreign_table'') (\<lambda>foreign_table.
     bind (as_string foreign_schema) (\<lambda>fs. bind (as_string foreign_table) (\<lambda>ft.
     bind (declared_getattr declared_object ''column'') (\<lambda>column.
     bind (declared_getattr declared_object ''foreign_column'') (\<lambda>foreign_column.
     bind (ex (Sql ''CREATE_FOREIGN_KEY''
                 [(''schema'', Str (r_name sch)), (''table'', Str (r_name parent)),
                  (''fk_name'', Join ''_'' [Str ''FK'', Str (r_name sch), Str (r_name parent), Str fs, Str ft]),
                  (''column'', Val column), (''foreign_schema'', Val foreign_schema),
                  (''foreign_table'', Val foreign_table), (''foreign_column'', Val foreign_column)])
             [] False) (\<lambda>_. ret ()))))))))"

definition create_ex_column :: "reflected \<Rightarrow> declared \<Rightarrow> (unit, 'db) M" where
  "create_ex_column parent declared_object =
     bind (declared_sql_representation declared_object) (\<lambda>column_sql.
     bind (schema_table parent) (\<lambda>a.
     bind (ex (Sql ''ADD_COLUMN'' (a @ [(''column_def'', column_sql)])) [] False) (\<lambda>_. ret ())))"

definition create_ex_table :: "reflected \<Rightarrow> declared \<Rightarrow> (unit, 'db) M" where
  "create_ex_table parent declared_object =
     (case get_children declared_object Column of
        None \<Rightarrow> bind (declared_str declared_object) (\<lambda>_. raise AssertionError)
      | Some defined_columns \<Rightarrow>
          if defined_columns = [] then bind (declared_str declared_object) (\<lambda>_. raise AssertionError)
          else
            bind (mapM declared_sql_representation defined_columns) (\<lambda>columns_sql.
            bind (ex (Sql ''CREATE_TABLE''
                        [(''schema'', Str (r_name parent)), (''table'', Str (d_name declared_object)),
                         (''columns'', Join '', '' columns_sql)]) [] False) (\<lambda>_. ret ())))"

definition create_ex_user :: "reflected \<Rightarrow> declared \<Rightarrow> (unit, 'db) M" where
  "create_ex_user parent declared_obj =
     bind (declared_getattr declared_obj ''login_name'') (\<lambda>login_name.
     let user_name = (if d_name declared_obj \<noteq> [] then PStr (d_name declared_obj) else login_name) in
     bind (ex (Sql ''CREATE_USER'' [(''user_name'', Val user_name), (''login_name'', Val login_name)])
             [] False) (\<lambda>_.
     bind (declared_getattr declared_obj ''db_roles'') (\<lambda>db_roles.
     bind (iterate db_roles) (\<lambda>roles.
     bind (mapM (\<lambda>role_name.
             ex (Sql ''alter_db_role''
                   [(''role'', Str role_name), (''action'', Str ''ADD''), (''user_name'', Val user_name)])
                [] True) roles) (\<lambda>_. ret ())))))"

definition create_ex_database :: "reflected \<Rightarrow> declared \<Rightarrow> (unit, 'db) M" where
  "create_ex_database parent declared_db =
     bind (declared_getattr declared_db ''data_size'') (\<lambda>data_size.
     bind (declared_getattr declared_db ''log_size'') (\<lambda>log_size.
     bind (declared_getattr declared_db ''data_file_path'') (\<lambda>data_file_path.
     bind (declared_getattr declared_db ''log_file_path'') (\<lambda>log_file_path.
     bind (ex (Sql ''CREATE_DB''
                 [(''db_name'', Str (d_name declared_db)), (''data_size'', Val data_size),
                  (''log_size'', Val log_size), (''data_file_path'', Val data_file_path),
                  (''log_file_path'', Val log_file_path)])
             [(''autocommit'', PBool True)] False) (\<lambda>_. ret ())))))"

definition create_ex_login :: "reflected \<Rightarrow> declared \<Rightarrow> (unit, 'db) M" where
  "create_ex_login parent declared_login =
     bind (declared_getattr declared_login ''password'') (\<lambda>password.
     bind (ex (Sql ''CREATE_LOGIN''
                 [(''login_name'', Str (d_name declared_login)), (''password'', Val password)])
             [] False) (\<lambda>_. ret ()))"

text \<open>\<open>_create_ex\<close> of every class; the declared object is returned as the call leaves it.\<close>

definition create_ex :: "cls \<Rightarrow> reflected \<Rightarrow> declared \<Rightarrow> (declared, 'db) M" where
  "create_ex c parent declared_object =
     (case c of
        PrimaryKey \<Rightarrow>
          bind (create_helper c parent (FromDeclared declared_object) None False None)
            (\<lambda>_. ret declared_object)
      | Index \<Rightarrow>
          bind (create_helper c parent (FromDeclared declared_object) None False None)
            (\<lambda>_. ret declared_object)
      | ForeignKey \<Rightarrow> bind (create_ex_foreign_key parent declared_object) (\<lambda>_. ret declared_object)
      | Column \<Rightarrow> bind (create_ex_column parent declared_object) (\<lambda>_. ret declared_object)
      | Partition \<Rightarrow> create_ex_partition parent declared_object
      | Table \<Rightarrow> bind (create_ex_table parent declared_object) (\<lambda>_. ret declared_object)
      | Schema \<Rightarrow>
          bind (ex (Sql ''CREATE_SCHEMA'' [(''schema_name'', Str (d_name declared_object))]) [] False)
            (\<lambda>_. ret declared_object)
      | User \<Rightarrow> bind (create_ex_user parent declared_object) (\<lambda>_. ret declared_object)
      | Database \<Rightarrow> bind (create_ex_database parent declared_object) (\<lambda>_. ret declared_object)
      | Login \<Rightarrow> bind (create_ex_login parent declared_object) (\<lambda>_. ret declared_object)
      | Server \<Rightarrow> raise NotImplementedError)"

text \<open>\<open>ReflectedEntity.create\<close>.\<close>

definition create :: "cls \<Rightarrow> reflected \<Rightarrow> declared \<Rightarrow> (declared, 'db) M" where
  "create c parent declared_object =
     bind (declared_str declared_object) (\<lambda>_.
     bind (log Info ''Creating: {}: {}''
             [LR (rpath parent), LD (d_type declared_object) (d_name declared_object)]) (\<lambda>_.
     bind (create_ex c parent declared_object) (\<lambda>declared_object'.
     bind cur_commit (\<lambda>_.
     bind (name_exists_ex c parent (d_name declared_object')) (\<lambda>found.
       if \<not> found then bind (declared_str declared_object') (\<lambda>_. raise DBError)
       else ret declared_object')))))"

text \<open>\<open>_rename_ex\<close> of every class and \<open>ReflectedEntity.rename\<close>.\<close>

definition rename_ex :: "reflected \<Rightarrow> string \<Rightarrow> (reflected, 'db) M" where
  "rename_ex self new_name =
     (if r_type self = PrimaryKey \<or> r_type self = Index then
        bind (parent_of self) (\<lambda>tbl. bind (schema_table tbl) (\<lambda>a.
          bind (ex (Sql ''RENAME_INDEX'' (a @ [(''old_name'', Str (r_name self)), (''new_name'', Str new_name)]))
                  [] True) (\<lambda>_. ret (set_name new_name self))))
      else if r_type self = Column then
        bind (parent_of self) (\<lambda>tbl. bind (schema_table tbl) (\<lambda>a.
          bind (ex (Sql ''RENAME_COLUMN'' (a @ [(''old_name'', Str (r_name self)), (''new_name'', Str new_name)]))
                  [] False) (\<lambda>_. ret self)))
      else if r_type self = Table then
        bind (parent_of self) (\<lambda>sch.
          bind (ex (Sql ''RENAME_TABLE''
                      [(''schema'', Str (r_name sch)), (''old_name'', Str (r_name self)),
                       (''new_name'', Str new_name)]) [] False) (\<lambda>_. ret self))
      else if r_type self = Database then
        with_AutoCommit
          (bind (ex (Sql ''RENAME_DATABASE'' [(''old_name'', Str (r_name self)), (''new_name'', Str new_name)])
                   [] False) (\<lambda>_. ret self))
      else if r_type self = Schema then raise DBError
      else raise NotImplementedError)"

definition rename :: "reflected \<Rightarrow> string \<Rightarrow> (reflected, 'db) M" where
  "rename self new_name =
     bind (input (Ask_rename (rpath self) new_name)) (\<lambda>answer.
       if answer = ''y'' then
         bind (log Info ''Renaming {} to {}'' [LR (rpath self), LS new_name]) (\<lambda>_.
         bind (rename_ex self new_name) (\<lambda>self1.
         bind cur_commit (\<lambda>_.
         bind (parent_of self1) (\<lambda>parent.
         bind (name_exists_ex (r_type self1) parent new_name) (\<lambda>found.
           if \<not> found then raise DBError else ret (set_name new_name self1))))))
       else ret self)"

subsection \<open>Matching a declared entity\<close>

text \<open>\<open>for column_name in v: column_name.lower()\<close> for a declared value \<open>v\<close>.\<close>

definition lowered_items :: "pyval \<Rightarrow> (string list, 'db) M" where
  "lowered_items v = bind (iterate v) (\<lambda>items. ret (map lower items))"

definition from_declared_pk :: "reflected \<Rightarrow> declared \<Rightarrow> (reflected, 'db) M" where
  "from_declared_pk parent declared_obj =
     bind (parent_of parent) (\<lambda>sch.
     bind (ex (Sql ''TABLE_PK_COLUMNS''
                 [(''schema_name'', Str (r_name sch)), (''table_name'', Str (r_name parent))]) [] False)
       (\<lambda>pk_details.
     bind (mapM (\<lambda>pk. bind (row_get pk ''column_name'') (\<lambda>v. bind (py_lower v) as_string)) pk_details)
       (\<lambda>live_columns.
     bind (declared_getattr declared_obj ''columns'') (\<lambda>columns.
     bind (lowered_items columns) (\<lambda>declared_columns.
       if live_columns = declared_columns then
         (case pk_details of
            [] \<Rightarrow> raise IndexError
          | pk # _ \<Rightarrow> bind (row_get pk ''pk_name'') (new_reflected PrimaryKey parent))
       else bind (declared_str declared_obj) (\<lambda>_. raise DBObjectDoesntExistError))))))"

fun first_equal :: "reflected list \<Rightarrow> declared \<Rightarrow> (reflected option, 'db) M" where
  "first_equal [] declared_obj = ret None"
| "first_equal (index # rest) declared_obj =
     bind (reflected_eq index declared_obj) (\<lambda>(same, index1).
       if truthy same then
         bind (declared_str declared_obj) (\<lambda>_.
         bind (reflected_str index1) (\<lambda>index2.
         bind (log Debug ''Declared Index: {} matches existing index: {}''
                 [LD (d_type declared_obj) (d_name declared_obj), LR (rpath index2)]) (\<lambda>_.
           ret (Some index2))))
       else first_equal rest declared_obj)"

definition from_declared_index :: "reflected \<Rightarrow> declared \<Rightarrow> (reflected, 'db) M" where
  "from_declared_index parent declared_obj =
     bind (all_for_parent Index parent) (\<lambda>indexes.
     bind (first_equal indexes declared_obj) (\<lambda>found.
       case found of
         Some index \<Rightarrow> ret index
       | None \<Rightarrow> bind (declared_str declared_obj) (\<lambda>_. raise DBObjectDoesntExistError)))"

text \<open>\<open>all(getattr(fk_detail, attr) == getattr(declared_obj, attr) for attr in attrs)\<close>.\<close>

fun all_attrs_equal :: "row \<Rightarrow> declared \<Rightarrow> string list \<Rightarrow> (bool, 'db) M" where
  "all_attrs_equal fk_detail declared_obj [] = ret True"
| "all_attrs_equal fk_detail declared_obj (attr # rest) =
     bind (row_get fk_detail attr) (\<lambda>v.
     bind (declared_getattr declared_obj attr) (\<lambda>dv.
       if py_eq v dv then all_attrs_equal fk_detail declared_obj rest else ret False))"

fun first_matching_fk :: "reflected \<Rightarrow> declared \<Rightarrow> pyval list \<Rightarrow> (reflected option, 'db) M" where
  "first_matching_fk parent declared_obj [] = ret None"
| "first_matching_fk parent declared_obj (fk_name # rest) =
     bind (schema_table parent) (\<lambda>a.
     bind (ex (Sql ''FK_DETAILS'' (a @ [(''fk_name'', Val fk_name)])) [] False) (\<lambda>rows.
       case fetchone rows of
         None \<Rightarrow> raise AttributeError
       | Some fk_detail \<Rightarrow>
           bind (all_attrs_equal fk_detail declared_obj
                   [''column'', ''foreign_schema'', ''foreign_table'', ''foreign_column'']) (\<lambda>same.
             if same then bind (new_reflected ForeignKey parent fk_name) (\<lambda>fk. ret (Some fk))
             else first_matching_fk parent declared_obj rest)))"

definition from_declared_foreign_key :: "reflected \<Rightarrow> declared \<Rightarrow> (reflected, 'db) M" where
  "from_declared_foreign_key parent declared_obj =
     bind (list_names_ex ForeignKey parent) (\<lambda>names.
     bind (first_matching_fk parent declared_obj names) (\<lambda>found.
       case found of
         Some fk \<Rightarrow> ret fk
       | None \<Rightarrow> bind (declared_str declared_obj) (\<lambda>_. raise DBObjectDoesntExistError)))"

definition from_declared_partition :: "reflected \<Rightarrow> declared \<Rightarrow> (reflected, 'db) M" where
  "from_declared_partition parent declared_obj =
     bind (parent_of parent) (\<lambda>sch.
     bind (declared_getattr declared_obj ''column'') (\<lambda>column.
     bind (ex (Sql ''table_partition_details_for_column''
                 [(''schema'', Str (r_name sch)), (''table'', Str (r_name parent)),
                  (''column_name'', Val column)]) [] False) (\<lambda>rows.
       case fetchone rows of
         None \<Rightarrow> bind (declared_str declared_obj) (\<lambda>_. raise DBObjectDoesntExistError)
       | Some partition_detail \<Rightarrow>
           if partition_detail = [] then
             bind (declared_str declared_obj) (\<lambda>_. raise DBObjectDoesntExistError)
           else bind (row_get partition_detail ''ps_name'') (new_reflected Partition parent))))"

definition from_declared_user :: "reflected \<Rightarrow> declared \<Rightarrow> (reflected, 'db) M" where
  "from_declared_user parent declared_obj =
     bind (declared_getattr declared_obj ''login_name'') (\<lambda>login_name.
     bind (ex (Sql ''USER_FOR_LOGIN'' [(''login_name'', Val login_name)]) [] False) (\<lambda>rows.
       case fetchone rows of
         None \<Rightarrow> raise DBObjectDoesntExistError
       | Some login_user \<Rightarrow>
           if login_user = [] then raise DBObjectDoesntExistError
           else
             bind (row_get login_user ''name'') (\<lambda>name.
             bind (row_get login_user ''login_name'') (\<lambda>found_login.
             bind (log Debug ''Found existing user: {} for login: {}'' [LV name, LV found_login]) (\<lambda>_.
             bind (row_get login_user ''name'') (new_reflected User parent))))))"

text \<open>\<open>from_declared\<close> of every class.\<close>

definition from_declared :: "cls \<Rightarrow> reflected \<Rightarrow> declared \<Rightarrow> (reflected, 'db) M" where
  "from_declared c parent declared_obj =
     (case c of
        PrimaryKey \<Rightarrow> from_declared_pk parent declared_obj
      | Index \<Rightarrow> from_declared_index parent declared_obj
      | ForeignKey \<Rightarrow> from_declared_foreign_key parent declared_obj
      | Partition \<Rightarrow> from_declared_partition parent declared_obj
      | User \<Rightarrow> from_declared_user parent declared_obj
      | _ \<Rightarrow> by_name c parent (d_name declared_obj))"

text \<open>
  \<open>get_or_create\<close>: the reflected object, or \<open>None\<close>, together with the declared object as
  the call leaves it.
\<close>

definition get_or_create :: "cls \<Rightarrow> reflected \<Rightarrow> declared \<Rightarrow> (reflected option \<times> declared, 'db) M" where
  "get_or_create c parent declared_object =
     catch (bind (from_declared c parent declared_object) (\<lambda>r. ret (Some r, declared_object)))
       DBObjectDoesntExistError
       (if can_create c then
          bind (create c parent declared_object) (\<lambda>declared_object'.
          bind (from_declared c parent declared_object') (\<lambda>r. ret (Some r, declared_object')))
        else
          bind (declared_str declared_object) (\<lambda>_.
          bind (log Info ''Unable to create: {}''
                  [LD (d_type declared_object) (d_name declared_object)]) (\<lambda>_.
            ret (None, declared_object))))"

definition get_or_create_child :: "reflected \<Rightarrow> declared \<Rightarrow> (reflected option \<times> declared, 'db) M" where
  "get_or_create_child self declared_object =
     bind (get_child_class_from_name self (object_type (d_type declared_object))) (\<lambda>child_class.
       get_or_create child_class self declared_object)"


subsection \<open>Altering attributes\<close>

definition set_attr_compression :: "reflected \<Rightarrow> declared \<Rightarrow> (reflected, 'db) M" where
  "set_attr_compression self declared_obj =
     bind (parent_of self) (\<lambda>tbl. bind (schema_table tbl) (\<lambda>a.
     bind (declared_getattr declared_obj ''compression'') (\<lambda>compression.
     bind (ex (Sql ''ALTER_INDEX'' (a @
                 [(''index_name'', Str (r_name self)), (''compression'', Val compression),
                  (''online'', Str ''OFF'')])) [] True) (\<lambda>_. ret self))))"

text \<open>\<open>ReflectedColumn._alter_column\<close>.\<close>

definition alter_column :: "reflected \<Rightarrow> declared \<Rightarrow> (reflected, 'db) M" where
  "alter_column self declared_obj =
     bind (parent_of self) (\<lambda>tbl. bind (schema_table tbl) (\<lambda>a.
     bind (declared_sql_representation declared_obj) (\<lambda>column_def.
     bind (ex (Sql ''ALTER_COLUMN'' (a @ [(''column_def'', column_def)])) [] True) (\<lambda>_.
       ret (reset_all_attributes self)))))"

definition set_attr_identity :: "reflected \<Rightarrow> declared \<Rightarrow> (reflected, 'db) M" where
  "set_attr_identity self declared_obj =
     bind (parent_of self) (\<lambda>tbl.
     bind (get_pk_fields tbl) (\<lambda>pk_fields.
       if truthy pk_fields then raise PyException
       else
         bind (delete self) (\<lambda>_.
         bind (create (r_type self) tbl declared_obj) (\<lambda>_. ret self))))"

definition set_attr_data_type :: "reflected \<Rightarrow> declared \<Rightarrow> (reflected, 'db) M" where
  "set_attr_data_type self declared_obj =
     bind (drop_associated_indexes self) (\<lambda>dropped.
       if dropped then alter_column self declared_obj
       else bind (log Info ''Column: {} will not be altered'' [LS (r_name self)]) (\<lambda>_. ret self))"

text \<open>The role statements of a user or login: one statement, committed, for every role of
  \<open>set(xs) - set(ys)\<close>.\<close>

definition alter_roles :: "string \<Rightarrow> string \<Rightarrow> string \<Rightarrow> string \<Rightarrow> string list \<Rightarrow> (unit, 'db) M" where
  "alter_roles template member_key member action roles =
     bind (mapM (\<lambda>role_name.
             ex (Sql template [(''role'', Str role_name), (''action'', Str action), (member_key, Str member)])
                [] True) roles) (\<lambda>_. ret ())"

definition set_difference :: "string list \<Rightarrow> string list \<Rightarrow> string list" where
  "set_difference xs ys = filter (\<lambda>x. x \<notin> set ys) (remdups xs)"

definition set_roles :: "string \<Rightarrow> string \<Rightarrow> string \<Rightarrow> reflected \<Rightarrow> declared \<Rightarrow> (reflected, 'db) M" where
  "set_roles attr template member_key self declared_obj =
     bind (declared_getattr declared_obj attr) (\<lambda>declared_roles.
     bind (iterate declared_roles) (\<lambda>wanted.
     bind (getattr self attr) (\<lambda>(live_roles, self1).
     bind (iterate live_roles) (\<lambda>live.
     bind (alter_roles template member_key (r_name self1) ''ADD'' (set_difference wanted live)) (\<lambda>_.
     bind (getattr self1 attr) (\<lambda>(live_roles', self2).
     bind (iterate live_roles') (\<lambda>live'.
     bind (declared_getattr declared_obj attr) (\<lambda>declared_roles'.
     bind (iterate declared_roles') (\<lambda>wanted'.
     bind (alter_roles template member_key (r_name self2) ''DROP'' (set_difference live' wanted')) (\<lambda>_.
       ret self2))))))))))"

definition set_attr_db_roles :: "reflected \<Rightarrow> declared \<Rightarrow> (reflected, 'db) M" where
  "set_attr_db_roles self declared_obj =
     bind (parent_of self) (\<lambda>db.
     bind (ex (Sql ''DATABASE_DETAIL'' [(''db_name'', Str (r_name db))]) [] False) (\<lambda>rows.
     bind (fetchone_get rows ''owner'') (\<lambda>owner.
     bind (getattr self ''login_name'') (\<lambda>(login_name, self1).
       if py_eq owner login_name then
         bind (log Info ''User login already owner of database, cant set roles'' []) (\<lambda>_. ret self1)
       else set_roles ''db_roles'' ''alter_db_role'' ''user_name'' self1 declared_obj))))"

definition set_attr_server_roles :: "reflected \<Rightarrow> declared \<Rightarrow> (reflected, 'db) M" where
  "set_attr_server_roles self declared_server =
     set_roles ''server_roles'' ''ALTER_SERVER_ROLE'' ''login_name'' self declared_server"

definition set_attr_recovery_model_desc :: "reflected \<Rightarrow> declared \<Rightarrow> (reflected, 'db) M" where
  "set_attr_recovery_model_desc self declared_db =
     bind (declared_getattr declared_db ''recovery_model_desc'') (\<lambda>v.
     bind (ex (Sql ''db_option_set''
                 [(''db_name'', Str (r_name self)), (''option_name'', Str ''RECOVERY''), (''value'', Val v)])
             [(''autocommit'', PBool True)] False) (\<lambda>_. ret self))"

definition set_attr_owner :: "reflected \<Rightarrow> declared \<Rightarrow> (reflected, 'db) M" where
  "set_attr_owner self declared_db =
     bind (declared_getattr declared_db ''owner'') (\<lambda>v.
     bind (ex (Sql ''set_db_owner'' [(''db_owner'', Val v)]) [(''autocommit'', PBool True)] False)
       (\<lambda>_. ret self))"

text \<open>\<open>ReflectedDatabase.change_db_file_path\<close>; \<open>move_db_file\<close> is its confirmed branch.\<close>

definition field_of_option :: "row option \<Rightarrow> string \<Rightarrow> (pyval, 'db) M" where
  "field_of_option r field = (case r of None \<Rightarrow> raise AttributeError | Some fs \<Rightarrow> row_get fs field)"

definition move_db_file :: "reflected \<Rightarrow> string \<Rightarrow> pyval \<Rightarrow> (unit, 'db) M" where
  "move_db_file self file_type new_path =
     bind (ex (Sql ''db_file_info''
                 [(''db_name'', Str (r_name self)), (''file_type'', Str file_type)]) [] False) (\<lambda>rows.
     bind (cur_execute (Sql ''USE'' [(''name'', Str ''master'')]) []) (\<lambda>_.
     bind (with_AutoCommit
             (bind (field_of_option (fetchone rows) ''name'') (\<lambda>file_name.
              bind (ex (Sql ''CHANGE_DB_FILE_PATH''
                          [(''db_name'', Str (r_name self)), (''file_name'', Val file_name),
                           (''file_path'', Val new_path)])
                      [(''enforce_db'', PBool False)] False) (\<lambda>_.
              bind (ex (Sql ''SET_DB_OFFLINE'' [(''db_name'', Str (r_name self))])
                      [(''enforce_db'', PBool False)] False) (\<lambda>_.
              bind (field_of_option (fetchone rows) ''physical_name'') (\<lambda>_.
              bind (input Ask_file_moved) (\<lambda>_.
              bind (ex (Sql ''SET_DB_ONLINE'' [(''db_name'', Str (r_name self))])
                      [(''enforce_db'', PBool False)] False) (\<lambda>_. ret ())))))))) (\<lambda>_.
     bind (cur_execute (Sql ''USE'' [(''name'', Str (r_name self))]) []) (\<lambda>_. ret ()))))"

definition change_db_file_path :: "reflected \<Rightarrow> string \<Rightarrow> pyval \<Rightarrow> (unit, 'db) M" where
  "change_db_file_path self file_type new_path =
     bind (ex (Sql ''DB_IN_HAG'' [(''db_name'', Str (r_name self))]) [] False) (\<lambda>hag.
       if row_truthy (fetchone hag) then raise PyException
       else
         bind (input Ask_move_db_file) (\<lambda>answer.
           if answer = ''y'' then move_db_file self file_type new_path else ret ()))"

definition set_attr_file_path :: "string \<Rightarrow> string \<Rightarrow> reflected \<Rightarrow> declared \<Rightarrow> (reflected, 'db) M" where
  "set_attr_file_path attr file_type self declared_db =
     bind (declared_getattr declared_db attr) (\<lambda>new_path.
     bind (change_db_file_path self file_type new_path) (\<lambda>_. ret self))"

text \<open>\<open>getattr(self, 'set_attr_<name>', None)\<close>: the method a class defines or inherits for
  altering the attribute, if any.\<close>

definition set_attr_method :: "cls \<Rightarrow> string \<Rightarrow> (reflected \<Rightarrow> declared \<Rightarrow> (reflected, 'db) M) option" where
  "set_attr_method c a =
     (if c \<in> {PrimaryKey, Index} \<and> a = ''compression'' then Some set_attr_compression
      else if c \<in> {PrimaryKey, Index} \<and> a = ''clustered'' then Some recreate_new_attributes
      else if c = Index \<and> a = ''included_columns'' then Some recreate_new_attributes
      else if c = Column \<and> a = ''identity'' then Some set_attr_identity
      else if c = Column \<and> a \<in> {''nullable'', ''char_max_len'', ''datetime_precision'',
                ''numeric_precision'', ''numeric_scale''} then Some alter_column
      else if c = Column \<and> a = ''data_type'' then Some set_attr_data_type
      else if c = User \<and> a = ''db_roles'' then Some set_attr_db_roles
      else if c = Database \<and> a = ''recovery_model_desc'' then Some set_attr_recovery_model_desc
      else if c = Database \<and> a = ''owner'' then Some set_attr_owner
      else if c = Database \<and> a = ''data_file_path'' then Some (set_attr_file_path ''data_file_path'' ''ROWS'')
      else if c = Database \<and> a = ''log_file_path'' then Some (set_attr_file_path ''log_file_path'' ''LOG'')
      else if c = Login \<and> a = ''server_roles'' then Some set_attr_server_roles
      else None)"

text \<open>
  \<open>ReflectedEntity.set_attribute\<close>: whether the attribute was set, and the entity as the
  call leaves it.
\<close>

definition set_attribute :: "reflected \<Rightarrow> declared \<Rightarrow> string \<Rightarrow> (bool \<times> reflected, 'db) M" where
  "set_attribute self declared_obj attribute_name =
     (case set_attr_method (r_type self) attribute_name of
        None \<Rightarrow>
          bind (log Error ''No method defined for altering {} attribute: {}''
                  [LR (rpath self), LS attribute_name]) (\<lambda>_. ret (False, self))
      | Some method \<Rightarrow>
          bind (declared_getattr declared_obj attribute_name) (\<lambda>new_value.
          bind (input (Ask_set_attribute (rpath self) attribute_name new_value)) (\<lambda>answer.
            if answer = ''y'' then
              bind (reflected_str self) (\<lambda>self1.
              bind (log Info ''Setting {} {} = {}'' [LR (rpath self1), LS attribute_name, LV new_value]) (\<lambda>_.
              bind (method self1 declared_obj) (\<lambda>self2.
              bind cur_commit (\<lambda>_.
              bind (getattr (reset_attribute self2 attribute_name) attribute_name) (\<lambda>(value, self3).
                if \<not> py_eq value new_value then raise DBNotAlteredAttributeError
                else ret (True, self3))))))
            else ret (False, self))))"


section \<open>The alignment engine (align.py)\<close>

text \<open>
  The attribute loop of \<open>align_entity\<close>: every attribute of the registry is compared and,
  when the values differ, set through \<open>set_attribute\<close>.
\<close>

fun align_attributes :: "declared \<Rightarrow> reflected \<Rightarrow> string list \<Rightarrow> (reflected, 'db) M" where
  "align_attributes declared_obj reflected_obj [] = ret reflected_obj"
| "align_attributes declared_obj reflected_obj (attr_name # rest) =
     bind (declared_getattr declared_obj attr_name) (\<lambda>declared_value.
     bind (getattr reflected_obj attr_name) (\<lambda>(value, r1).
       if \<not> py_eq declared_value value then
         bind (getattr r1 attr_name) (\<lambda>(current, r2).
         bind (declared_getattr declared_obj attr_name) (\<lambda>wanted.
         bind (reflected_str r2) (\<lambda>r3.
         bind (log Info ''{} attribute {} is currently: {} but should be: {}''
                 [LR (rpath r3), LS attr_name, LV current, LV wanted]) (\<lambda>_.
         bind (set_attribute r3 declared_obj attr_name) (\<lambda>(_, r4).
           align_attributes declared_obj r4 rest)))))
       else align_attributes declared_obj r1 rest))"

text \<open>\<open>any(existing_child == declared_child for declared_child in declared_children)\<close>.\<close>

fun any_equal :: "reflected \<Rightarrow> declared list \<Rightarrow> (bool \<times> reflected, 'db) M" where
  "any_equal existing_child [] = ret (False, existing_child)"
| "any_equal existing_child (declared_child # rest) =
     bind (reflected_eq existing_child declared_child) (\<lambda>(same, c1).
       if truthy same then ret (True, c1) else any_equal c1 rest)"

text \<open>The loop of \<open>align_child_type\<close> over the existing children: a child that equals no
  declared child is deleted.\<close>

fun delete_undeclared :: "reflected list \<Rightarrow> declared list \<Rightarrow> (unit, 'db) M" where
  "delete_undeclared [] declared_children = ret ()"
| "delete_undeclared (existing_child # rest) declared_children =
     bind (reflected_str existing_child) (\<lambda>c1.
     bind (log Debug ''Found child object: {}'' [LR (rpath c1)]) (\<lambda>_.
     bind (any_equal c1 declared_children) (\<lambda>(matched, c2).
       if matched then
         bind (reflected_str c2) (\<lambda>c3.
         bind (log Debug ''Existing child object: {} matches declaration'' [LR (rpath c3)]) (\<lambda>_.
           delete_undeclared rest declared_children))
       else
         bind (reflected_str c2) (\<lambda>c3.
         bind (log Debug ''Existing child: {} does not match any in definition: {}''
                 [LR (rpath c3), LNames (map d_name declared_children)]) (\<lambda>_.
         bind (delete c3) (\<lambda>_.
           delete_undeclared rest declared_children))))))"

text \<open>The renaming step for one declared child: an existing child under \<open>old_name\<close> is
  renamed; that there is none is ignored.\<close>

definition rename_old_name_child :: "reflected \<Rightarrow> declared \<Rightarrow> (unit, 'db) M" where
  "rename_old_name_child reflected_parent declared_child =
     (case d_old_name declared_child of
        None \<Rightarrow> ret ()
      | Some old_name \<Rightarrow>
          if old_name = [] then ret ()
          else
            catch
              (bind (reflected_get_child reflected_parent (object_type (d_type declared_child)) old_name)
                 (\<lambda>old_name_child.
               bind (rename old_name_child (d_name declared_child)) (\<lambda>_. ret ())))
              DBObjectDoesntExistError
              (ret ()))"

text \<open>Writing a list of children back under its key of \<open>self.children\<close>.\<close>

fun set_children :: "cls \<Rightarrow> declared list \<Rightarrow> (cls \<times> declared list) list \<Rightarrow> (cls \<times> declared list) list" where
  "set_children k cs [] = []"
| "set_children k cs ((k', cs') # rest) =
     (if k' = k then (k', cs) # rest else (k', cs') # set_children k cs rest)"

fun with_children :: "(cls \<times> declared list) list \<Rightarrow> declared \<Rightarrow> declared" where
  "with_children [] d = d"
| "with_children ((k, cs) # updates) d =
     with_children updates
       (Declared (d_type d) (d_name d) (d_old_name d) (d_ignore d)
          (set_children k cs (d_children d)) (d_attrs d))"

text \<open>
  \<open>align_entity\<close> and \<open>align_child_type\<close>, with the loop over the child types
  (\<open>align_child_types\<close>) and the loop over the declared children
  (\<open>align_declared_children\<close>).

  The declared objects are mutable and shared with the caller: each function returns the
  declared objects it was given as the run leaves them. \<open>align_child_type\<close> returns the
  list of declared children of its type (\<open>None\<close> when the parent declares none), and
  \<open>align_entity\<close> writes the lists back under their keys. The keys are distinct, so each
  child type reads the list it would read in place. \<open>get_or_create_child\<close> returns the
  declared child with at most its name assigned anew (\<open>get_or_create_child_declared\<close>
  below), which is how the recursive call receives it.
\<close>

text \<open>For the termination of the recursion below: it follows the declared tree
  downwards, and assigning a name does not change the size of a declared object.\<close>

lemma size_declared_set_name: "size (declared_set_name n d) = size d"
  by (cases d) (simp add: declared_set_name_def)

lemma size_children:
  "map_of ch k = Some cs \<Longrightarrow> size_list size cs \<le> size_list (size_prod (\<lambda>_. 0) (size_list size)) ch"
  by (induction ch) (auto split: if_splits)

lemma size_get_children: "get_children d k = Some cs \<Longrightarrow> size_list size cs < size d"
  using size_children [of "d_children d" k cs]
  by (cases d) (simp add: get_children_def)

function (sequential)
  align_entity :: "declared \<Rightarrow> reflected \<Rightarrow> bool \<Rightarrow> (declared, 'db) M"
  and align_child_types :: "declared \<Rightarrow> reflected \<Rightarrow> cls list \<Rightarrow> ((cls \<times> declared list) list, 'db) M"
  and align_child_type :: "declared \<Rightarrow> reflected \<Rightarrow> cls \<Rightarrow> (declared list option, 'db) M"
  and align_declared_children :: "reflected \<Rightarrow> declared list \<Rightarrow> (declared list, 'db) M"
where
  "align_entity declared_obj reflected_obj align_children =
     bind (declared_display_details declared_obj) (\<lambda>_.
     bind (reflected_display_details reflected_obj) (\<lambda>r1.
     bind (log Debug ''Aligning: {} with: {}''
             [LD (d_type declared_obj) (d_name declared_obj), LR (rpath r1)]) (\<lambda>_.
       if object_type (d_type declared_obj) \<noteq> object_type (r_type r1) then raise AssertionError
       else
         bind (align_attributes declared_obj r1 (valid_attributes (d_type declared_obj))) (\<lambda>r2.
           if align_children then
             bind (align_child_types declared_obj r2 (declared_child_types (d_type declared_obj)))
               (\<lambda>updates. ret (with_children updates declared_obj))
           else ret declared_obj))))"
| "align_child_types declared_obj reflected_obj [] = ret []"
| "align_child_types declared_obj reflected_obj (child_type # rest) =
     bind (align_child_type declared_obj reflected_obj child_type) (\<lambda>aligned.
     bind (align_child_types declared_obj reflected_obj rest) (\<lambda>updates.
       ret (case aligned of None \<Rightarrow> updates | Some cs \<Rightarrow> (child_type, cs) # updates)))"
| "align_child_type declared_parent reflected_parent child_class =
     bind (declared_str declared_parent) (\<lambda>_.
     bind (log Debug ''Aligning children {} of {}''
             [LS (object_type child_class), LD (d_type declared_parent) (d_name declared_parent)]) (\<lambda>_.
       case get_children declared_parent child_class of
         None \<Rightarrow> ret None
       | Some declared_children \<Rightarrow>
           bind (if \<not> ignore_extra_children_type declared_parent (object_type child_class) then
                   bind (reflected_str reflected_parent) (\<lambda>_.
                   bind (log Debug ''Checking existing {} children of: {}''
                           [LS (object_type child_class), LR (rpath reflected_parent)]) (\<lambda>_.
                   bind (reflected_get_children reflected_parent (object_type child_class))
                     (\<lambda>existing. delete_undeclared existing declared_children)))
                 else ret ()) (\<lambda>_.
           bind (align_declared_children reflected_parent declared_children) (\<lambda>cs.
             ret (Some cs)))))"
| "align_declared_children reflected_parent [] = ret []"
| "align_declared_children reflected_parent (declared_child # rest) =
     bind (rename_old_name_child reflected_parent declared_child) (\<lambda>_.
     bind (get_or_create_child reflected_parent declared_child) (\<lambda>(reflected_obj, created).
     bind (case reflected_obj of
             None \<Rightarrow> ret (declared_set_name (d_name created) declared_child)
           | Some r \<Rightarrow> align_entity (declared_set_name (d_name created) declared_child) r True)
       (\<lambda>declared_child'.
     bind (align_declared_children reflected_parent rest) (\<lambda>rest'.
       ret (declared_child' # rest')))))"
  by pat_completeness auto

termination
  apply (relation "inv_image (less_than <*lex*> less_than <*lex*> less_than)
     (\<lambda>x. case x of
        Inl (Inl (d, r, ac)) \<Rightarrow> (size d, 3::nat, 0::nat)
      | Inl (Inr (d, r, Ts)) \<Rightarrow> (size d, 2, length Ts)
      | Inr (Inl (d, r, T)) \<Rightarrow> (size d, 1, 0)
      | Inr (Inr (r, dcs)) \<Rightarrow> (size_list size dcs, 4, length dcs))")
       apply (auto simp: size_declared_set_name dest: size_get_children)
  done

text \<open>\<open>align_server\<close>.\<close>

definition align_server :: "declared \<Rightarrow> (declared, 'db) M" where
  "align_server declared_server =
     bind from_cursor (\<lambda>refleted_server. align_entity declared_server refleted_server True)"


section \<open>A small server for running the program\<close>

text \<open>
  A server holding one table: its columns with their data types, its indexes with their
  key columns and whether they are clustered, and the partition scheme the table lies
  on, if any, with the partitioning column. \<open>mini_execute\<close> answers the statements the
  program sends as such a server would; it ignores the schema and table arguments.
\<close>

record mini_db =
  m_columns :: "(string \<times> string) list"
  m_indexes :: "(string \<times> string list \<times> bool) list"
  m_partition :: "(string \<times> string) option"

definition arg_str :: "(string \<times> sqlarg) list \<Rightarrow> string \<Rightarrow> string" where
  "arg_str args k = (case map_of args k of Some (Val (PStr s)) \<Rightarrow> s | _ \<Rightarrow> [])"

definition index_row :: "string \<times> string list \<times> bool \<Rightarrow> row" where
  "index_row ix = [(''index_name'', PStr (fst ix)),
     (''type_desc'', PStr (if snd (snd ix) then ''CLUSTERED'' else ''NONCLUSTERED'')),
     (''unique'', PBool False), (''is_unique_constraint'', PBool False),
     (''compression'', PStr ''NONE'')]"

definition column_row :: "string \<times> string \<Rightarrow> row" where
  "column_row c = [(''name'', PStr (fst c)), (''data_type'', PStr (snd c)),
     (''char_max_len'', PNone), (''datetime_precision'', PInt 7), (''numeric_precision'', PNone),
     (''numeric_scale'', PNone), (''nullable'', PBool False), (''identity'', PBool False)]"

definition partition_rows :: "mini_db \<Rightarrow> row list" where
  "partition_rows db = (case m_partition db of
       None \<Rightarrow> []
     | Some (ps, col) \<Rightarrow> [[(''column_name'', PStr col), (''ps_name'', PStr ps), (''pf_name'', PStr [])]])"

text \<open>The columns of \<open>', '.join(columns)\<close> and the target of \<open>ON {create_on}\<close>.\<close>

definition arg_columns :: "(string \<times> sqlarg) list \<Rightarrow> string list" where
  "arg_columns args = (case map_of args ''columns'' of Some (JoinVal _ (PTuple cs)) \<Rightarrow> cs | _ \<Rightarrow> [])"

definition arg_scheme :: "(string \<times> sqlarg) list \<Rightarrow> (string \<times> string) option" where
  "arg_scheme args = (case map_of args ''create_on'' of
       Some (Format _ [Val (PStr ps), Val (PStr col)]) \<Rightarrow> Some (ps, col)
     | _ \<Rightarrow> None)"

text \<open>The column name and the type of a column definition (\<open>ALTER COLUMN {column_def}\<close>,
  \<open>ADD {column_def}\<close>).\<close>

definition arg_column_def :: "(string \<times> sqlarg) list \<Rightarrow> (string \<times> string) option" where
  "arg_column_def args = (case map_of args ''column_def'' of
       Some (Join _ (Val (PStr n) # Val (PStr ty) # _)) \<Rightarrow> Some (n, ty)
     | _ \<Rightarrow> None)"

definition mini_execute :: "sql \<Rightarrow> (string \<times> pyval) list \<Rightarrow> mini_db \<Rightarrow> row list option \<times> mini_db" where
  "mini_execute s kw db = (case s of Sql t args \<Rightarrow>
     if t = ''TABLE_INDEX_NAMES'' then (Some (map (\<lambda>ix. [(''name'', PStr (fst ix))]) (m_indexes db)), db)
     else if t = ''INDEX_EXISTS'' then
       (Some (map (\<lambda>ix. [(''1'', PInt 1)]) (filter (\<lambda>ix. fst ix = arg_str args ''index_name'') (m_indexes db))), db)
     else if t = ''named_index_details'' then
       (Some (map index_row (filter (\<lambda>ix. fst ix = arg_str args ''index_name'') (m_indexes db))), db)
     else if t = ''index_nonpartition_columns'' \<or> t = ''index_all_columns'' then
       (Some (concat (map (\<lambda>ix. map (\<lambda>c. [(''column_name'', PStr c)]) (fst (snd ix)))
                (filter (\<lambda>ix. fst ix = arg_str args ''index_name'') (m_indexes db)))), db)
     else if t = ''DROP_INDEX'' then
       (Some [], db\<lparr>m_indexes := filter (\<lambda>ix. fst ix \<noteq> arg_str args ''index_name'') (m_indexes db)\<rparr>)
     else if t = ''CREATE_INDEX'' then
       (Some [], db\<lparr>m_indexes :=
            filter (\<lambda>ix. fst ix \<noteq> arg_str args ''name'') (m_indexes db)
              @ [(arg_str args ''name'', arg_columns args, arg_str args ''clustering'' = ''CLUSTERED'')],
          m_partition := (if arg_str args ''clustering'' = ''CLUSTERED'' then arg_scheme args
                          else m_partition db)\<rparr>)
     else if t = ''table_column_details'' then (Some (map column_row (m_columns db)), db)
     else if t = ''COLUMN_EXISTS'' then
       (Some (map (\<lambda>c. [(''1'', PInt 1)]) (filter (\<lambda>c. fst c = arg_str args ''column_name'') (m_columns db))), db)
     else if t = ''column_detail'' then
       (Some (map column_row (filter (\<lambda>c. fst c = arg_str args ''column_name'') (m_columns db))), db)
     else if t = ''ALTER_COLUMN'' then
       (case arg_column_def args of
          None \<Rightarrow> (None, db)
        | Some (n, ty) \<Rightarrow>
            (Some [], db\<lparr>m_columns := map (\<lambda>c. if fst c = n then (n, ty) else c) (m_columns db)\<rparr>))
     else if t = ''ADD_COLUMN'' then
       (case arg_column_def args of
          None \<Rightarrow> (None, db)
        | Some (n, ty) \<Rightarrow> (Some [], db\<lparr>m_columns := m_columns db @ [(n, ty)]\<rparr>))
     else if t = ''DROP_COLUMN'' then
       (Some [], db\<lparr>m_columns := filter (\<lambda>c. fst c \<noteq> arg_str args ''column_name'') (m_columns db)\<rparr>)
     else if t = ''min_column_value'' \<or> t = ''max_column_value'' then (Some [[([], PNone)]], db)
     else if t = ''table_partition_names'' then (Some (partition_rows db), db)
     else if t = ''table_partition_details_for_column'' then
       (Some (filter (\<lambda>r. map_of r ''column_name'' = map_of [(''column_name'', PStr (arg_str args ''column_name''))] ''column_name'')
                (partition_rows db)), db)
     else if t = ''table_partition_details_for_scheme'' \<or> t = ''partition_name_exists_on_table'' then
       (Some (filter (\<lambda>r. map_of r ''ps_name'' = Some (PStr (arg_str args ''ps_name''))) (partition_rows db)), db)
     else (Some [], db))"

definition mini_world :: "mini_db \<Rightarrow> string list \<Rightarrow> mini_db world" where
  "mini_world db answers = \<lparr>w_db = db, w_execute = mini_execute, w_commit = (\<lambda>db. (True, db)),
     w_autocommit = (\<lambda>b db. db), w_stdin = answers, w_trace = [], w_recursion_limit = 1000,
     w_today = 20000\<rparr>"

text \<open>The reflected table \<open>dbo.t\<close> of database \<open>db\<close> on server \<open>srv\<close>.\<close>

definition mini_schema :: reflected where
  "mini_schema = Reflected Schema ''dbo''
     (Some (Reflected Database ''db'' (Some (Reflected Server ''srv'' None [] None)) [] None)) [] None"

definition mini_table :: reflected where
  "mini_table = Reflected Table ''t'' (Some mini_schema) [] None"


text \<open>A live column \<open>c\<close> of the table and a table with that column of type \<open>int\<close> and an
  index \<open>ix\<close> on it; a declared column \<open>c\<close> of type \<open>bigint\<close>.\<close>

definition live_column :: "string \<Rightarrow> reflected" where
  "live_column n = Reflected Column n (Some mini_table) [] None"

definition live_index :: "string \<Rightarrow> reflected" where
  "live_index n = Reflected Index n (Some mini_table) [] None"

definition db_indexed_column :: mini_db where
  "db_indexed_column = \<lparr>m_columns = [(''c'', ''int'')], m_indexes = [(''ix'', [''c''], False)],
     m_partition = None\<rparr>"

definition declared_column :: "string \<Rightarrow> string \<Rightarrow> declared" where
  "declared_column n ty = Declared Column n None Ignore_None []
     [(''data_type'', PStr ty), (''char_max_len'', PNone), (''datetime_precision'', PNone),
      (''numeric_precision'', PNone), (''numeric_scale'', PNone), (''nullable'', PBool False),
      (''identity'', PBool False)]"

declare getattr_n.simps [simp del] get_details_n.simps [simp del] str_n.simps [simp del]
declare align_entity.simps [simp del] align_child_type.simps [simp del]

text \<open>Declared and live indexes and primary keys, and a table with the columns \<open>x\<close> and
  \<open>y\<close>, the index \<open>ix_old\<close> on \<open>(x, y)\<close> and the primary key \<open>pk_old\<close> on \<open>x\<close>.\<close>

definition declared_index :: "string \<Rightarrow> string list \<Rightarrow> declared" where
  "declared_index n cols = Declared Index n None Ignore_None []
     [(''columns'', PTuple cols), (''compression'', PStr ''NONE''), (''clustered'', PBool False),
      (''included_columns'', PNone), (''unique'', PBool False)]"
definition declared_primary_key :: "string \<Rightarrow> string list \<Rightarrow> declared" where
  "declared_primary_key n cols = Declared PrimaryKey n None Ignore_None []
     [(''columns'', PTuple cols), (''compression'', PStr ''NONE''), (''clustered'', PBool True)]"
definition live_primary_key :: "string \<Rightarrow> reflected" where
  "live_primary_key n = Reflected PrimaryKey n (Some mini_table) [] None"
definition db_xy :: mini_db where
  "db_xy = \<lparr>m_columns = [(''x'', ''int''), (''y'', ''int'')],
     m_indexes = [(''ix_old'', [''x'', ''y''], False), (''pk_old'', [''x''], True)], m_partition = None\<rparr>"

text \<open>The reflected server, and a declared login.\<close>

definition mini_server :: reflected where
  "mini_server = Reflected Server ''srv'' None [] None"

definition declared_login :: "string \<Rightarrow> declared" where
  "declared_login n = Declared Login n None Ignore_None []
     [(''type_desc'', PStr ''SQL_LOGIN''), (''server_roles'', PSet []), (''password'', PNone)]"

text \<open>A declared partition and a declared table \<open>t\<close>; a table with the column \<open>ts\<close> of type
  \<open>datetime2\<close> and the clustered index \<open>cix\<close> on it.\<close>

definition declared_partition :: "string \<Rightarrow> string \<Rightarrow> declared" where
  "declared_partition n col = Declared Partition n None Ignore_None [] [(''column'', PStr col)]"

definition declared_table :: "ignore_extra \<Rightarrow> (cls \<times> declared list) list \<Rightarrow> declared" where
  "declared_table ign children = Declared Table ''t'' None ign children []"

definition db_timestamps :: mini_db where
  "db_timestamps = \<lparr>m_columns = [(''ts'', ''datetime2'')], m_indexes = [(''cix'', [''ts''], True)],
     m_partition = None\<rparr>"

text \<open>A table with the column \<open>c\<close> of type \<open>int\<close> and no index.\<close>

definition db_plain_column :: mini_db where
  "db_plain_column = \<lparr>m_columns = [(''c'', ''int'')], m_indexes = [], m_partition = None\<rparr>"

text \<open>
  What the server answers. \<open>server_answer w s\<close> is the answer of the server of the world \<open>w\<close> to
  the statement \<open>s\<close>, with the state it leaves; \<open>index_query\<close> is a statement about the
  index or primary key \<open>index\<close> of the table \<open>schema.table\<close>; \<open>column_names\<close> are the
  lower-cased \<open>column_name\<close> fields of the rows of an answer, when every row has the field
  and it holds a string.
\<close>

definition server_answer :: "'db world \<Rightarrow> sql \<Rightarrow> row list option \<times> 'db" where
  "server_answer w s = w_execute w s [] (w_db w)"

definition index_query :: "string \<Rightarrow> string \<Rightarrow> string \<Rightarrow> string \<Rightarrow> sql" where
  "index_query template schema table index =
     Sql template [(''schema'', Str schema), (''table'', Str table), (''index_name'', Str index)]"

fun column_names :: "row list \<Rightarrow> string list option" where
  "column_names [] = Some []"
| "column_names (r # rows) =
     (case map_of r ''column_name'' of
        Some (PStr s) \<Rightarrow> (case column_names rows of Some names \<Rightarrow> Some (lower s # names) | None \<Rightarrow> None)
      | _ \<Rightarrow> None)"

text \<open>
  A server holding the indexes and the primary key of one table: the name, the key
  columns and the included columns of each.
\<close>

type_synonym index_db = "(string \<times> string list \<times> string list) list"

definition index_execute :: "sql \<Rightarrow> (string \<times> pyval) list \<Rightarrow> index_db \<Rightarrow> row list option \<times> index_db" where
  "index_execute s kw db = (case s of Sql t args \<Rightarrow>
     if t = ''named_index_details'' then
       (Some (map (\<lambda>ix. [(''index_name'', PStr (fst ix)), (''type_desc'', PStr ''NONCLUSTERED''),
                          (''unique'', PBool False), (''is_unique_constraint'', PBool False),
                          (''compression'', PStr ''NONE'')])
                (filter (\<lambda>ix. fst ix = arg_str args ''index_name'') db)), db)
     else if t = ''index_nonpartition_columns'' then
       (Some (concat (map (\<lambda>ix. map (\<lambda>c. [(''column_name'', PStr c)]) (fst (snd ix)))
                (filter (\<lambda>ix. fst ix = arg_str args ''index_name'') db))), db)
     else if t = ''index_included_columns'' then
       (Some (concat (map (\<lambda>ix. map (\<lambda>c. [(''column_name'', PStr c)]) (snd (snd ix)))
                (filter (\<lambda>ix. fst ix = arg_str args ''index_name'') db))), db)
     else (Some [], db))"

definition index_world :: "index_db \<Rightarrow> index_db world" where
  "index_world db = \<lparr>w_db = db, w_execute = index_execute, w_commit = (\<lambda>db. (True, db)),
     w_autocommit = (\<lambda>b db. db), w_stdin = [], w_trace = [], w_recursion_limit = 1000,
     w_today = 20000\<rparr>"

text \<open>The table with the index \<open>ix_old\<close> on \<open>(X, y)\<close> including \<open>Z\<close> and the primary key \<open>pk_old\<close>
  on \<open>x\<close>; a declared index with included columns.\<close>

definition db_including :: index_db where
  "db_including = [(''ix_old'', [''X'', ''y''], [''Z'']), (''pk_old'', [''x''], [])]"

definition declared_index_including :: "string \<Rightarrow> string list \<Rightarrow> pyval \<Rightarrow> declared" where
  "declared_index_including n cols included = Declared Index n None Ignore_None []
     [(''columns'', PTuple cols), (''clustered'', PBool False), (''compression'', PStr ''NONE''),
      (''included_columns'', included), (''unique'', PBool False)]"

subsection \<open>The declared tree up to the names of partitions\<close>

text \<open>
  A declared tree without the names of its partitions: two declared trees with the same
  image differ at most in the names of declared partitions.
\<close>

primrec erase_partition_names :: "declared \<Rightarrow> declared" where
  "erase_partition_names (Declared t n old_name ign children attrs) =
     Declared t (if t = Partition then [] else n) old_name ign
       (map (map_prod (\<lambda>k. k) (map erase_partition_names)) children) attrs"

text \<open>\<open>returns m R\<close>: every value that the computation \<open>m\<close> returns satisfies \<open>R\<close>.\<close>

definition returns :: "('a, 'db) M \<Rightarrow> ('a \<Rightarrow> bool) \<Rightarrow> bool" where
  "returns m R = (\<forall>w x w'. m w = (Inr x, w') \<longrightarrow> R x)"

(*THEOREMS*)

section \<open>Running the program on a concrete world\<close>

text \<open>The equations of the monad and of the program, applied to a world: with them the
  simplifier runs a computation step by step.\<close>

lemma ret_apply: "ret x w = (Inr x, w)"
  by (simp add: ret_def)

lemma raise_apply: "raise e w = (Inl e, w)"
  by (simp add: raise_def)

lemma bind_apply:
  "bind m f w = (case m w of (Inl e, w') \<Rightarrow> (Inl e, w') | (Inr x, w') \<Rightarrow> f x w')"
  by (simp add: bind_def)

lemmas getattr_n_numeral =
  getattr_n.simps(2) [of "pred_numeral k" for k, folded numeral_eq_Suc, THEN fun_cong]

lemmas monad_apply = ret_apply raise_apply bind_apply
  catch_def [THEN fun_cong] finally_do_def [THEN fun_cong] emit_def [THEN fun_cong]
  cur_execute_def [THEN fun_cong] cur_commit_def [THEN fun_cong]
  set_autocommit_def [THEN fun_cong] input_def [THEN fun_cong] today_def [THEN fun_cong]
  getattr_def [THEN fun_cong] get_details_def [THEN fun_cong] reflected_str_def [THEN fun_cong]
  getattr_n_numeral getattr_n.simps(2) [THEN fun_cong] get_details_n.simps [THEN fun_cong]
  str_n.simps [THEN fun_cong]

lemmas program_apply =
  log_def [THEN fun_cong] with_AutoCommit_def [THEN fun_cong]
  ex_def [THEN fun_cong] row_get_def [THEN fun_cong]
  fetchone_get_def [THEN fun_cong] py_lower_def [THEN fun_cong]
  as_string_def [THEN fun_cong] parent_of_def [THEN fun_cong]
  schema_table_def [THEN fun_cong] fields_of_def [THEN fun_cong]
  exists_query_def [THEN fun_cong] detail_query_def [THEN fun_cong]
  table_child_detail_def [THEN fun_cong] get_details_ex_def [THEN fun_cong]
  extra_init_def [THEN fun_cong] new_reflected_def [THEN fun_cong]
  from_cursor_def [THEN fun_cong] all_for_parent_def [THEN fun_cong]
  by_name_def [THEN fun_cong] get_child_class_from_name_def [THEN fun_cong]
  reflected_get_children_def [THEN fun_cong] reflected_get_child_def [THEN fun_cong]
  index_column_names_def [THEN fun_cong] get_attr_columns_def [THEN fun_cong]
  get_attr_clustered_def [THEN fun_cong] get_attr_included_columns_def [THEN fun_cong]
  get_attr_bool_def [THEN fun_cong] get_attr_for_types_def [THEN fun_cong]
  get_attr_column_def [THEN fun_cong] get_attr_db_roles_def [THEN fun_cong]
  int_or_zero_def [THEN fun_cong] get_attr_size_def [THEN fun_cong]
  get_attr_file_path_def [THEN fun_cong] get_attr_server_roles_def [THEN fun_cong]
  get_attr_password_def [THEN fun_cong] read_attribute_def [THEN fun_cong]
  reflected_display_details_def [THEN fun_cong] declared_getattr_def [THEN fun_cong]
  declared_str_def [THEN fun_cong] declared_display_details_def [THEN fun_cong]
  equate_declared_pk_def [THEN fun_cong] equate_declared_def [THEN fun_cong]
  reflected_eq_def [THEN fun_cong] declared_eq_def [THEN fun_cong]
  in_set_def [THEN fun_cong] data_type_representation_def [THEN fun_cong]
  column_sql_representation_def [THEN fun_cong] declared_sql_representation_def [THEN fun_cong]
  reflected_data_type_representation_def [THEN fun_cong] join_val_def [THEN fun_cong]
  iterate_def [THEN fun_cong] from_getattr_def [THEN fun_cong]
  create_helper_pk_def [THEN fun_cong] create_helper_index_def [THEN fun_cong]
  create_helper_def [THEN fun_cong] recreate_new_attributes_def [THEN fun_cong]
  recreate_new_filegroup_def [THEN fun_cong] includes_column_def [THEN fun_cong]
  get_indexes_for_column_def [THEN fun_cong] is_clustered_def [THEN fun_cong]
  is_not_clustered_def [THEN fun_cong] get_clustered_index_def [THEN fun_cong]
  get_nonclustered_indexes_def [THEN fun_cong] recreate_indexes_on_filegroup_def [THEN fun_cong]
  get_pk_fields_def [THEN fun_cong] drop_constraint_def [THEN fun_cong]
  delete_ex_index_def [THEN fun_cong] delete_ex_partition_def [THEN fun_cong]
  delete_ex_basic_def [THEN fun_cong] delete_with_def [THEN fun_cong]
  drop_associated_indexes_def [THEN fun_cong] delete_ex_column_def [THEN fun_cong]
  delete_ex_def [THEN fun_cong] delete_def [THEN fun_cong]
  fetchone_first_def [THEN fun_cong] date_of_def [THEN fun_cong]
  reflected_get_child_val_def [THEN fun_cong] create_ex_partition_def [THEN fun_cong]
  create_ex_foreign_key_def [THEN fun_cong] create_ex_column_def [THEN fun_cong]
  create_ex_table_def [THEN fun_cong] create_ex_user_def [THEN fun_cong]
  create_ex_database_def [THEN fun_cong] create_ex_login_def [THEN fun_cong]
  create_ex_def [THEN fun_cong] create_def [THEN fun_cong]
  rename_ex_def [THEN fun_cong] rename_def [THEN fun_cong]
  lowered_items_def [THEN fun_cong] from_declared_pk_def [THEN fun_cong]
  from_declared_index_def [THEN fun_cong] from_declared_foreign_key_def [THEN fun_cong]
  from_declared_partition_def [THEN fun_cong] from_declared_user_def [THEN fun_cong]
  from_declared_def [THEN fun_cong] get_or_create_def [THEN fun_cong]
  get_or_create_child_def [THEN fun_cong] set_attr_compression_def [THEN fun_cong]
  alter_column_def [THEN fun_cong] set_attr_identity_def [THEN fun_cong]
  set_attr_data_type_def [THEN fun_cong] alter_roles_def [THEN fun_cong]
  set_roles_def [THEN fun_cong] set_attr_db_roles_def [THEN fun_cong]
  set_attr_server_roles_def [THEN fun_cong] set_attr_recovery_model_desc_def [THEN fun_cong]
  set_attr_owner_def [THEN fun_cong] field_of_option_def [THEN fun_cong]
  move_db_file_def [THEN fun_cong] change_db_file_path_def [THEN fun_cong]
  set_attr_file_path_def [THEN fun_cong] set_attribute_def [THEN fun_cong]
  rename_old_name_child_def [THEN fun_cong]

lemmas align_apply = align_entity.simps [THEN fun_cong] align_child_type.simps [THEN fun_cong]
  align_server_def [THEN fun_cong]

lemmas value_defs =
  get_children_def fetchone_def row_truthy_def set_detail_result_def set_attributes_def
  set_name_def can_delete_def INT_TYPES_def NUMERIC_TYPES_def MONEY_TYPES_def
  APPROX_NUMBER_TYPES_def DATETIME_NO_PRECISION_TYPES_def DATETIME_PRECISION_TYPES_def CHAR_TYPES_def in_strs_def
  ALL_SERVER_ROLES_def get_attr_method_def reset_attribute_def reset_all_attributes_def equate_declared_base_def
  from_name_def name_or_def contains_def declared_set_name_def set_difference_def
  set_attr_method_def arg_str_def index_row_def column_row_def partition_rows_def
  arg_columns_def arg_scheme_def arg_column_def_def mini_execute_def mini_world_def
  mini_schema_def mini_table_def
  lower_def lower_char_def upper_case_letters_def lower_case_letters_def live_column_def live_index_def db_indexed_column_def
  declared_column_def declared_index_def declared_primary_key_def live_primary_key_def db_xy_def
  mini_server_def declared_login_def
  declared_partition_def declared_table_def db_timestamps_def db_plain_column_def Let_def

section \<open>Altering the type of a column\<close>

text \<open>
  C1. Altering the data type of a column that an index references. The table holds the
  column \<open>c\<close> of type \<open>int\<close> and the index \<open>ix\<close> on \<open>c\<close>; the declared type is \<open>bigint\<close> and
  the deletion of the index is confirmed with \<open>y\<close>. \<open>set_attr_data_type\<close> drops the index
  (the only index on the column, so every dependent index is removed) and then does not
  execute \<open>ALTER_COLUMN\<close>: \<open>delete\<close> returns \<open>None\<close> after a deletion, which
  \<open>drop_associated_indexes\<close> reads as a refusal. The column keeps the type \<open>int\<close>, the index
  is gone.
\<close>

theorem set_attr_data_type_drops_index_without_altering:
  "set_attr_data_type (live_column ''c'') (declared_column ''c'' ''bigint'')
       (mini_world db_indexed_column [''y''])
   = (Inr (live_column ''c''),
      (mini_world \<lparr>m_columns = [(''c'', ''int'')], m_indexes = [], m_partition = None\<rparr> [])
        \<lparr>w_trace :=
           [Exec (Sql ''TABLE_INDEX_NAMES'' [(''schema'', Str ''dbo''), (''table'', Str ''t'')]) [],
            Exec (Sql ''named_index_details''
                    [(''schema'', Str ''dbo''), (''table'', Str ''t''), (''index_name'', Str ''ix'')]) [],
            Exec (Sql ''index_nonpartition_columns''
                    [(''schema'', Str ''dbo''), (''table'', Str ''t''), (''index_name'', Str ''ix'')]) [],
            Input (Ask_delete [(Server, ''srv''), (Database, ''db''), (Schema, ''dbo''),
                               (Table, ''t''), (Index, ''ix'')]),
            Log Info ''Deleting {}: {}''
              [LR [(Server, ''srv''), (Database, ''db''), (Schema, ''dbo''), (Table, ''t''),
                   (Index, ''ix'')]],
            Exec (Sql ''named_index_details''
                    [(''schema'', Str ''dbo''), (''table'', Str ''t''), (''index_name'', Str ''ix'')]) [],
            Exec (Sql ''DROP_INDEX''
                    [(''index_name'', Str ''ix''), (''schema'', Str ''dbo''), (''table'', Str ''t'')]) [],
            Commit,
            Log Info ''Column: {} will not be altered'' [LS ''c'']]\<rparr>)"
  by (simp add: monad_apply program_apply value_defs)

section \<open>Equality across the two trees\<close>

text \<open>
  C10. Comparing a declared entity with a reflected one gives, from every world, the
  result and the effects of comparing the reflected one with the declared one:
  \<open>DeclaredEntity.__eq__\<close> hands the comparison to \<open>ReflectedEntity.__eq__\<close>.
\<close>

theorem cross_tree_equality_symmetric: "declared_eq d r w = reflected_eq r d w"
  by (simp add: declared_eq_def)


section \<open>Properties of the declared tree\<close>

lemma add_child_name: "add_child self c = Inr self' \<Longrightarrow> d_name self' = d_name self"
  by (auto simp: add_child_def split: if_splits)

lemma add_children_name: "add_children self cs = Inr self' \<Longrightarrow> d_name self' = d_name self"
proof (induction cs arbitrary: self)
  case Nil
  then show ?case by simp
next
  case (Cons c cs)
  then show ?case
    by (auto split: sum.splits dest: add_child_name)
qed

lemma init_children_name:
  "init_children ts self kw = Inr (self', kw') \<Longrightarrow> d_name self' = d_name self"
proof (induction ts arbitrary: self kw)
  case Nil
  then show ?case by simp
next
  case (Cons t ts)
  then show ?case
    by (fastforce split: prod.splits option.splits kwarg.splits pyval.splits list.splits
          sum.splits dest: add_children_name add_child_name)
qed

lemma DeclaredEntity_init_name:
  "DeclaredEntity_init t (Some n) old_name ign kwargs = Inr d \<Longrightarrow> d_name d = take 128 n"
  by (auto simp: DeclaredEntity_init_def split: sum.splits prod.splits if_splits
        dest!: init_children_name)

lemma DeclaredEntity_init_None: "DeclaredEntity_init t None old_name ign kwargs = Inl DBError"
  by (simp add: DeclaredEntity_init_def)

lemma DeclaredEntity_init_stores: "stores_name name (DeclaredEntity_init t name old_name ign kwargs)"
proof (cases name)
  case None
  then show ?thesis by (simp add: stores_name_def DeclaredEntity_init_None)
next
  case (Some n)
  then show ?thesis
    by (auto simp: stores_name_def split: sum.splits dest: DeclaredEntity_init_name)
qed

lemma stores_name_Inl: "stores_name name (Inl e)"
  by (simp add: stores_name_def split: option.splits)

lemma Column_init_stores:
  "stores_name name (Column_init name data_type identity nullable char_max_len datetime_precision
       numeric_precision numeric_scale old_name)"
  unfolding Column_init_def by (rule DeclaredEntity_init_stores)

lemma column_subclasses_store:
  "stores_name name (IntegerColumn_init name identity nullable char_max_len datetime_precision
       numeric_precision numeric_scale old_name)"
  "stores_name name (FloatColumn_init name small identity nullable char_max_len datetime_precision
       numeric_scale old_name)"
  "stores_name name (VarcharColumn_init name char_max_len identity nullable datetime_precision
       numeric_precision numeric_scale old_name)"
  "stores_name name (DateColumn_init name identity nullable char_max_len datetime_precision
       numeric_precision numeric_scale old_name)"
  "stores_name name (DateTimeColumn_init name datetime_precision identity nullable char_max_len
       numeric_precision numeric_scale old_name)"
  "stores_name name (IdentityColumn_init name char_max_len datetime_precision numeric_precision
       numeric_scale old_name)"
  "stores_name name (NumericColumn_init name numeric_precision numeric_scale identity nullable
       char_max_len datetime_precision old_name)"
  by (simp_all add: IntegerColumn_init_def FloatColumn_init_def VarcharColumn_init_def
        DateColumn_init_def DateTimeColumn_init_def IdentityColumn_init_def NumericColumn_init_def
        Column_init_stores stores_name_Inl split: sum.splits)

lemma Table_init_stores:
  "stores_name name (Table_init name primary_key part old_name ign children)"
  by (simp add: Table_init_def DeclaredEntity_init_stores stores_name_Inl)

lemma User_Login_init_store:
  "stores_name name (User_init name login_name db_roles)"
  "stores_name name (Login_init name password type_desc server_roles)"
  by (simp_all add: User_init_def Login_init_def DeclaredEntity_init_stores stores_name_Inl
        split: sum.splits)

lemma stores_name_sum_case:
  "(\<And>y. stores_name name (f y)) \<Longrightarrow> stores_name name (case x of Inl e \<Rightarrow> Inl e | Inr y \<Rightarrow> f y)"
  by (cases x) (simp_all add: stores_name_Inl)

lemma stores_name_if:
  "(c \<Longrightarrow> stores_name name a) \<Longrightarrow> (\<not> c \<Longrightarrow> stores_name name b) \<Longrightarrow> stores_name name (if c then a else b)"
  by simp

lemma stores_name_prod_case:
  "(\<And>a b c. stores_name name (f a b c)) \<Longrightarrow> stores_name name (case p of (a, b, c) \<Rightarrow> f a b c)"
  by (cases p) simp

lemma Database_init_stores:
  "stores_name name (Database_init tenth path_join name owner data_file_dir log_file_dir data_size
       log_size recovery_model_desc data_file_name log_file_name tables old_name ign kwargs)"
proof (cases recovery_model_desc)
  case (PStr level)
  show ?thesis
    unfolding Database_init_def PStr pyval.case
    by (intro stores_name_if stores_name_sum_case stores_name_prod_case stores_name_Inl
          DeclaredEntity_init_stores)
qed (simp_all add: Database_init_def stores_name_Inl)

lemma nameless_init_store:
  "stores_name (Some []) (ForeignKey_init column foreign_table foreign_column foreign_schema)"
  "stores_name (Some []) (Partition_init column)"
  "stores_name (Some []) (Server_init old_name ign kwargs)"
  by (simp_all add: ForeignKey_init_def Partition_init_def Server_init_def
        DeclaredEntity_init_stores stores_name_Inl split: pyval.splits)

lemma AbstractIndex_init_named:
  "name \<noteq> None \<Longrightarrow> name \<noteq> Some [] \<Longrightarrow>
     stores_name name (AbstractIndex_init t columns name compression old_name ign kwargs)"
  by (cases name)
     (simp_all add: AbstractIndex_init_def DeclaredEntity_init_stores stores_name_Inl
        split: sum.splits)

lemma AbstractIndex_init_unnamed:
  "name = None \<or> name = Some [] \<Longrightarrow>
     AbstractIndex_init t columns name compression old_name ign kwargs = Inr d \<Longrightarrow>
     \<exists>cols generated. column_items columns = Inr cols
        \<and> generated_name t (map lower cols) kwargs = Inr generated
        \<and> d_name d = take 128 generated"
  by (auto simp: AbstractIndex_init_def split: sum.splits dest: DeclaredEntity_init_name)

text \<open>What the constructor leaves of the keywords: those that are no attribute of the
  class. A constructor that returns has found none left.\<close>

lemma init_attrs_rest:
  "init_attrs as kw = Inr (vs, kw') \<Longrightarrow> kw' = filter (\<lambda>p. fst p \<notin> set as) kw"
proof (induction as arbitrary: kw vs kw')
  case Nil
  then show ?case by simp
next
  case (Cons a as)
  then show ?case
    by (auto simp: kwargs_pop_def split: option.splits kwarg.splits sum.splits prod.splits
          dest!: Cons.IH)
qed

lemma init_children_rest:
  "init_children ts self kw = Inr (self', kw') \<Longrightarrow>
     kw' = filter (\<lambda>p. fst p \<notin> object_type ` set ts) kw"
proof (induction ts arbitrary: self kw)
  case Nil
  then show ?case by simp
next
  case (Cons t ts)
  then show ?case
    by (auto simp: kwargs_pop_def split: option.splits kwarg.splits pyval.splits list.splits
          sum.splits dest!: Cons.IH)
qed

lemma DeclaredEntity_init_keywords:
  assumes "DeclaredEntity_init t name old_name ign kwargs = Inr d"
  shows "fst ` set kwargs \<subseteq> object_type ` set (declared_child_types t) \<union> set (valid_attributes t)"
proof -
  from assms obtain n self kw vs kw' where
      c: "init_children (declared_child_types t)
            (Declared t (take 128 n) old_name (store_ignore ign) [] []) kwargs = Inr (self, kw)"
    and a: "init_attrs (valid_attributes t) kw = Inr (vs, kw')" and e: "kw' = []"
    by (auto simp: DeclaredEntity_init_def split: option.splits sum.splits prod.splits if_splits)
  from init_children_rest [OF c] init_attrs_rest [OF a] e
  have "filter (\<lambda>p. fst p \<notin> set (valid_attributes t))
          (filter (\<lambda>p. fst p \<notin> object_type ` set (declared_child_types t)) kwargs) = []"
    by simp
  then show ?thesis
    by (auto simp: filter_empty_conv)
qed


lemma AbstractIndex_init_base:
  "AbstractIndex_init t columns name compression old_name ign kwargs = Inr d \<Longrightarrow>
     \<exists>cols n. column_items columns = Inr cols
       \<and> DeclaredEntity_init t (Some n) old_name ign
            ((''columns'', KVal (PTuple (map lower cols))) # (''compression'', KVal compression) # kwargs)
          = Inr d"
  by (auto simp: AbstractIndex_init_def split: sum.splits)

lemma PrimaryKey_init_unnamed:
  assumes "name = None \<or> name = Some []"
    and "PrimaryKey_init columns clustered name compression old_name ign kwargs = Inr d"
  shows "\<exists>cols. column_items columns = Inr cols
           \<and> d_name d = take 128 (str_join ''_'' (''PK'' # map lower cols))"
proof -
  let ?kw = "(''clustered'', KVal clustered) # kwargs"
  from assms(2) have run: "AbstractIndex_init PrimaryKey columns name compression old_name ign ?kw = Inr d"
    by (simp add: PrimaryKey_init_def)
  from AbstractIndex_init_unnamed [OF assms(1) run] obtain cols generated where
      c: "column_items columns = Inr cols"
    and g: "generated_name PrimaryKey (map lower cols) ?kw = Inr generated"
    and n: "d_name d = take 128 generated"
    by blast
  from AbstractIndex_init_base [OF run] obtain cols' n' where
      "DeclaredEntity_init PrimaryKey (Some n') old_name ign
         ((''columns'', KVal (PTuple (map lower cols'))) # (''compression'', KVal compression) # ?kw) = Inr d"
    by blast
  from DeclaredEntity_init_keywords [OF this]
  have "''included_columns'' \<notin> fst ` set kwargs"
    by auto
  then have "map_of ?kw ''included_columns'' = None"
    by (simp add: map_of_eq_None_iff)
  with g have "generated = str_join ''_'' (''PK'' # map lower cols)"
    by (simp add: generated_name_def)
  with c n show ?thesis by blast
qed

lemma Index_init_unnamed:
  assumes "name = None \<or> name = Some []"
    and "Index_init columns clustered unique included_columns name compression old_name ign kwargs = Inr d"
  shows "\<exists>cols. column_items columns = Inr cols
           \<and> (if truthy included_columns
               then \<exists>included ys. items included_columns = Inr included
                      \<and> set ys = set (map lower included) \<and> distinct ys
                      \<and> d_name d = take 128 (str_join ''_'' (''IX'' # map lower cols) @ ''__''
                                                 @ str_join ''_'' ys)
               else d_name d = take 128 (str_join ''_'' (''IX'' # map lower cols)))"
proof (cases "truthy included_columns")
  case False
  let ?kw = "(''clustered'', KVal clustered) # (''included_columns'', KVal PNone)
             # (''unique'', KVal unique) # kwargs"
  from assms(2) False
  have run: "AbstractIndex_init Index columns name compression old_name ign ?kw = Inr d"
    by (simp add: Index_init_def)
  from AbstractIndex_init_unnamed [OF assms(1) run] False show ?thesis
    by (auto simp: generated_name_def kwarg_truthy_def)
next
  case True
  with assms(2) obtain included where i: "items included_columns = Inr included"
    and run: "AbstractIndex_init Index columns name compression old_name ign
                ((''clustered'', KVal clustered)
                 # (''included_columns'', KVal (PSet (remdups (map lower included))))
                 # (''unique'', KVal unique) # kwargs) = Inr d"
    by (auto simp: Index_init_def split: sum.splits)
  from True i have ne: "included \<noteq> []"
    by (cases included_columns) (auto simp: items_def)
  from AbstractIndex_init_unnamed [OF assms(1) run] ne obtain cols where
      "column_items columns = Inr cols"
      "d_name d = take 128 (str_join ''_'' (''IX'' # map lower cols) @ ''__''
                              @ str_join ''_'' (remdups (map lower included)))"
    by (auto simp: generated_name_def kwarg_truthy_def kwarg_join_def items_def)
  with True i show ?thesis
    by (auto intro!: exI [of _ cols] exI [of _ included] exI [of _ "remdups (map lower included)"])
qed

text \<open>
  An index constructed without a name, and one constructed with the empty name: neither
  construction fails, and both store the generated name \<open>IX_a\<close>, which is not the first 128
  characters of the empty name.
\<close>

theorem index_name_generated:
  "Index_init (PStr ''a'') (PBool False) (PBool False) PNone None (PStr ''NONE'') None IA_None []
     = Inr (Declared Index ''IX_a'' None Ignore_None []
              [(''columns'', PTuple [''a'']), (''clustered'', PBool False), (''compression'', PStr ''NONE''),
               (''included_columns'', PNone), (''unique'', PBool False)])
   \<and> Index_init (PStr ''a'') (PBool False) (PBool False) PNone (Some []) (PStr ''NONE'') None IA_None []
     = Inr (Declared Index ''IX_a'' None Ignore_None []
              [(''columns'', PTuple [''a'']), (''clustered'', PBool False), (''compression'', PStr ''NONE''),
               (''included_columns'', PNone), (''unique'', PBool False)])
   \<and> ''IX_a'' \<noteq> take 128 []"
  by (simp add: Index_init_def AbstractIndex_init_def column_items_def generated_name_def
        kwarg_truthy_def str_join_def DeclaredEntity_init_def kwargs_pop_def lower_def lower_char_def
        upper_case_letters_def lower_case_letters_def)

text \<open>
  C9. The names that the constructors of the declared classes store.
  \<open>DeclaredEntity.__init__\<close> fails with \<open>DBError\<close> when the name is \<open>None\<close> and stores the first
  128 characters of any other name, which is the name itself when it has at most 128
  characters. The constructors of columns (with the subclasses of \<open>Column\<close>), tables,
  users, logins and databases pass the name they are given on: they fail when it is
  \<open>None\<close> and store its first 128 characters. Foreign keys, partitions and the server are
  constructed with the empty name. A primary key or an index stores the first 128
  characters of a name that is neither \<open>None\<close> nor empty; for \<open>None\<close> and for the empty name
  alike it stores the first 128 characters of a generated name, made of \<open>PK\<close> or \<open>IX\<close> and the
  lower-cased columns, joined with \<open>_\<close>, for an index with included columns followed by
  \<open>__\<close> and the lower-cased included columns in some order.
\<close>

theorem declared_names_stored:
  "stores_name name (DeclaredEntity_init t name old_name ign kwargs)
   \<and> DeclaredEntity_init t None old_name ign kwargs = Inl DBError
   \<and> (DeclaredEntity_init t (Some n) old_name ign kwargs = Inr d \<longrightarrow>
        d_name d = take 128 n \<and> (length n \<le> 128 \<longrightarrow> d_name d = n))
   \<and> stores_name name (Column_init name data_type identity nullable char_max_len datetime_precision
        numeric_precision numeric_scale old_name)
   \<and> stores_name name (IntegerColumn_init name identity nullable char_max_len datetime_precision
        numeric_precision numeric_scale old_name)
   \<and> stores_name name (FloatColumn_init name small identity nullable char_max_len datetime_precision
        numeric_scale old_name)
   \<and> stores_name name (VarcharColumn_init name char_max_len identity nullable datetime_precision
        numeric_precision numeric_scale old_name)
   \<and> stores_name name (DateColumn_init name identity nullable char_max_len datetime_precision
        numeric_precision numeric_scale old_name)
   \<and> stores_name name (DateTimeColumn_init name datetime_precision identity nullable char_max_len
        numeric_precision numeric_scale old_name)
   \<and> stores_name name (IdentityColumn_init name char_max_len datetime_precision numeric_precision
        numeric_scale old_name)
   \<and> stores_name name (NumericColumn_init name numeric_precision numeric_scale identity nullable
        char_max_len datetime_precision old_name)
   \<and> stores_name name (Table_init name primary_key part old_name ign children)
   \<and> stores_name name (User_init name login_name db_roles)
   \<and> stores_name name (Login_init name password type_desc server_roles)
   \<and> stores_name name (Database_init tenth path_join name owner data_file_dir log_file_dir data_size
        log_size recovery_model_desc data_file_name log_file_name tables old_name ign kwargs)
   \<and> stores_name (Some []) (ForeignKey_init column foreign_table foreign_column foreign_schema)
   \<and> stores_name (Some []) (Partition_init column)
   \<and> stores_name (Some []) (Server_init old_name ign kwargs)
   \<and> (name \<noteq> None \<and> name \<noteq> Some [] \<longrightarrow>
        stores_name name (PrimaryKey_init columns clustered name compression old_name ign kwargs)
        \<and> stores_name name (Index_init columns clustered unique included_columns name compression
             old_name ign kwargs))
   \<and> PrimaryKey_init columns clustered None compression old_name ign kwargs
       = PrimaryKey_init columns clustered (Some []) compression old_name ign kwargs
   \<and> Index_init columns clustered unique included_columns None compression old_name ign kwargs
       = Index_init columns clustered unique included_columns (Some []) compression old_name ign kwargs
   \<and> (PrimaryKey_init columns clustered None compression old_name ign kwargs = Inr pk \<longrightarrow>
        (\<exists>cols. column_items columns = Inr cols
           \<and> d_name pk = take 128 (str_join ''_'' (''PK'' # map lower cols))))
   \<and> (Index_init columns clustered unique included_columns None compression old_name ign kwargs = Inr ix \<longrightarrow>
        (\<exists>cols. column_items columns = Inr cols
           \<and> (if truthy included_columns
               then \<exists>included ys. items included_columns = Inr included
                      \<and> set ys = set (map lower included) \<and> distinct ys
                      \<and> d_name ix = take 128 (str_join ''_'' (''IX'' # map lower cols) @ ''__''
                                                  @ str_join ''_'' ys)
               else d_name ix = take 128 (str_join ''_'' (''IX'' # map lower cols)))))"
proof -
  have base: "DeclaredEntity_init t (Some n) old_name ign kwargs = Inr d \<longrightarrow>
        d_name d = take 128 n \<and> (length n \<le> 128 \<longrightarrow> d_name d = n)"
    by (auto dest: DeclaredEntity_init_name)
  have named: "name \<noteq> None \<and> name \<noteq> Some [] \<longrightarrow>
        stores_name name (PrimaryKey_init columns clustered name compression old_name ign kwargs)
        \<and> stores_name name (Index_init columns clustered unique included_columns name compression
             old_name ign kwargs)"
    by (simp add: PrimaryKey_init_def Index_init_def AbstractIndex_init_named stores_name_Inl
          split: sum.splits)
  have same_pk: "PrimaryKey_init columns clustered None compression old_name ign kwargs
       = PrimaryKey_init columns clustered (Some []) compression old_name ign kwargs"
    by (simp add: PrimaryKey_init_def AbstractIndex_init_def cong: sum.case_cong)
  have same_ix: "Index_init columns clustered unique included_columns None compression old_name ign kwargs
       = Index_init columns clustered unique included_columns (Some []) compression old_name ign kwargs"
    by (simp add: Index_init_def AbstractIndex_init_def cong: sum.case_cong)
  have pk: "PrimaryKey_init columns clustered None compression old_name ign kwargs = Inr pk \<longrightarrow>
        (\<exists>cols. column_items columns = Inr cols
           \<and> d_name pk = take 128 (str_join ''_'' (''PK'' # map lower cols)))"
    using PrimaryKey_init_unnamed [of None] by blast
  have ix: "Index_init columns clustered unique included_columns None compression old_name ign kwargs = Inr ix \<longrightarrow>
        (\<exists>cols. column_items columns = Inr cols
           \<and> (if truthy included_columns
               then \<exists>included ys. items included_columns = Inr included
                      \<and> set ys = set (map lower included) \<and> distinct ys
                      \<and> d_name ix = take 128 (str_join ''_'' (''IX'' # map lower cols) @ ''__''
                                                  @ str_join ''_'' ys)
               else d_name ix = take 128 (str_join ''_'' (''IX'' # map lower cols))))"
    using Index_init_unnamed [of None] by blast
  show ?thesis
    by (intro conjI DeclaredEntity_init_stores DeclaredEntity_init_None base Column_init_stores
          column_subclasses_store Table_init_stores User_Login_init_store Database_init_stores
          nameless_init_store named same_pk same_ix pk ix)
qed

lemmas constructor_defs = Column_init_def Index_init_def PrimaryKey_init_def AbstractIndex_init_def
  column_items_def items_def generated_name_def kwarg_truthy_def kwarg_join_def str_join_def
  DeclaredEntity_init_def kwargs_pop_def lower_def lower_char_def upper_case_letters_def
  lower_case_letters_def stores_name_def

theorem declared_names_stored_witness:
  "Column_init (Some ''c'') (PStr ''int'') (PBool False) (PBool False) PNone PNone PNone PNone None
     = Inr (declared_column ''c'' ''int'')
   \<and> d_name (declared_column ''c'' ''int'') = take 128 ''c''
   \<and> Column_init None (PStr ''int'') (PBool False) (PBool False) PNone PNone PNone PNone None
     = Inl DBError
   \<and> DeclaredEntity_init Schema (Some (replicate 130 CHR ''x'')) None IA_None []
     = Inr (Declared Schema (replicate 128 CHR ''x'') None Ignore_None [] [])
   \<and> Index_init (PTuple [''A'', ''b'']) (PBool False) (PBool False) (PTuple [''Z'']) None
        (PStr ''NONE'') None IA_None []
     = Inr (Declared Index ''IX_a_b__z'' None Ignore_None []
              [(''columns'', PTuple [''a'', ''b'']), (''clustered'', PBool False),
               (''compression'', PStr ''NONE''), (''included_columns'', PSet [''z'']),
               (''unique'', PBool False)])
   \<and> Index_init (PTuple [''A'', ''b'']) (PBool False) (PBool False) (PTuple [''Z'']) (Some ''ix_named'')
        (PStr ''NONE'') None IA_None []
     = Inr (Declared Index ''ix_named'' None Ignore_None []
              [(''columns'', PTuple [''a'', ''b'']), (''clustered'', PBool False),
               (''compression'', PStr ''NONE''), (''included_columns'', PSet [''z'']),
               (''unique'', PBool False)])
   \<and> PrimaryKey_init (PStr ''Id'') (PBool True) None (PStr ''NONE'') None IA_None []
     = Inr (Declared PrimaryKey ''PK_id'' None Ignore_None []
              [(''columns'', PTuple [''id'']), (''clustered'', PBool True),
               (''compression'', PStr ''NONE'')])"
proof -
  let ?col = "Column_init (Some ''c'') (PStr ''int'') (PBool False) (PBool False) PNone PNone PNone PNone None"
  let ?ix = "\<lambda>name. Index_init (PTuple [''A'', ''b'']) (PBool False) (PBool False) (PTuple [''Z'']) name
               (PStr ''NONE'') None IA_None []"
  let ?ixd = "\<lambda>name. Declared Index name None Ignore_None []
              [(''columns'', PTuple [''a'', ''b'']), (''clustered'', PBool False),
               (''compression'', PStr ''NONE''), (''included_columns'', PSet [''z'']),
               (''unique'', PBool False)]"
  let ?pkd = "Declared PrimaryKey ''PK_id'' None Ignore_None []
              [(''columns'', PTuple [''id'']), (''clustered'', PBool True),
               (''compression'', PStr ''NONE'')]"
  have col: "?col = Inr (declared_column ''c'' ''int'')"
    by (simp add: constructor_defs declared_column_def)
  have long: "DeclaredEntity_init Schema (Some (replicate 130 CHR ''x'')) None IA_None []
     = Inr (Declared Schema (replicate 128 CHR ''x'') None Ignore_None [] [])"
    by (simp add: constructor_defs)
  have ix: "?ix None = Inr (?ixd ''IX_a_b__z'')"
    by (simp add: constructor_defs)
  have ixn: "?ix (Some ''ix_named'') = Inr (?ixd ''ix_named'')"
    by (simp add: constructor_defs)
  have pk: "PrimaryKey_init (PStr ''Id'') (PBool True) None (PStr ''NONE'') None IA_None [] = Inr ?pkd"
    by (simp add: constructor_defs)
  have c1: "d_name (declared_column ''c'' ''int'') = take 128 ''c''"
    using declared_names_stored [where name = "Some ''c''" and data_type = "PStr ''int''"
        and identity = "PBool False" and nullable = "PBool False" and char_max_len = PNone
        and datetime_precision = PNone and numeric_precision = PNone and numeric_scale = PNone
        and old_name = None] col
    by (simp add: stores_name_def)
  have c2: "Column_init None (PStr ''int'') (PBool False) (PBool False) PNone PNone PNone PNone None
     = Inl DBError"
    using declared_names_stored [where t = Column and old_name = None and ign = IA_None]
    by (simp add: Column_init_def)
  have c3: "d_name (Declared Schema (replicate 128 CHR ''x'') None Ignore_None [] [])
              = take 128 (replicate 130 CHR ''x'')"
    using declared_names_stored [where t = Schema and n = "replicate 130 CHR ''x''" and old_name = None
        and ign = IA_None and kwargs = "[]"
        and d = "Declared Schema (replicate 128 CHR ''x'') None Ignore_None [] []"] long
    by simp
  have c4: "\<exists>cols. column_items (PTuple [''A'', ''b'']) = Inr cols
           \<and> (\<exists>included ys. items (PTuple [''Z'']) = Inr included
                      \<and> set ys = set (map lower included) \<and> distinct ys
                      \<and> d_name (?ixd ''IX_a_b__z'')
                          = take 128 (str_join ''_'' (''IX'' # map lower cols) @ ''__''
                                                  @ str_join ''_'' ys))"
    using declared_names_stored [where columns = "PTuple [''A'', ''b'']" and clustered = "PBool False"
        and unique = "PBool False" and included_columns = "PTuple [''Z'']"
        and compression = "PStr ''NONE''" and old_name = None and ign = IA_None and kwargs = "[]"
        and ix = "?ixd ''IX_a_b__z''"] ix
    by simp
  have c5: "stores_name (Some ''ix_named'') (?ix (Some ''ix_named''))"
    using declared_names_stored [where name = "Some ''ix_named''" and columns = "PTuple [''A'', ''b'']"
        and clustered = "PBool False"
        and unique = "PBool False" and included_columns = "PTuple [''Z'']"
        and compression = "PStr ''NONE''" and old_name = None and ign = IA_None and kwargs = "[]"]
    by simp
  have c6: "\<exists>cols. column_items (PStr ''Id'') = Inr cols
           \<and> d_name ?pkd = take 128 (str_join ''_'' (''PK'' # map lower cols))"
    using declared_names_stored [where columns = "PStr ''Id''" and clustered = "PBool True"
        and compression = "PStr ''NONE''" and old_name = None and ign = IA_None and kwargs = "[]"
        and pk = ?pkd] pk
    by simp
  show ?thesis
    using col long ix ixn pk c1 c2 c3 c4 c5 c6 by simp
qed

text \<open>
  C2. Resolving a chain of names on a declared entity. The server below declares a
  database named \<open>MyDatabase\<close>, which the typed lookup \<open>get_child\<close> finds; the
  type-agnostic \<open>get_object_by_id\<close> does not return it: it ends in \<open>AttributeError\<close>,
  raised when \<open>get_child_by_name\<close> reads \<open>self.child_objects\<close>.
\<close>

theorem declared_get_object_by_id_fails:
  "get_child (Declared Server [] None Ignore_None
        [(Database, [Declared Database ''MyDatabase'' None Ignore_None [] []])] [])
      Database ''MyDatabase''
     = Inr (Declared Database ''MyDatabase'' None Ignore_None [] [])
   \<and> get_object_by_id (Declared Server [] None Ignore_None
        [(Database, [Declared Database ''MyDatabase'' None Ignore_None [] []])] [])
      [''MyDatabase'']
     = Inl AttributeError"
  by (simp add: get_child_def get_children_def get_child_by_name_def declared_child_objects_def)

section \<open>Results of computations\<close>

lemma bind_Inr:
  "bind m f w = (Inr y, w') \<Longrightarrow> \<exists>x w1. m w = (Inr x, w1) \<and> f x w1 = (Inr y, w')"
  by (auto simp: bind_def split: prod.splits sum.splits)

section \<open>The equality rules\<close>

lemma object_type_not_empty: "object_type c \<noteq> []"
  by (cases c) simp_all

lemma lower_empty: "lower s = lower t \<Longrightarrow> s = [] \<Longrightarrow> t = []"
  by (simp add: lower_def)

lemma getattr_n_result:
  "getattr_n n r a w = (Inr (v, r'), w') \<Longrightarrow>
     map_of (r_attributes r') a = Some v
     \<and> r_type r' = r_type r \<and> r_name r' = r_name r \<and> r_parent r' = r_parent r
     \<and> (\<forall>b u. map_of (r_attributes r) b = Some u \<longrightarrow> map_of (r_attributes r') b = Some u)"
proof (cases n)
  case 0
  assume "getattr_n n r a w = (Inr (v, r'), w')"
  with 0 show ?thesis by (simp add: raise_def getattr_n.simps)
next
  case (Suc k)
  assume run: "getattr_n n r a w = (Inr (v, r'), w')"
  show ?thesis
    using run unfolding Suc getattr_n.simps
    by (auto simp: raise_apply ret_apply set_detail_result_def set_attributes_def
          split: if_splits option.splits dest!: bind_Inr)
qed

lemma getattr_result:
  "getattr r a w = (Inr (v, r'), w') \<Longrightarrow>
     map_of (r_attributes r') a = Some v
     \<and> r_type r' = r_type r \<and> r_name r' = r_name r \<and> r_parent r' = r_parent r
     \<and> (\<forall>b u. map_of (r_attributes r) b = Some u \<longrightarrow> map_of (r_attributes r') b = Some u)"
  unfolding getattr_def by (rule getattr_n_result)

lemma declared_getattr_result:
  "declared_getattr d a w = (Inr v, w') \<Longrightarrow> map_of (d_attrs d) a = Some v"
  by (auto simp: declared_getattr_def raise_apply ret_apply split: option.splits)

lemma equate_declared_pk_result:
  assumes "equate_declared_pk r d w = (Inr (v, r'), w')"
  shows "\<exists>cols dcols. map_of (r_attributes r') ''columns'' = Some cols
           \<and> map_of (d_attrs d) ''columns'' = Some dcols \<and> v = PBool (py_eq cols dcols)
           \<and> r_type r' = r_type r"
proof -
  from assms obtain r1 w1 w2 w3 cols r2 w4 dcols where
      str: "reflected_str r w = (Inr r1, w1)"
    and get: "getattr r1 ''columns'' w3 = (Inr (cols, r2), w4)"
    and dget: "declared_getattr d ''columns'' w4 = (Inr dcols, w')"
    and res: "v = PBool (py_eq cols dcols)" "r' = r2"
    unfolding equate_declared_pk_def
    by (auto simp: ret_apply dest!: bind_Inr)
  have t1: "r_type r1 = r_type r"
    using str unfolding reflected_str_def str_n.simps
    by (auto simp: ret_apply split: if_splits dest!: bind_Inr getattr_n_result)
  show ?thesis
    using getattr_result [OF get] declared_getattr_result [OF dget] res t1 by auto
qed

lemma column_names_read:
  "column_names rows = Some names \<Longrightarrow>
     mapM (\<lambda>result. bind (row_get result ''column_name'') (\<lambda>v. bind (py_lower v) as_string)) rows w
       = (Inr names, w)"
proof (induction rows arbitrary: names)
  case Nil
  then show ?case by (simp add: ret_apply)
next
  case (Cons r rows)
  then show ?case
    by (auto simp: bind_apply ret_apply row_get_def py_lower_def as_string_def
          split: option.splits pyval.splits)
qed

lemmas reading_apply = reflected_eq_def equate_declared_def equate_declared_pk_def reflected_str_def
  str_n.simps getattr_def getattr_n.simps get_details_n.simps get_details_ex_def
  table_child_detail_def detail_query_def ex_def parent_of_def schema_table_def
  read_attribute_def get_attr_method_def get_attr_columns_def get_attr_included_columns_def
  index_column_names_def declared_str_def declared_getattr_def log_def emit_def
  bind_apply ret_apply raise_apply fetchone_def set_detail_result_def set_attributes_def
  cur_execute_def column_names_read server_answer_def index_query_def

lemma index_equality_from_server:
  fixes w :: "'db world"
  assumes "r_type r = Index" "d_type d = Index"
    and "r_attributes r = []" "r_detail_result r = None"
    and "r_parent r = Some tbl" "r_parent tbl = Some sch"
    and "0 < w_recursion_limit w"
    and "server_answer w (index_query ''named_index_details'' (r_name sch) (r_name tbl) (r_name r))
           = (Some (detail # others), w_db w)" "detail \<noteq> []"
    and "server_answer w (index_query ''index_nonpartition_columns'' (r_name sch) (r_name tbl) (r_name r))
           = (Some key_rows, w_db w)"
        "column_names key_rows = Some nonpartition"
    and "nonpartition = [] \<longrightarrow>
           server_answer w (index_query ''index_all_columns'' (r_name sch) (r_name tbl) (r_name r))
             = (Some all_rows, w_db w) \<and> column_names all_rows = Some all_columns \<and> all_columns \<noteq> []"
    and "server_answer w (index_query ''index_included_columns'' (r_name sch) (r_name tbl) (r_name r))
           = (Some included_rows, w_db w)"
        "column_names included_rows = Some included"
    and "map_of (d_attrs d) ''columns'' = Some dcols"
        "map_of (d_attrs d) ''included_columns'' = Some dincluded"
  shows "\<exists>v r' w'. reflected_eq r d w = (Inr (v, r'), w') \<and> w_db w' = w_db w
           \<and> (truthy v \<longleftrightarrow> py_eq (PTuple (if nonpartition = [] then all_columns else nonpartition)) dcols
                 \<and> py_eq (if included = [] then PNone else PSet (remdups included)) dincluded)"
proof -
  from assms(7) obtain n where "w_recursion_limit w = Suc n"
    by (cases "w_recursion_limit w") auto
  with assms show ?thesis
    by (cases r; cases "nonpartition = []") (simp_all add: reading_apply)
qed

lemma primary_key_equality_from_server:
  fixes w :: "'db world"
  assumes "r_type r = PrimaryKey" "d_type d = PrimaryKey"
    and "r_attributes r = []" "r_detail_result r = None"
    and "r_parent r = Some tbl" "r_parent tbl = Some sch"
    and "0 < w_recursion_limit w"
    and "server_answer w (index_query ''named_index_details'' (r_name sch) (r_name tbl) (r_name r))
           = (Some (detail # others), w_db w)" "detail \<noteq> []"
    and "server_answer w (index_query ''index_nonpartition_columns'' (r_name sch) (r_name tbl) (r_name r))
           = (Some key_rows, w_db w)"
        "column_names key_rows = Some nonpartition"
    and "nonpartition = [] \<longrightarrow>
           server_answer w (index_query ''index_all_columns'' (r_name sch) (r_name tbl) (r_name r))
             = (Some all_rows, w_db w) \<and> column_names all_rows = Some all_columns \<and> all_columns \<noteq> []"
    and "map_of (d_attrs d) ''columns'' = Some dcols"
  shows "\<exists>v r' w'. reflected_eq r d w = (Inr (v, r'), w') \<and> w_db w' = w_db w
           \<and> (truthy v \<longleftrightarrow> py_eq (PTuple (if nonpartition = [] then all_columns else nonpartition)) dcols)"
proof -
  from assms(7) obtain n where "w_recursion_limit w = Suc n"
    by (cases "w_recursion_limit w") auto
  with assms show ?thesis
    by (cases r; cases "nonpartition = []") (simp_all add: reading_apply)
qed

lemma base_equality:
  assumes "r_type r = d_type d" "r_type r \<notin> {PrimaryKey, Index, Partition, User}"
  shows "\<exists>v. reflected_eq r d w = (Inr (v, r), w)
         \<and> (truthy v \<longleftrightarrow> lower (r_name r) = lower (d_name d)
               \<or> (\<exists>old. d_old_name d = Some old \<and> old \<noteq> [] \<and> lower (r_name r) = lower old))"
proof -
  from assms have eq: "reflected_eq r d w = (Inr (equate_declared_base r d, r), w)"
    by (cases "r_type r") (simp_all add: reflected_eq_def equate_declared_def object_type_not_empty ret_apply)
  have "truthy (equate_declared_base r d) \<longleftrightarrow> lower (r_name r) = lower (d_name d)
          \<or> (\<exists>old. d_old_name d = Some old \<and> old \<noteq> [] \<and> lower (r_name r) = lower old)"
    by (auto simp: equate_declared_base_def split: option.splits)
  with eq show ?thesis by blast
qed

lemma primary_key_equality_cached:
  assumes "r_type r = PrimaryKey" "d_type d = PrimaryKey" "reflected_eq r d w = (Inr (v, r'), w')"
  shows "\<exists>cols dcols. map_of (r_attributes r') ''columns'' = Some cols
         \<and> map_of (d_attrs d) ''columns'' = Some dcols \<and> (truthy v \<longleftrightarrow> py_eq cols dcols)"
proof -
  from assms have "equate_declared_pk r d w = (Inr (v, r'), w')"
    by (auto simp: reflected_eq_def equate_declared_def object_type_not_empty)
  from equate_declared_pk_result [OF this] show ?thesis
    by auto
qed

lemma index_equality_cached:
  assumes "r_type r = Index" "d_type d = Index" "reflected_eq r d w = (Inr (v, r'), w')"
  shows "\<exists>cols dcols. map_of (r_attributes r') ''columns'' = Some cols
         \<and> map_of (d_attrs d) ''columns'' = Some dcols
         \<and> (truthy v \<longleftrightarrow> py_eq cols dcols
               \<and> (\<exists>inc dinc. map_of (r_attributes r') ''included_columns'' = Some inc
                      \<and> map_of (d_attrs d) ''included_columns'' = Some dinc \<and> py_eq inc dinc))"
proof -
  from assms have run: "bind (equate_declared_pk r d) (\<lambda>(same_columns, self1).
            if \<not> truthy same_columns then ret (same_columns, self1)
            else bind (getattr self1 ''included_columns'') (\<lambda>(included, self2).
              bind (declared_getattr d ''included_columns'') (\<lambda>declared_included.
                ret (PBool (py_eq included declared_included), self2)))) w = (Inr (v, r'), w')"
    by (auto simp: reflected_eq_def equate_declared_def object_type_not_empty)
  then obtain same r1 w1 where
      pk: "equate_declared_pk r d w = (Inr (same, r1), w1)"
    and rest: "(if \<not> truthy same then ret (same, r1)
            else bind (getattr r1 ''included_columns'') (\<lambda>(included, self2).
              bind (declared_getattr d ''included_columns'') (\<lambda>declared_included.
                ret (PBool (py_eq included declared_included), self2)))) w1 = (Inr (v, r'), w')"
    by (auto dest!: bind_Inr)
  from equate_declared_pk_result [OF pk] obtain cols dcols where
      c: "map_of (r_attributes r1) ''columns'' = Some cols"
         "map_of (d_attrs d) ''columns'' = Some dcols" "same = PBool (py_eq cols dcols)"
    by auto
  show ?thesis
  proof (cases "py_eq cols dcols")
    case False
    with rest c have "v = PBool False" "r' = r1"
      by (simp_all add: ret_apply)
    with c False show ?thesis by auto
  next
    case True
    with rest c obtain inc r2 w2 dinc where
        g: "getattr r1 ''included_columns'' w1 = (Inr (inc, r2), w2)"
      and dg: "declared_getattr d ''included_columns'' w2 = (Inr dinc, w')"
      and res: "v = PBool (py_eq inc dinc)" "r' = r2"
      by (auto simp: ret_apply dest!: bind_Inr)
    show ?thesis
      using getattr_result [OF g] declared_getattr_result [OF dg] res c True by auto
  qed
qed

text \<open>
  C8. Equality of a reflected entity \<open>r\<close> against a declared entity \<open>d\<close> of the same class.

  For the classes with the base rule (all but primary key, index, partition and user) the
  comparison does nothing to the world, and it holds exactly if the lower-cased name of \<open>r\<close>
  equals the lower-cased \<open>name\<close> of \<open>d\<close> or its lower-cased \<open>old_name\<close>, an empty \<open>old_name\<close>
  being no \<open>old_name\<close> (for a live name that is not empty the proviso is void).

  For a primary key, a comparison that returns holds exactly if the columns of \<open>r\<close> (the
  attribute as \<open>r\<close> holds it afterwards) equal the declared columns; for an index, exactly
  if in addition the included columns of \<open>r\<close> equal the declared ones.

  For a primary key or index \<open>r\<close> that has read nothing yet, on a server that answers the
  statements about it (its row of details, its key columns, and for an index its included
  columns) without changing state, the comparison returns, leaves the state of the server
  as it is, and holds exactly if the key columns that the server lists, lower-cased and
  in their order, equal the declared columns, and for an index in addition the set of the
  included columns that the server lists, or \<open>None\<close> when it lists none, equals the declared
  included columns. The key columns are those of \<open>index_nonpartition_columns\<close>, or those of
  \<open>index_all_columns\<close> when the former lists none. The names of \<open>r\<close> and \<open>d\<close> do not enter:
  the name of \<open>r\<close> only says which index the server is asked about.
\<close>

theorem reflected_equality_rules:
  fixes w :: "'db world"
  shows
  "(r_type r = d_type d \<and> r_type r \<notin> {PrimaryKey, Index, Partition, User} \<longrightarrow>
      (\<exists>v. reflected_eq r d w = (Inr (v, r), w)
         \<and> (truthy v \<longleftrightarrow> lower (r_name r) = lower (d_name d)
               \<or> (\<exists>old. d_old_name d = Some old \<and> old \<noteq> [] \<and> lower (r_name r) = lower old))
         \<and> (r_name r \<noteq> [] \<longrightarrow>
              (truthy v \<longleftrightarrow> lower (r_name r) = lower (d_name d)
                 \<or> (\<exists>old. d_old_name d = Some old \<and> lower (r_name r) = lower old)))))
   \<and> (r_type r = PrimaryKey \<and> d_type d = PrimaryKey \<and> reflected_eq r d w = (Inr (v, r'), w') \<longrightarrow>
      (\<exists>cols dcols. map_of (r_attributes r') ''columns'' = Some cols
         \<and> map_of (d_attrs d) ''columns'' = Some dcols
         \<and> (truthy v \<longleftrightarrow> py_eq cols dcols)))
   \<and> (r_type r = Index \<and> d_type d = Index \<and> reflected_eq r d w = (Inr (v, r'), w') \<longrightarrow>
      (\<exists>cols dcols. map_of (r_attributes r') ''columns'' = Some cols
         \<and> map_of (d_attrs d) ''columns'' = Some dcols
         \<and> (truthy v \<longleftrightarrow> py_eq cols dcols
               \<and> (\<exists>inc dinc. map_of (r_attributes r') ''included_columns'' = Some inc
                      \<and> map_of (d_attrs d) ''included_columns'' = Some dinc \<and> py_eq inc dinc))))
   \<and> (r_type r = PrimaryKey \<and> d_type d = PrimaryKey
        \<and> r_attributes r = [] \<and> r_detail_result r = None
        \<and> r_parent r = Some tbl \<and> r_parent tbl = Some sch \<and> 0 < w_recursion_limit w
        \<and> server_answer w (index_query ''named_index_details'' (r_name sch) (r_name tbl) (r_name r))
            = (Some (detail # others), w_db w) \<and> detail \<noteq> []
        \<and> server_answer w (index_query ''index_nonpartition_columns'' (r_name sch) (r_name tbl) (r_name r))
            = (Some key_rows, w_db w)
        \<and> column_names key_rows = Some nonpartition
        \<and> (nonpartition = [] \<longrightarrow>
             server_answer w (index_query ''index_all_columns'' (r_name sch) (r_name tbl) (r_name r))
               = (Some all_rows, w_db w)
             \<and> column_names all_rows = Some all_columns \<and> all_columns \<noteq> [])
        \<and> map_of (d_attrs d) ''columns'' = Some declared_columns \<longrightarrow>
      (\<exists>v r' w'. reflected_eq r d w = (Inr (v, r'), w') \<and> w_db w' = w_db w
         \<and> (truthy v \<longleftrightarrow>
              py_eq (PTuple (if nonpartition = [] then all_columns else nonpartition)) declared_columns)))
   \<and> (r_type r = Index \<and> d_type d = Index
        \<and> r_attributes r = [] \<and> r_detail_result r = None
        \<and> r_parent r = Some tbl \<and> r_parent tbl = Some sch \<and> 0 < w_recursion_limit w
        \<and> server_answer w (index_query ''named_index_details'' (r_name sch) (r_name tbl) (r_name r))
            = (Some (detail # others), w_db w) \<and> detail \<noteq> []
        \<and> server_answer w (index_query ''index_nonpartition_columns'' (r_name sch) (r_name tbl) (r_name r))
            = (Some key_rows, w_db w)
        \<and> column_names key_rows = Some nonpartition
        \<and> (nonpartition = [] \<longrightarrow>
             server_answer w (index_query ''index_all_columns'' (r_name sch) (r_name tbl) (r_name r))
               = (Some all_rows, w_db w)
             \<and> column_names all_rows = Some all_columns \<and> all_columns \<noteq> [])
        \<and> server_answer w (index_query ''index_included_columns'' (r_name sch) (r_name tbl) (r_name r))
            = (Some included_rows, w_db w)
        \<and> column_names included_rows = Some included
        \<and> map_of (d_attrs d) ''columns'' = Some declared_columns
        \<and> map_of (d_attrs d) ''included_columns'' = Some declared_included \<longrightarrow>
      (\<exists>v r' w'. reflected_eq r d w = (Inr (v, r'), w') \<and> w_db w' = w_db w
         \<and> (truthy v \<longleftrightarrow>
              py_eq (PTuple (if nonpartition = [] then all_columns else nonpartition)) declared_columns
              \<and> py_eq (if included = [] then PNone else PSet (remdups included)) declared_included)))"
proof (intro conjI impI; (elim conjE)?)
  assume h: "r_type r = d_type d" "r_type r \<notin> {PrimaryKey, Index, Partition, User}"
  from base_equality [OF h, of w] obtain v where
      v: "reflected_eq r d w = (Inr (v, r), w)"
         "truthy v \<longleftrightarrow> lower (r_name r) = lower (d_name d)
               \<or> (\<exists>old. d_old_name d = Some old \<and> old \<noteq> [] \<and> lower (r_name r) = lower old)"
    by blast
  have "r_name r \<noteq> [] \<longrightarrow>
          (truthy v \<longleftrightarrow> lower (r_name r) = lower (d_name d)
             \<or> (\<exists>old. d_old_name d = Some old \<and> lower (r_name r) = lower old))"
    using v(2) by (auto simp: lower_def)
  with v show "\<exists>v. reflected_eq r d w = (Inr (v, r), w)
         \<and> (truthy v \<longleftrightarrow> lower (r_name r) = lower (d_name d)
               \<or> (\<exists>old. d_old_name d = Some old \<and> old \<noteq> [] \<and> lower (r_name r) = lower old))
         \<and> (r_name r \<noteq> [] \<longrightarrow>
              (truthy v \<longleftrightarrow> lower (r_name r) = lower (d_name d)
                 \<or> (\<exists>old. d_old_name d = Some old \<and> lower (r_name r) = lower old)))"
    by blast
next
  assume "r_type r = PrimaryKey" "d_type d = PrimaryKey" "reflected_eq r d w = (Inr (v, r'), w')"
  then show "\<exists>cols dcols. map_of (r_attributes r') ''columns'' = Some cols
         \<and> map_of (d_attrs d) ''columns'' = Some dcols \<and> (truthy v \<longleftrightarrow> py_eq cols dcols)"
    by (rule primary_key_equality_cached)
next
  assume "r_type r = Index" "d_type d = Index" "reflected_eq r d w = (Inr (v, r'), w')"
  then show "\<exists>cols dcols. map_of (r_attributes r') ''columns'' = Some cols
         \<and> map_of (d_attrs d) ''columns'' = Some dcols
         \<and> (truthy v \<longleftrightarrow> py_eq cols dcols
               \<and> (\<exists>inc dinc. map_of (r_attributes r') ''included_columns'' = Some inc
                      \<and> map_of (d_attrs d) ''included_columns'' = Some dinc \<and> py_eq inc dinc))"
    by (rule index_equality_cached)
next
  assume "r_type r = PrimaryKey" "d_type d = PrimaryKey"
    "r_attributes r = []" "r_detail_result r = None"
    "r_parent r = Some tbl" "r_parent tbl = Some sch" "0 < w_recursion_limit w"
    "server_answer w (index_query ''named_index_details'' (r_name sch) (r_name tbl) (r_name r))
            = (Some (detail # others), w_db w)" "detail \<noteq> []"
    "server_answer w (index_query ''index_nonpartition_columns'' (r_name sch) (r_name tbl) (r_name r))
            = (Some key_rows, w_db w)"
    "column_names key_rows = Some nonpartition"
    "nonpartition = [] \<longrightarrow>
             server_answer w (index_query ''index_all_columns'' (r_name sch) (r_name tbl) (r_name r))
               = (Some all_rows, w_db w)
             \<and> column_names all_rows = Some all_columns \<and> all_columns \<noteq> []"
    "map_of (d_attrs d) ''columns'' = Some declared_columns"
  then show "\<exists>v r' w'. reflected_eq r d w = (Inr (v, r'), w') \<and> w_db w' = w_db w
         \<and> (truthy v \<longleftrightarrow>
              py_eq (PTuple (if nonpartition = [] then all_columns else nonpartition)) declared_columns)"
    by (rule primary_key_equality_from_server)
next
  assume "r_type r = Index" "d_type d = Index"
    "r_attributes r = []" "r_detail_result r = None"
    "r_parent r = Some tbl" "r_parent tbl = Some sch" "0 < w_recursion_limit w"
    "server_answer w (index_query ''named_index_details'' (r_name sch) (r_name tbl) (r_name r))
            = (Some (detail # others), w_db w)" "detail \<noteq> []"
    "server_answer w (index_query ''index_nonpartition_columns'' (r_name sch) (r_name tbl) (r_name r))
            = (Some key_rows, w_db w)"
    "column_names key_rows = Some nonpartition"
    "nonpartition = [] \<longrightarrow>
             server_answer w (index_query ''index_all_columns'' (r_name sch) (r_name tbl) (r_name r))
               = (Some all_rows, w_db w)
             \<and> column_names all_rows = Some all_columns \<and> all_columns \<noteq> []"
    "server_answer w (index_query ''index_included_columns'' (r_name sch) (r_name tbl) (r_name r))
            = (Some included_rows, w_db w)"
    "column_names included_rows = Some included"
    "map_of (d_attrs d) ''columns'' = Some declared_columns"
    "map_of (d_attrs d) ''included_columns'' = Some declared_included"
  then show "\<exists>v r' w'. reflected_eq r d w = (Inr (v, r'), w') \<and> w_db w' = w_db w
         \<and> (truthy v \<longleftrightarrow>
              py_eq (PTuple (if nonpartition = [] then all_columns else nonpartition)) declared_columns
              \<and> py_eq (if included = [] then PNone else PSet (remdups included)) declared_included)"
    by (rule index_equality_from_server)
qed

lemmas index_server_defs = server_answer_def index_query_def index_world_def index_execute_def arg_str_def
  db_including_def declared_index_including_def declared_primary_key_def live_index_def
  live_primary_key_def mini_table_def mini_schema_def lower_def lower_char_def
  upper_case_letters_def lower_case_letters_def

theorem reflected_equality_rules_witness:
  "(case reflected_eq (live_index ''ix_old'')
           (declared_index_including ''IX_x_y__z'' [''x'', ''y''] (PSet [''z''])) (index_world db_including) of
      (Inr (v, r'), w') \<Rightarrow> truthy v | (Inl e, w') \<Rightarrow> False)
   \<and> (case reflected_eq (live_index ''ix_old'')
           (declared_index_including ''ix_old'' [''x'', ''y''] PNone) (index_world db_including) of
      (Inr (v, r'), w') \<Rightarrow> \<not> truthy v | (Inl e, w') \<Rightarrow> False)
   \<and> (case reflected_eq (live_index ''ix_old'')
           (declared_index_including ''ix_old'' [''y'', ''x''] (PSet [''z''])) (index_world db_including) of
      (Inr (v, r'), w') \<Rightarrow> \<not> truthy v | (Inl e, w') \<Rightarrow> False)
   \<and> (case reflected_eq (live_primary_key ''pk_old'') (declared_primary_key ''PK_x'' [''x''])
           (index_world db_including) of
      (Inr (v, r'), w') \<Rightarrow> truthy v | (Inl e, w') \<Rightarrow> False)
   \<and> (case reflected_eq (live_primary_key ''pk_old'') (declared_primary_key ''pk_old'' [''y''])
           (index_world db_including) of
      (Inr (v, r'), w') \<Rightarrow> \<not> truthy v | (Inl e, w') \<Rightarrow> False)
   \<and> (case reflected_eq (live_index ''ix_old'') (declared_index ''IX_x_y'' [''x'', ''y''])
           (mini_world db_xy []) of
      (Inr (v, r'), w') \<Rightarrow>
        truthy v \<and> map_of (r_attributes r') ''columns'' = Some (PTuple [''x'', ''y''])
    | (Inl e, w') \<Rightarrow> False)
   \<and> (case reflected_eq (live_primary_key ''pk_old'') (declared_primary_key ''PK_x'' [''x''])
           (mini_world db_xy []) of
      (Inr (v, r'), w') \<Rightarrow> truthy v \<and> map_of (r_attributes r') ''columns'' = Some (PTuple [''x''])
    | (Inl e, w') \<Rightarrow> False)
   \<and> reflected_eq mini_table (Declared Table ''T'' None Ignore_None [] []) (mini_world db_xy [])
       = (Inr (PBool True, mini_table), mini_world db_xy [])
   \<and> truthy (fst (projr (fst (reflected_eq mini_table
        (Declared Table ''renamed'' (Some ''T'') Ignore_None [] []) (mini_world db_xy [])))))
   \<and> \<not> truthy (fst (projr (fst (reflected_eq mini_table
        (Declared Table ''other'' (Some []) Ignore_None [] []) (mini_world db_xy [])))))
   \<and> truthy (fst (projr (fst (reflected_eq (Reflected Table [CHR 0xC9] (Some mini_schema) [] None)
        (Declared Table [CHR 0xE9] None Ignore_None [] []) (mini_world db_xy [])))))"
proof -
  let ?W = "index_world db_including"
  let ?detail = "\<lambda>n. [(''index_name'', PStr n), (''type_desc'', PStr ''NONCLUSTERED''),
                      (''unique'', PBool False), (''is_unique_constraint'', PBool False),
                      (''compression'', PStr ''NONE'')]"
  let ?key = "[[(''column_name'', PStr ''X'')], [(''column_name'', PStr ''y'')]]"
  let ?inc = "[[(''column_name'', PStr ''Z'')]]"
  have ix: "\<exists>v r' w'. reflected_eq (live_index ''ix_old'') (declared_index_including n cols included) ?W
                = (Inr (v, r'), w') \<and> w_db w' = w_db ?W
              \<and> (truthy v \<longleftrightarrow> py_eq (PTuple [''x'', ''y'']) (PTuple cols)
                    \<and> py_eq (PSet [''z'']) included)" for n cols included
    using reflected_equality_rules [where r = "live_index ''ix_old''"
        and d = "declared_index_including n cols included" and w = ?W
        and tbl = mini_table and sch = mini_schema and detail = "?detail ''ix_old''" and others = "[]"
        and key_rows = ?key and nonpartition = "[''x'', ''y'']"
        and included_rows = ?inc and included = "[''z'']"
        and declared_columns = "PTuple cols" and declared_included = included]
    by (simp add: index_server_defs)
  have pk: "\<exists>v r' w'. reflected_eq (live_primary_key ''pk_old'') (declared_primary_key n cols) ?W
                = (Inr (v, r'), w') \<and> w_db w' = w_db ?W
              \<and> (truthy v \<longleftrightarrow> py_eq (PTuple [''x'']) (PTuple cols))" for n cols
    using reflected_equality_rules [where r = "live_primary_key ''pk_old''"
        and d = "declared_primary_key n cols" and w = ?W
        and tbl = mini_table and sch = mini_schema and detail = "?detail ''pk_old''" and others = "[]"
        and key_rows = "[[(''column_name'', PStr ''x'')]]" and nonpartition = "[''x'']"
        and declared_columns = "PTuple cols"]
    by (simp add: index_server_defs)
  have i1: "case reflected_eq (live_index ''ix_old'')
           (declared_index_including ''IX_x_y__z'' [''x'', ''y''] (PSet [''z''])) ?W of
      (Inr (v, r'), w') \<Rightarrow> truthy v | (Inl e, w') \<Rightarrow> False"
    using ix [of "''IX_x_y__z''" "[''x'', ''y'']" "PSet [''z'']"] by auto
  have i2: "case reflected_eq (live_index ''ix_old'')
           (declared_index_including ''ix_old'' [''x'', ''y''] PNone) ?W of
      (Inr (v, r'), w') \<Rightarrow> \<not> truthy v | (Inl e, w') \<Rightarrow> False"
    using ix [of "''ix_old''" "[''x'', ''y'']" PNone] by auto
  have i3: "case reflected_eq (live_index ''ix_old'')
           (declared_index_including ''ix_old'' [''y'', ''x''] (PSet [''z''])) ?W of
      (Inr (v, r'), w') \<Rightarrow> \<not> truthy v | (Inl e, w') \<Rightarrow> False"
    using ix [of "''ix_old''" "[''y'', ''x'']" "PSet [''z'']"] by auto
  have p1: "case reflected_eq (live_primary_key ''pk_old'') (declared_primary_key ''PK_x'' [''x'']) ?W of
      (Inr (v, r'), w') \<Rightarrow> truthy v | (Inl e, w') \<Rightarrow> False"
    using pk [of "''PK_x''" "[''x'']"] by auto
  have p2: "case reflected_eq (live_primary_key ''pk_old'') (declared_primary_key ''pk_old'' [''y'']) ?W of
      (Inr (v, r'), w') \<Rightarrow> \<not> truthy v | (Inl e, w') \<Rightarrow> False"
    using pk [of "''pk_old''" "[''y'']"] by auto
  obtain v r' w' where
      run: "reflected_eq (live_index ''ix_old'') (declared_index ''IX_x_y'' [''x'', ''y''])
              (mini_world db_xy []) = (Inr (v, r'), w')"
    by (simp add: monad_apply program_apply value_defs)
  from reflected_equality_rules
         [where r = "live_index ''ix_old''" and d = "declared_index ''IX_x_y'' [''x'', ''y'']"
            and w = "mini_world db_xy []" and v = v and r' = r' and w' = w'] run
  have c1: "\<exists>cols dcols. map_of (r_attributes r') ''columns'' = Some cols
         \<and> map_of (d_attrs (declared_index ''IX_x_y'' [''x'', ''y''])) ''columns'' = Some dcols
         \<and> (truthy v \<longleftrightarrow> py_eq cols dcols
               \<and> (\<exists>inc dinc. map_of (r_attributes r') ''included_columns'' = Some inc
                      \<and> map_of (d_attrs (declared_index ''IX_x_y'' [''x'', ''y''])) ''included_columns'' = Some dinc
                      \<and> py_eq inc dinc))"
    by (simp add: live_index_def declared_index_def)
  obtain v2 r2 w2 where
      run2: "reflected_eq (live_primary_key ''pk_old'') (declared_primary_key ''PK_x'' [''x''])
              (mini_world db_xy []) = (Inr (v2, r2), w2)"
    by (simp add: monad_apply program_apply value_defs)
  from reflected_equality_rules
         [where r = "live_primary_key ''pk_old''" and d = "declared_primary_key ''PK_x'' [''x'']"
            and w = "mini_world db_xy []" and v = v2 and r' = r2 and w' = w2] run2
  have c2: "\<exists>cols dcols. map_of (r_attributes r2) ''columns'' = Some cols
         \<and> map_of (d_attrs (declared_primary_key ''PK_x'' [''x''])) ''columns'' = Some dcols
         \<and> (truthy v2 \<longleftrightarrow> py_eq cols dcols)"
    by (simp add: live_primary_key_def declared_primary_key_def)
  have base: "\<exists>v. reflected_eq (Reflected Table n (Some mini_schema) [] None)
                     (Declared Table dn old Ignore_None [] []) (mini_world db_xy [])
                   = (Inr (v, Reflected Table n (Some mini_schema) [] None), mini_world db_xy [])
              \<and> (truthy v \<longleftrightarrow> lower n = lower dn
                    \<or> (\<exists>prior. old = Some prior \<and> prior \<noteq> [] \<and> lower n = lower prior))" for n dn old
    using reflected_equality_rules [where r = "Reflected Table n (Some mini_schema) [] None"
        and d = "Declared Table dn old Ignore_None [] []" and w = "mini_world db_xy []"]
    by auto
  have b1: "reflected_eq mini_table (Declared Table ''T'' None Ignore_None [] []) (mini_world db_xy [])
       = (Inr (PBool True, mini_table), mini_world db_xy [])"
    by (simp add: monad_apply program_apply value_defs)
  have b2: "truthy (fst (projr (fst (reflected_eq mini_table
        (Declared Table ''renamed'' (Some ''T'') Ignore_None [] []) (mini_world db_xy [])))))"
    using base [of "''t''" "''renamed''" "Some ''T''"]
    by (auto simp: mini_table_def lower_def lower_char_def upper_case_letters_def lower_case_letters_def)
  have b3: "\<not> truthy (fst (projr (fst (reflected_eq mini_table
        (Declared Table ''other'' (Some []) Ignore_None [] []) (mini_world db_xy [])))))"
    using base [of "''t''" "''other''" "Some []"]
    by (auto simp: mini_table_def lower_def lower_char_def upper_case_letters_def lower_case_letters_def)
  have b4: "truthy (fst (projr (fst (reflected_eq (Reflected Table [CHR 0xC9] (Some mini_schema) [] None)
        (Declared Table [CHR 0xE9] None Ignore_None [] []) (mini_world db_xy [])))))"
    using base [of "[CHR 0xC9]" "[CHR 0xE9]" None]
    by (auto simp: lower_def lower_char_def upper_case_letters_def lower_case_letters_def)
  have s1: "case reflected_eq (live_index ''ix_old'') (declared_index ''IX_x_y'' [''x'', ''y''])
           (mini_world db_xy []) of
      (Inr (v, r'), w') \<Rightarrow>
        truthy v \<and> map_of (r_attributes r') ''columns'' = Some (PTuple [''x'', ''y''])
    | (Inl e, w') \<Rightarrow> False"
    using c1 by (simp add: monad_apply program_apply value_defs)
  have s2: "case reflected_eq (live_primary_key ''pk_old'') (declared_primary_key ''PK_x'' [''x''])
           (mini_world db_xy []) of
      (Inr (v, r'), w') \<Rightarrow> truthy v \<and> map_of (r_attributes r') ''columns'' = Some (PTuple [''x''])
    | (Inl e, w') \<Rightarrow> False"
    using c2 by (simp add: monad_apply program_apply value_defs)
  show ?thesis
    by (intro conjI i1 i2 i3 p1 p2 s1 s2 b1 b2 b3 b4)
qed

section \<open>Getting or creating the live counterpart\<close>

lemma create_verifies:
  "create c parent d w = (Inr d', w') \<Longrightarrow>
     \<exists>w0. name_exists_ex c parent (d_name d') w0 = (Inr True, w')"
  by (auto simp: create_def ret_apply raise_apply bind_apply
        split: prod.splits sum.splits if_splits)

text \<open>
  C5. \<open>get_or_create\<close> of class \<open>c\<close> under \<open>parent\<close> for the declared object \<open>d\<close>, in terms of
  the runs of \<open>from_declared\<close> and \<open>create\<close> it is made of. A match is returned as it is; an
  exception of the match other than \<open>DBObjectDoesntExistError\<close> is passed on. After a failed
  match of a class that can be created, \<open>create\<close> runs: its exception is passed on; when it
  returns, the existence of the new name has been checked, the match runs again, and its
  result or its exception (also \<open>DBObjectDoesntExistError\<close>) is the outcome. After a failed
  match of a class that cannot be created (only \<open>Login\<close>), the outcome is \<open>None\<close>, with one
  log message and no exception.
\<close>

theorem get_or_create_protocol:
  "(from_declared c parent d w = (Inr r, w1) \<longrightarrow>
      get_or_create c parent d w = (Inr (Some r, d), w1))
   \<and> (from_declared c parent d w = (Inl e, w1) \<and> e \<noteq> DBObjectDoesntExistError \<longrightarrow>
      get_or_create c parent d w = (Inl e, w1))
   \<and> (from_declared c parent d w = (Inl DBObjectDoesntExistError, w1) \<and> can_create c \<longrightarrow>
      (create c parent d w1 = (Inl e, w2) \<longrightarrow> get_or_create c parent d w = (Inl e, w2))
      \<and> (create c parent d w1 = (Inr d', w2) \<longrightarrow>
           (\<exists>w0. name_exists_ex c parent (d_name d') w0 = (Inr True, w2))
           \<and> (from_declared c parent d' w2 = (Inr r, w3) \<longrightarrow>
                get_or_create c parent d w = (Inr (Some r, d'), w3))
           \<and> (from_declared c parent d' w2 = (Inl e, w3) \<longrightarrow>
                get_or_create c parent d w = (Inl e, w3))))
   \<and> (from_declared c parent d w = (Inl DBObjectDoesntExistError, w1) \<and> \<not> can_create c
        \<and> d_type d = c \<longrightarrow>
      get_or_create c parent d w
        = (Inr (None, d), w1\<lparr>w_trace := w_trace w1 @ [Log Info ''Unable to create: {}'' [LD c (d_name d)]]\<rparr>))
   \<and> (\<not> can_create c \<longleftrightarrow> c = Login)"
proof -
  have login: "\<not> can_create c \<longleftrightarrow> c = Login"
    by (cases c) simp_all
  have found: "from_declared c parent d w = (Inr r, w1) \<longrightarrow>
      get_or_create c parent d w = (Inr (Some r, d), w1)"
    by (simp add: get_or_create_def catch_def bind_apply ret_apply)
  have other: "from_declared c parent d w = (Inl e, w1) \<and> e \<noteq> DBObjectDoesntExistError \<longrightarrow>
      get_or_create c parent d w = (Inl e, w1)"
    by (simp add: get_or_create_def catch_def bind_apply ret_apply)
  have created: "from_declared c parent d w = (Inl DBObjectDoesntExistError, w1) \<and> can_create c \<longrightarrow>
      (create c parent d w1 = (Inl e, w2) \<longrightarrow> get_or_create c parent d w = (Inl e, w2))
      \<and> (create c parent d w1 = (Inr d', w2) \<longrightarrow>
           (\<exists>w0. name_exists_ex c parent (d_name d') w0 = (Inr True, w2))
           \<and> (from_declared c parent d' w2 = (Inr r, w3) \<longrightarrow>
                get_or_create c parent d w = (Inr (Some r, d'), w3))
           \<and> (from_declared c parent d' w2 = (Inl e, w3) \<longrightarrow>
                get_or_create c parent d w = (Inl e, w3)))"
    using create_verifies [of c parent d w1 d' w2]
    by (simp add: get_or_create_def catch_def bind_apply ret_apply)
  have refused: "from_declared c parent d w = (Inl DBObjectDoesntExistError, w1) \<and> \<not> can_create c
        \<and> d_type d = c \<longrightarrow>
      get_or_create c parent d w
        = (Inr (None, d), w1\<lparr>w_trace := w_trace w1 @ [Log Info ''Unable to create: {}'' [LD c (d_name d)]]\<rparr>)"
  proof (intro impI, elim conjE)
    assume run: "from_declared c parent d w = (Inl DBObjectDoesntExistError, w1)"
      and nc: "\<not> can_create c" and ty: "d_type d = c"
    from nc login have c: "c = Login" by simp
    with ty have str: "declared_str d w1 = (Inr (), w1)"
      by (simp add: declared_str_def ret_apply)
    show "get_or_create c parent d w
        = (Inr (None, d), w1\<lparr>w_trace := w_trace w1 @ [Log Info ''Unable to create: {}'' [LD c (d_name d)]]\<rparr>)"
      using run nc ty str
      by (simp add: get_or_create_def catch_def bind_apply ret_apply log_def emit_def)
  qed
  show ?thesis
    using login found other created refused by blast
qed

theorem get_or_create_protocol_witness:
  "fst (get_or_create Column mini_table (declared_column ''c'' ''int'')
          (mini_world db_indexed_column []))
     = Inr (Some (live_column ''c''), declared_column ''c'' ''int'')
   \<and> fst (get_or_create Column mini_table (declared_column ''d'' ''int'')
          (mini_world db_indexed_column []))
     = Inr (Some (live_column ''d''), declared_column ''d'' ''int'')
   \<and> fst (get_or_create Login mini_server (declared_login ''app'')
          (mini_world db_indexed_column []))
     = Inr (None, declared_login ''app'')"
proof -
  let ?w = "mini_world db_indexed_column []"
  let ?c = "declared_column ''c'' ''int''"
  let ?d = "declared_column ''d'' ''int''"
  let ?l = "declared_login ''app''"
  let ?w1 = "snd (from_declared Column mini_table ?d ?w)"
  let ?w2 = "snd (create Column mini_table ?d ?w1)"
  have found: "from_declared Column mini_table ?c ?w
                 = (Inr (live_column ''c''), snd (from_declared Column mini_table ?c ?w))"
    by (simp add: monad_apply program_apply value_defs)
  have absent: "from_declared Column mini_table ?d ?w = (Inl DBObjectDoesntExistError, ?w1)"
    by (simp add: monad_apply program_apply value_defs)
  have made: "create Column mini_table ?d ?w1 = (Inr ?d, ?w2)"
    by (simp add: monad_apply program_apply value_defs)
  have again: "from_declared Column mini_table ?d ?w2
                 = (Inr (live_column ''d''), snd (from_declared Column mini_table ?d ?w2))"
    by (simp add: monad_apply program_apply value_defs)
  have no_login: "from_declared Login mini_server ?l ?w
                 = (Inl DBObjectDoesntExistError, snd (from_declared Login mini_server ?l ?w))"
    by (simp add: monad_apply program_apply value_defs)
  have g1: "get_or_create Column mini_table ?c ?w
              = (Inr (Some (live_column ''c''), ?c), snd (from_declared Column mini_table ?c ?w))"
    using get_or_create_protocol [where c = Column and parent = mini_table and d = ?c
        and w = ?w and r = "live_column ''c''"
        and ?w1.0 = "snd (from_declared Column mini_table ?c ?w)"] found
    by simp
  have g2: "get_or_create Column mini_table ?d ?w
              = (Inr (Some (live_column ''d''), ?d), snd (from_declared Column mini_table ?d ?w2))"
    using get_or_create_protocol [where c = Column and parent = mini_table and d = ?d
        and w = ?w and ?w1.0 = ?w1 and ?w2.0 = ?w2 and d' = ?d and r = "live_column ''d''"
        and ?w3.0 = "snd (from_declared Column mini_table ?d ?w2)"] absent made again
    by simp
  have g3: "fst (get_or_create Login mini_server ?l ?w) = Inr (None, ?l)"
    using get_or_create_protocol [where c = Login and parent = mini_server and d = ?l
        and w = ?w and ?w1.0 = "snd (from_declared Login mini_server ?l ?w)"] no_login
    by (simp add: declared_login_def)
  show ?thesis
    using g1 g2 g3 by simp
qed

section \<open>What alignment does to the declared tree\<close>

lemma partition_run:
  "fst (align_entity (declared_table Ignore_None [(Partition, [declared_partition [] ''ts''])])
             mini_table True (mini_world db_timestamps []))
     = Inr (declared_table Ignore_None [(Partition, [declared_partition ''ps_dbo_t_ts'' ''ts''])])"
  by (simp add: monad_apply program_apply align_apply value_defs)

text \<open>
  A run that changes a declared object. The declared table \<open>t\<close> declares a partition on
  the column \<open>ts\<close>, constructed with the empty name; the live table has the column and a
  clustered index and is not partitioned. \<open>align_entity\<close> creates the partition, and
  \<open>ReflectedPartition._create_ex\<close> assigns the name of the new partition scheme to the
  declared partition: it comes back named \<open>ps_dbo_t_ts\<close>.
\<close>

theorem partition_creation_assigns_declared_name:
  "DeclaredEntity_init Partition (Some []) None IA_None [(''column'', KVal (PStr ''ts''))]
     = Inr (declared_partition [] ''ts'')
   \<and> DeclaredEntity_init Table (Some ''t'') None IA_None
       [(''partitions'', KObjs [declared_partition [] ''ts''])]
     = Inr (declared_table Ignore_None [(Partition, [declared_partition [] ''ts''])])
   \<and> fst (align_entity (declared_table Ignore_None [(Partition, [declared_partition [] ''ts''])])
             mini_table True (mini_world db_timestamps []))
     = Inr (declared_table Ignore_None [(Partition, [declared_partition ''ps_dbo_t_ts'' ''ts''])])"
proof -
  have p: "DeclaredEntity_init Partition (Some []) None IA_None [(''column'', KVal (PStr ''ts''))]
     = Inr (declared_partition [] ''ts'')"
    by (simp add: DeclaredEntity_init_def kwargs_pop_def declared_partition_def)
  have t: "DeclaredEntity_init Table (Some ''t'') None IA_None
       [(''partitions'', KObjs [declared_partition [] ''ts''])]
     = Inr (declared_table Ignore_None [(Partition, [declared_partition [] ''ts''])])"
    by (simp add: DeclaredEntity_init_def kwargs_pop_def declared_partition_def declared_table_def
          add_child_def)
  show ?thesis
    using p t partition_run by simp
qed

text \<open>What a returning computation returns.\<close>

lemma returns_ret: "R x \<Longrightarrow> returns (ret x) R"
  by (simp add: returns_def ret_def)

lemma returns_raise: "returns (raise e) R"
  by (simp add: returns_def raise_def)

lemma returns_bind: "(\<And>x. returns (f x) R) \<Longrightarrow> returns (bind m f) R"
  by (auto simp: returns_def dest!: bind_Inr)

lemma returns_bind_with: "returns m Q \<Longrightarrow> (\<And>x. Q x \<Longrightarrow> returns (f x) R) \<Longrightarrow> returns (bind m f) R"
  by (fastforce simp: returns_def dest!: bind_Inr)

lemma returns_catch: "returns m R \<Longrightarrow> returns h R \<Longrightarrow> returns (catch m e h) R"
  by (auto simp: returns_def catch_def split: prod.splits sum.splits if_splits)

lemma returns_if: "(c \<Longrightarrow> returns a R) \<Longrightarrow> (\<not> c \<Longrightarrow> returns b R) \<Longrightarrow> returns (if c then a else b) R"
  by simp

lemma returns_prod: "(\<And>a b. returns (f a b) R) \<Longrightarrow> returns (case p of (a, b) \<Rightarrow> f a b) R"
  by (cases p) simp

lemma returns_Let: "returns (f x) R \<Longrightarrow> returns (Let x f) R"
  by simp

lemma returnsD: "returns m R \<Longrightarrow> m w = (Inr x, w') \<Longrightarrow> R x"
  by (auto simp: returns_def)

lemmas returns_intros = returns_ret returns_raise returns_bind returns_catch returns_if returns_prod
  returns_Let

text \<open>Creating an object returns the declared object it was given, but for a partition,
  which comes back with the name of the partition scheme.\<close>

lemma create_ex_partition_returns:
  "returns (create_ex_partition parent d) (\<lambda>d'. \<exists>n. d' = declared_set_name n d)"
  unfolding create_ex_partition_def
  by (intro returns_intros) blast

lemma create_ex_returns:
  "returns (create_ex c parent d) (\<lambda>d'. d' = d \<or> (c = Partition \<and> (\<exists>n. d' = declared_set_name n d)))"
proof (cases c)
  case Partition
  then show ?thesis
    using create_ex_partition_returns [of parent d]
    by (auto simp: create_ex_def returns_def)
qed (simp_all add: create_ex_def returns_intros)

lemma create_returns:
  "returns (create c parent d) (\<lambda>d'. d' = d \<or> (c = Partition \<and> (\<exists>n. d' = declared_set_name n d)))"
  unfolding create_def
  by (intro returns_bind returns_bind_with [OF create_ex_returns] returns_if returns_raise returns_ret)

lemma get_or_create_returns:
  "returns (get_or_create c parent d)
     (\<lambda>(found, d'). d' = d \<or> (c = Partition \<and> (\<exists>n. d' = declared_set_name n d)))"
  unfolding get_or_create_def
  by (intro returns_catch returns_if returns_bind returns_bind_with [OF create_returns] returns_ret)
     simp_all

lemma object_type_inj: "object_type a = object_type b \<Longrightarrow> a = b"
  by (cases a; cases b) simp_all

lemma get_child_class_from_name_returns:
  "returns (get_child_class_from_name r (object_type t)) (\<lambda>c. c = t)"
  by (auto simp: returns_def get_child_class_from_name_def ret_def raise_def find_Some_iff
        split: option.splits dest: object_type_inj)

lemma get_or_create_child_returns:
  "returns (get_or_create_child r d)
     (\<lambda>(found, d'). d' = d \<or> (d_type d = Partition \<and> (\<exists>n. d' = declared_set_name n d)))"
  unfolding get_or_create_child_def
  by (rule returns_bind_with [OF get_child_class_from_name_returns]) (simp add: get_or_create_returns)


lemma erase_set_name: "d_type d = Partition \<Longrightarrow> erase_partition_names (declared_set_name n d) = erase_partition_names d"
  by (cases d) (simp add: declared_set_name_def)

lemma set_name_same: "declared_set_name (d_name d) d = d"
  by (cases d) (simp add: declared_set_name_def)

lemma erase_child_after:
  "d' = d \<or> (d_type d = Partition \<and> (\<exists>n. d' = declared_set_name n d)) \<Longrightarrow>
     erase_partition_names (declared_set_name (d_name d') d) = erase_partition_names d"
  by (auto simp: set_name_same erase_set_name)

lemma erase_children_lookup:
  "map_of ch0 k = Some cs \<Longrightarrow>
   map (map_prod (\<lambda>k. k) (map erase_partition_names)) ch1
     = map (map_prod (\<lambda>k. k) (map erase_partition_names)) ch0 \<Longrightarrow>
   \<exists>c1. map_of ch1 k = Some c1 \<and> map erase_partition_names c1 = map erase_partition_names cs"
proof (induction ch0 arbitrary: ch1)
  case Nil
  then show ?case by simp
next
  case (Cons p ch0)
  then show ?case
    by (cases ch1; cases p) (auto split: if_splits)
qed

lemma erase_set_children:
  "map_of ch1 k = Some c1 \<Longrightarrow> map erase_partition_names cs' = map erase_partition_names c1 \<Longrightarrow>
   map (map_prod (\<lambda>k. k) (map erase_partition_names)) (set_children k cs' ch1)
     = map (map_prod (\<lambda>k. k) (map erase_partition_names)) ch1"
  by (induction ch1) (auto split: if_splits)

lemma with_children_erase:
  "erase_partition_names d1 = erase_partition_names d0 \<Longrightarrow>
   \<forall>(k, cs') \<in> set ups. \<exists>cs. get_children d0 k = Some cs
       \<and> map erase_partition_names cs' = map erase_partition_names cs \<Longrightarrow>
   erase_partition_names (with_children ups d1) = erase_partition_names d0"
proof (induction ups arbitrary: d1)
  case Nil
  then show ?case by simp
next
  case (Cons u ups)
  obtain k cs' where u: "u = (k, cs')" by (cases u)
  from Cons.prems(2) u obtain cs where
      cs: "get_children d0 k = Some cs" "map erase_partition_names cs' = map erase_partition_names cs"
    by auto
  from Cons.prems(1) have ch: "map (map_prod (\<lambda>k. k) (map erase_partition_names)) (d_children d1)
      = map (map_prod (\<lambda>k. k) (map erase_partition_names)) (d_children d0)"
    by (cases d1; cases d0) simp
  from erase_children_lookup [OF cs(1) [unfolded get_children_def] ch] obtain c1 where
      c1: "map_of (d_children d1) k = Some c1" "map erase_partition_names c1 = map erase_partition_names cs"
    by blast
  have "erase_partition_names (Declared (d_type d1) (d_name d1) (d_old_name d1) (d_ignore d1)
          (set_children k cs' (d_children d1)) (d_attrs d1)) = erase_partition_names d1"
    using erase_set_children [OF c1(1), of cs'] cs(2) c1(2) by (cases d1) simp
  with Cons.prems(1) have "erase_partition_names (Declared (d_type d1) (d_name d1) (d_old_name d1)
      (d_ignore d1) (set_children k cs' (d_children d1)) (d_attrs d1)) = erase_partition_names d0"
    by simp
  from Cons.IH [OF this] Cons.prems(2) show ?case
    by (simp add: u)
qed

lemma align_returns:
  "returns (align_entity d r ac :: (declared, 'db) M) (\<lambda>d'. erase_partition_names d' = erase_partition_names d)"
  "returns (align_child_types d r Ts :: ((cls \<times> declared list) list, 'db) M)
     (\<lambda>ups. \<forall>(k, cs') \<in> set ups. \<exists>cs. get_children d k = Some cs
                \<and> map erase_partition_names cs' = map erase_partition_names cs)"
  "returns (align_child_type d r T :: (declared list option, 'db) M)
     (\<lambda>res. case res of None \<Rightarrow> True
             | Some cs' \<Rightarrow> \<exists>cs. get_children d T = Some cs
                 \<and> map erase_partition_names cs' = map erase_partition_names cs)"
  "returns (align_declared_children r dcs :: (declared list, 'db) M)
     (\<lambda>cs'. map erase_partition_names cs' = map erase_partition_names dcs)"
proof (induction d r ac and d r Ts and d r T and r dcs
    rule: align_entity_align_child_types_align_child_type_align_declared_children.induct)
  case (1 d r ac)
  show ?case
    apply (subst align_entity.simps)
    apply (rule returns_bind)+
    apply (rule returns_if)
     apply (rule returns_raise)
    apply (rule returns_bind)
    apply (rule returns_if)
     apply (rule returns_bind_with [OF 1])
       apply assumption
      apply assumption
     apply (rule returns_ret)
     apply (rule with_children_erase)
      apply simp
     apply assumption
    apply (rule returns_ret)
    apply simp
    done
next
  case (2 d r)
  show ?case by (simp add: returns_ret)
next
  case (3 d r T Ts)
  show ?case
    apply (subst align_child_types.simps)
    apply (rule returns_bind_with [OF 3(1)])
    apply (rule returns_bind_with [OF 3(2)])
    apply (rule returns_ret)
    apply (auto split: option.splits)
    done
next
  case (4 d r T)
  show ?case
  proof (cases "get_children d T")
    case None
    then show ?thesis
      apply (subst align_child_type.simps)
      apply (rule returns_bind)+
      apply (simp add: returns_ret)
      done
  next
    case (Some dcs)
    then show ?thesis
      apply (subst align_child_type.simps)
      apply (rule returns_bind)+
      apply (simp only: option.case)
      apply (rule returns_bind)
      apply (rule returns_bind_with [OF 4 [OF Some]])
      apply (rule returns_ret)
      apply simp
      done
  qed
next
  case (5 r)
  show ?case by (simp add: returns_ret)
next
  case (6 r dc rest)
  have step: "returns (case found of
                 None \<Rightarrow> ret (declared_set_name (d_name created) dc)
               | Some r' \<Rightarrow> (align_entity (declared_set_name (d_name created) dc) r' True
                            :: (declared, 'db) M))
             (\<lambda>d'. erase_partition_names d' = erase_partition_names dc)"
    if c: "created = dc \<or> (d_type dc = Partition \<and> (\<exists>n. created = declared_set_name n dc))"
    for found created
  proof (cases found)
    case None
    then show ?thesis
      by (simp add: returns_ret erase_child_after [OF c])
  next
    case (Some r')
    from 6(1) [OF refl, of created r'] show ?thesis
      by (simp add: Some erase_child_after [OF c])
  qed
  show ?case
    apply (subst align_declared_children.simps)
    apply (rule returns_bind)
    apply (rule returns_bind_with [OF get_or_create_child_returns])
    apply (case_tac xa)
    apply (simp only: prod.case)
    apply (rule returns_bind_with [OF step])
     apply assumption
    apply (rule returns_bind_with [OF 6(2)])
    apply (rule returns_ret)
    apply simp
    done
qed


lemma erase_fields:
  "erase_partition_names d' = erase_partition_names d \<Longrightarrow>
     d_type d' = d_type d \<and> d_old_name d' = d_old_name d \<and> d_ignore d' = d_ignore d
     \<and> d_attrs d' = d_attrs d \<and> (d_type d \<noteq> Partition \<longrightarrow> d_name d' = d_name d)
     \<and> map (map_prod (\<lambda>k. k) (map erase_partition_names)) (d_children d')
         = map (map_prod (\<lambda>k. k) (map erase_partition_names)) (d_children d)"
  by (cases d; cases d') (auto split: if_splits)

text \<open>
  C3. A run of \<open>align_entity\<close> that returns changes nothing of the declared tree but the
  names of declared partitions: the tree it leaves and the tree it was given are equal once the
  name of every declared partition is erased. So the type, the old name, the
  \<open>ignore_extra_children\<close> setting and the attributes of the declared object are as
  constructed, its name is as constructed unless it is a partition, and its children are as
  constructed up to the names of the declared partitions among them and below them.
\<close>

theorem align_entity_keeps_declared:
  "align_entity d r ac w = (Inr d', w') \<Longrightarrow>
     erase_partition_names d' = erase_partition_names d
     \<and> d_type d' = d_type d \<and> d_old_name d' = d_old_name d \<and> d_ignore d' = d_ignore d
     \<and> d_attrs d' = d_attrs d \<and> (d_type d \<noteq> Partition \<longrightarrow> d_name d' = d_name d)
     \<and> map (map_prod (\<lambda>k. k) (map erase_partition_names)) (d_children d')
         = map (map_prod (\<lambda>k. k) (map erase_partition_names)) (d_children d)"
proof -
  assume run: "align_entity d r ac w = (Inr d', w')"
  have "erase_partition_names d' = erase_partition_names d"
    using returnsD [OF align_returns(1) run] .
  then show ?thesis
    using erase_fields by blast
qed

theorem align_entity_keeps_declared_witness:
  "fst (align_entity (declared_table Ignore_None [(Partition, [declared_partition [] ''ts''])])
             mini_table True (mini_world db_timestamps []))
     = Inr (declared_table Ignore_None [(Partition, [declared_partition ''ps_dbo_t_ts'' ''ts''])])
   \<and> erase_partition_names
         (declared_table Ignore_None [(Partition, [declared_partition ''ps_dbo_t_ts'' ''ts''])])
       = erase_partition_names (declared_table Ignore_None [(Partition, [declared_partition [] ''ts''])])
   \<and> erase_partition_names
         (declared_table Ignore_None [(Partition, [declared_partition ''ps_dbo_t_ts'' ''ts''])])
       = declared_table Ignore_None [(Partition, [declared_partition [] ''ts''])]
   \<and> d_name (declared_table Ignore_None [(Partition, [declared_partition ''ps_dbo_t_ts'' ''ts''])])
       = ''t''"
proof -
  let ?d = "declared_table Ignore_None [(Partition, [declared_partition [] ''ts''])]"
  let ?d' = "declared_table Ignore_None [(Partition, [declared_partition ''ps_dbo_t_ts'' ''ts''])]"
  let ?w = "mini_world db_timestamps []"
  have run: "align_entity ?d mini_table True ?w = (Inr ?d', snd (align_entity ?d mini_table True ?w))"
    using partition_run by (simp add: prod_eq_iff)
  have e: "erase_partition_names ?d' = ?d"
    by (simp add: declared_table_def declared_partition_def)
  have n: "d_name ?d' = ''t''"
    by (simp add: declared_table_def)
  show ?thesis
    using align_entity_keeps_declared [OF run] partition_run e n by simp
qed


section \<open>Which live children alignment deletes\<close>







section \<open>Setting an attribute\<close>

text \<open>\<open>reset_attribute\<close> leaves no cached value of the attribute and no cached row of details,
  so that the next read of the attribute queries the server.\<close>

lemma reset_attribute_cache:
  "map_of (r_attributes (reset_attribute r a)) a = None \<and> r_detail_result (reset_attribute r a) = None"
  by (cases r) (auto simp add: reset_attribute_def set_attributes_def set_detail_result_def map_of_eq_None_iff)

text \<open>
  C4. \<open>set_attribute\<close> of the attribute \<open>a\<close> of the live entity \<open>r\<close> to its declared value.
  When the class of \<open>r\<close> has no method for altering \<open>a\<close>, the call returns \<open>False\<close> and its only
  effect is one error message in the log: it raises nothing and executes no statement. When
  there is a method \<open>m\<close>, the declared value \<open>v\<close> is read and the change is offered on the
  console; any answer but \<open>y\<close> returns \<open>False\<close> with nothing else done. After the answer \<open>y\<close>,
  when formatting \<open>r\<close>, the method \<open>m\<close> and the commit succeed, the attribute is reset and read
  again from the server, and the call raises \<open>DBNotAlteredAttributeError\<close> when the value read
  is not equal to \<open>v\<close> and returns \<open>True\<close> when it is.
\<close>

theorem set_attribute_protocol:
  "(set_attr_method (r_type r) a = (None :: (reflected \<Rightarrow> declared \<Rightarrow> (reflected, 'db) M) option) \<longrightarrow>
      set_attribute r d a (w :: 'db world)
        = (Inr (False, r),
           w\<lparr>w_trace := w_trace w @ [Log Error ''No method defined for altering {} attribute: {}''
                                        [LR (rpath r), LS a]]\<rparr>))
   \<and> (set_attr_method (r_type r) a = Some m \<and> declared_getattr d a w = (Inr v, w1)
        \<and> input (Ask_set_attribute (rpath r) a v) w1 = (Inr answer, w2) \<longrightarrow>
      (answer \<noteq> ''y'' \<longrightarrow> set_attribute r d a w = (Inr (False, r), w2))
      \<and> (answer = ''y'' \<and> reflected_str r w2 = (Inr r1, w3)
           \<and> m r1 d (w3\<lparr>w_trace := w_trace w3 @ [Log Info ''Setting {} {} = {}''
                                                    [LR (rpath r1), LS a, LV v]]\<rparr>) = (Inr r2, w4)
           \<and> cur_commit w4 = (Inr (), w5)
           \<and> getattr (reset_attribute r2 a) a w5 = (Inr (current, r3), w6) \<longrightarrow>
         map_of (r_attributes (reset_attribute r2 a)) a = None
         \<and> r_detail_result (reset_attribute r2 a) = None
         \<and> (\<not> py_eq current v \<longrightarrow> set_attribute r d a w = (Inl DBNotAlteredAttributeError, w6))
         \<and> (py_eq current v \<longrightarrow> set_attribute r d a w = (Inr (True, r3), w6))))"
proof -
  have none: "set_attribute r d a w
        = (Inr (False, r),
           w\<lparr>w_trace := w_trace w @ [Log Error ''No method defined for altering {} attribute: {}''
                                        [LR (rpath r), LS a]]\<rparr>)"
    if m: "set_attr_method (r_type r) a = (None :: (reflected \<Rightarrow> declared \<Rightarrow> (reflected, 'db) M) option)"
    unfolding set_attribute_def m
    by (simp add: bind_apply ret_apply log_def emit_def)
  have refused: "set_attribute r d a w = (Inr (False, r), w2)"
    if m: "set_attr_method (r_type r) a = Some m" and "declared_getattr d a w = (Inr v, w1)"
      and "input (Ask_set_attribute (rpath r) a v) w1 = (Inr answer, w2)" and "answer \<noteq> ''y''"
    unfolding set_attribute_def m using that(2-)
    by (simp add: bind_apply ret_apply)
  have approved: "(\<not> py_eq current v \<longrightarrow> set_attribute r d a w = (Inl DBNotAlteredAttributeError, w6))
         \<and> (py_eq current v \<longrightarrow> set_attribute r d a w = (Inr (True, r3), w6))"
    if m: "set_attr_method (r_type r) a = Some m" and "declared_getattr d a w = (Inr v, w1)"
      and "input (Ask_set_attribute (rpath r) a v) w1 = (Inr answer, w2)" and "answer = ''y''"
      and "reflected_str r w2 = (Inr r1, w3)"
      and "m r1 d (w3\<lparr>w_trace := w_trace w3 @ [Log Info ''Setting {} {} = {}''
                                                    [LR (rpath r1), LS a, LV v]]\<rparr>) = (Inr r2, w4)"
      and "cur_commit w4 = (Inr (), w5)"
      and "getattr (reset_attribute r2 a) a w5 = (Inr (current, r3), w6)"
    unfolding set_attribute_def m using that(2-)
    by (simp add: bind_apply ret_apply raise_apply log_def emit_def)
  show ?thesis
    using none refused approved reset_attribute_cache [of r2 a] by blast
qed

theorem set_attribute_protocol_witness:
  "set_attribute (live_index ''ix'') (declared_index ''ix'' [''c'']) ''columns''
          (mini_world db_indexed_column [])
     = (Inr (False, live_index ''ix''),
        (mini_world db_indexed_column [])\<lparr>w_trace :=
           [Log Error ''No method defined for altering {} attribute: {}''
              [LR [(Server, ''srv''), (Database, ''db''), (Schema, ''dbo''), (Table, ''t''),
                   (Index, ''ix'')], LS ''columns'']]\<rparr>)
   \<and> fst (set_attribute (live_column ''c'') (declared_column ''c'' ''bigint'') ''data_type''
          (mini_world db_plain_column [''n''])) = Inr (False, live_column ''c'')
   \<and> (case set_attribute (live_column ''c'') (declared_column ''c'' ''bigint'') ''data_type''
          (mini_world db_plain_column [''y'']) of
        (res, w) \<Rightarrow> (\<exists>r. res = Inr (True, r)) \<and> m_columns (w_db w) = [(''c'', ''bigint'')])
   \<and> fst (set_attribute (live_column ''c'') (declared_column ''c'' ''bigint'') ''data_type''
          (mini_world db_indexed_column [''y'', ''y''])) = Inl DBNotAlteredAttributeError"
proof -
  let ?d = "declared_column ''c'' ''bigint''"
  let ?c = "live_column ''c''"
  let ?a = "''data_type''"
  let ?v = "PStr ''bigint''"
  let ?p = "[(Server, ''srv''), (Database, ''db''), (Schema, ''dbo''), (Table, ''t''), (Column, ''c'')]"
  let ?setting = "Log Info ''Setting {} {} = {}'' [LR ?p, LS ?a, LV ?v]"
  have m: "set_attr_method (r_type ?c) ?a
             = Some (set_attr_data_type :: reflected \<Rightarrow> declared \<Rightarrow> (reflected, mini_db) M)"
    by (simp add: set_attr_method_def live_column_def)
  have p: "rpath ?c = ?p"
    by (simp add: value_defs)
  have first: "set_attribute (live_index ''ix'') (declared_index ''ix'' [''c'']) ''columns''
          (mini_world db_indexed_column [])
     = (Inr (False, live_index ''ix''),
        (mini_world db_indexed_column [])\<lparr>w_trace :=
           [Log Error ''No method defined for altering {} attribute: {}''
              [LR [(Server, ''srv''), (Database, ''db''), (Schema, ''dbo''), (Table, ''t''),
                   (Index, ''ix'')], LS ''columns'']]\<rparr>)"
    using set_attribute_protocol [where r = "live_index ''ix''" and a = "''columns''"
        and d = "declared_index ''ix'' [''c'']" and w = "mini_world db_indexed_column []"]
    by (simp add: set_attr_method_def value_defs)
  have second: "fst (set_attribute ?c ?d ?a (mini_world db_plain_column [''n''])) = Inr (False, ?c)"
  proof -
    let ?w = "mini_world db_plain_column [''n'']"
    let ?w2 = "snd (input (Ask_set_attribute ?p ?a ?v) ?w)"
    have g: "declared_getattr ?d ?a ?w = (Inr ?v, ?w)"
      by (simp add: monad_apply program_apply value_defs)
    have i: "input (Ask_set_attribute (rpath ?c) ?a ?v) ?w = (Inr ''n'', ?w2)"
      by (simp add: p) (simp add: monad_apply program_apply value_defs)
    show ?thesis
      using set_attribute_protocol [where r = ?c and a = ?a and d = ?d and w = ?w
          and m = set_attr_data_type and v = ?v and ?w1.0 = ?w and answer = "''n''" and ?w2.0 = ?w2]
        m g i
      by simp
  qed
  have third: "case set_attribute ?c ?d ?a (mini_world db_plain_column [''y'']) of
        (res, w) \<Rightarrow> (\<exists>r. res = Inr (True, r)) \<and> m_columns (w_db w) = [(''c'', ''bigint'')]"
  proof -
    let ?w = "mini_world db_plain_column [''y'']"
    let ?w2 = "snd (input (Ask_set_attribute ?p ?a ?v) ?w)"
    let ?x = "set_attr_data_type ?c ?d (?w2\<lparr>w_trace := w_trace ?w2 @ [?setting]\<rparr>)"
    let ?w5 = "snd (cur_commit (snd ?x))"
    let ?y = "getattr (reset_attribute ?c ?a) ?a ?w5"
    let ?r3 = "set_attributes [(?a, PStr ''bigint'')]
                 (set_detail_result (Some (column_row (''c'', ''bigint''))) ?c)"
    have g: "declared_getattr ?d ?a ?w = (Inr ?v, ?w)"
      by (simp add: monad_apply program_apply value_defs)
    have i: "input (Ask_set_attribute (rpath ?c) ?a ?v) ?w = (Inr ''y'', ?w2)"
      unfolding p by (simp add: monad_apply program_apply value_defs)
    have s: "reflected_str ?c ?w2 = (Inr ?c, ?w2)"
      by (simp add: monad_apply program_apply value_defs)
    have x: "set_attr_data_type ?c ?d (?w2\<lparr>w_trace := w_trace ?w2 @ [Log Info ''Setting {} {} = {}''
                                                    [LR (rpath ?c), LS ?a, LV ?v]]\<rparr>) = (Inr ?c, snd ?x)"
      unfolding p by (simp add: monad_apply program_apply value_defs)
    have c: "cur_commit (snd ?x) = (Inr (), ?w5)"
      by (simp add: monad_apply program_apply value_defs)
    have y: "?y = (Inr (PStr ''bigint'', ?r3), snd ?y)"
      by (simp add: monad_apply program_apply value_defs)
    have e: "m_columns (w_db (snd ?y)) = [(''c'', ''bigint'')]"
      by (simp add: monad_apply program_apply value_defs)
    show ?thesis
      using set_attribute_protocol [where r = ?c and a = ?a and d = ?d and w = ?w
          and m = set_attr_data_type and v = ?v and ?w1.0 = ?w and answer = "''y''" and ?w2.0 = ?w2
          and ?r1.0 = ?c and ?w3.0 = ?w2 and ?r2.0 = ?c and ?w4.0 = "snd ?x" and ?w5.0 = ?w5
          and ?current = "PStr ''bigint''" and ?r3.0 = ?r3 and ?w6.0 = "snd ?y"]
        m g i s x c y e
      by simp
  qed
  have fourth: "fst (set_attribute ?c ?d ?a (mini_world db_indexed_column [''y'', ''y''])) = Inl DBNotAlteredAttributeError"
  proof -
    let ?w = "mini_world db_indexed_column [''y'', ''y'']"
    let ?w2 = "snd (input (Ask_set_attribute ?p ?a ?v) ?w)"
    let ?x = "set_attr_data_type ?c ?d (?w2\<lparr>w_trace := w_trace ?w2 @ [?setting]\<rparr>)"
    let ?w5 = "snd (cur_commit (snd ?x))"
    let ?y = "getattr (reset_attribute ?c ?a) ?a ?w5"
    let ?r3 = "set_attributes [(?a, PStr ''int'')]
                 (set_detail_result (Some (column_row (''c'', ''int''))) ?c)"
    have g: "declared_getattr ?d ?a ?w = (Inr ?v, ?w)"
      by (simp add: monad_apply program_apply value_defs)
    have i: "input (Ask_set_attribute (rpath ?c) ?a ?v) ?w = (Inr ''y'', ?w2)"
      unfolding p by (simp add: monad_apply program_apply value_defs)
    have s: "reflected_str ?c ?w2 = (Inr ?c, ?w2)"
      by (simp add: monad_apply program_apply value_defs)
    have x: "set_attr_data_type ?c ?d (?w2\<lparr>w_trace := w_trace ?w2 @ [Log Info ''Setting {} {} = {}''
                                                    [LR (rpath ?c), LS ?a, LV ?v]]\<rparr>) = (Inr ?c, snd ?x)"
      unfolding p by (simp add: monad_apply program_apply value_defs)
    have c: "cur_commit (snd ?x) = (Inr (), ?w5)"
      by (simp add: monad_apply program_apply value_defs)
    have y: "?y = (Inr (PStr ''int'', ?r3), snd ?y)"
      by (simp add: monad_apply program_apply value_defs)
    show ?thesis
      using set_attribute_protocol [where r = ?c and a = ?a and d = ?d and w = ?w
          and m = set_attr_data_type and v = ?v and ?w1.0 = ?w and answer = "''y''" and ?w2.0 = ?w2
          and ?r1.0 = ?c and ?w3.0 = ?w2 and ?r2.0 = ?c and ?w4.0 = "snd ?x" and ?w5.0 = ?w5
          and ?current = "PStr ''int''" and ?r3.0 = ?r3 and ?w6.0 = "snd ?y"]
        m g i s x c y
      by simp
  qed
  show ?thesis
    using first second third fourth by simp
qed

end
